theory Spec2Isabelle
  imports Complex_Main "HOL-Library.Word"
begin

section \<open>System log buffer (src/lib/systemLogger.ts)\<close>

text \<open>
  The module keeps one mutable array \<open>systemLogs\<close>; the model passes it explicitly.
  The timestamp \<open>new Date().toISOString()\<close> is read from the clock, so it is an
  argument. \<open>details\<close> is an optional opaque payload.
\<close>

datatype log_level = Info | Warning | Error | Success

record SystemLog =
  timestamp :: string
  level :: log_level
  message :: string
  details :: "string option"

definition MAX_LOGS :: nat where
  "MAX_LOGS = 1000"

text \<open>\<open>unshift\<close> puts the new entry at index 0; \<open>slice(0, MAX_LOGS)\<close> keeps a prefix.\<close>

definition addSystemLog ::
  "string \<Rightarrow> log_level \<Rightarrow> string \<Rightarrow> string option \<Rightarrow> SystemLog list \<Rightarrow> SystemLog list" where
  "addSystemLog now lvl msg det systemLogs =
     (let log = \<lparr>timestamp = now, level = lvl, message = msg, details = det\<rparr>;
          logs1 = log # systemLogs
      in if length logs1 > MAX_LOGS then take MAX_LOGS logs1 else logs1)"

text \<open>The module body ends with one call, so every run starts from this buffer.\<close>

definition initialLogs :: "string \<Rightarrow> SystemLog list" where
  "initialLogs now = addSystemLog now Info ''System logging utility initialized'' None []"

text \<open>A sequence of calls, each with the clock reading at its time, oldest call first.\<close>

type_synonym log_call = "string \<times> log_level \<times> string \<times> string option"

definition entryOf :: "log_call \<Rightarrow> SystemLog" where
  "entryOf c = (case c of (now, lvl, msg, det) \<Rightarrow>
     \<lparr>timestamp = now, level = lvl, message = msg, details = det\<rparr>)"

fun runLogCalls :: "log_call list \<Rightarrow> SystemLog list \<Rightarrow> SystemLog list" where
  "runLogCalls [] logs = logs"
| "runLogCalls ((now, lvl, msg, det) # cs) logs = runLogCalls cs (addSystemLog now lvl msg det logs)"

section \<open>JavaScript numbers and dates\<close>

text \<open>
  A JavaScript \<open>number\<close> is a finite value, one of the two infinities, or NaN.
  Finite values are carried as reals, and the sign of zero is not represented. The
  operations \<open>js_add\<close> to \<open>js_div\<close> are exact on finite values; the rounding that
  the language applies to every result is \<open>binary64\<close> below. NaN and the infinities
  are kept, because the guards of the code (\<open>count > 0 ? sum / count : 0\<close>,
  \<open>x || 0\<close>, \<open>Math.min\<close>) exist to keep them out.
\<close>

datatype jsnum = Num real | PosInf | NegInf | NaN

fun js_neg :: "jsnum \<Rightarrow> jsnum" where
  "js_neg (Num a) = Num (- a)"
| "js_neg PosInf = NegInf"
| "js_neg NegInf = PosInf"
| "js_neg NaN = NaN"

fun js_add :: "jsnum \<Rightarrow> jsnum \<Rightarrow> jsnum" where
  "js_add (Num a) (Num b) = Num (a + b)"
| "js_add NaN y = NaN"
| "js_add x NaN = NaN"
| "js_add PosInf NegInf = NaN"
| "js_add NegInf PosInf = NaN"
| "js_add PosInf y = PosInf"
| "js_add NegInf y = NegInf"
| "js_add (Num a) y = y"

definition js_sub :: "jsnum \<Rightarrow> jsnum \<Rightarrow> jsnum" where
  "js_sub x y = js_add x (js_neg y)"

text \<open>Sign of a product or quotient with an infinite operand; zero counts as positive.\<close>

fun js_signed_inf :: "bool \<Rightarrow> jsnum" where
  "js_signed_inf True = PosInf"
| "js_signed_inf False = NegInf"

fun js_nonneg :: "jsnum \<Rightarrow> bool" where
  "js_nonneg (Num a) = (0 \<le> a)"
| "js_nonneg PosInf = True"
| "js_nonneg NegInf = False"
| "js_nonneg NaN = False"

fun js_mul :: "jsnum \<Rightarrow> jsnum \<Rightarrow> jsnum" where
  "js_mul (Num a) (Num b) = Num (a * b)"
| "js_mul NaN y = NaN"
| "js_mul x NaN = NaN"
| "js_mul (Num a) y = (if a = 0 then NaN else js_signed_inf (js_nonneg (Num a) = js_nonneg y))"
| "js_mul x (Num b) = (if b = 0 then NaN else js_signed_inf (js_nonneg x = js_nonneg (Num b)))"
| "js_mul x y = js_signed_inf (js_nonneg x = js_nonneg y)"

fun js_div :: "jsnum \<Rightarrow> jsnum \<Rightarrow> jsnum" where
  "js_div (Num a) (Num b) =
     (if b \<noteq> 0 then Num (a / b)
      else if a = 0 then NaN
      else js_signed_inf (0 < a))"
| "js_div NaN y = NaN"
| "js_div x NaN = NaN"
| "js_div (Num a) y = Num 0"
| "js_div x (Num b) = js_signed_inf (js_nonneg x = (0 \<le> b))"
| "js_div x y = NaN"

fun js_abs :: "jsnum \<Rightarrow> jsnum" where
  "js_abs (Num a) = Num \<bar>a\<bar>"
| "js_abs PosInf = PosInf"
| "js_abs NegInf = PosInf"
| "js_abs NaN = NaN"

text \<open>\<open>x >= y\<close> and \<open>x > y\<close>: every comparison with NaN is false.\<close>

fun js_ge :: "jsnum \<Rightarrow> jsnum \<Rightarrow> bool" where
  "js_ge (Num a) (Num b) = (b \<le> a)"
| "js_ge NaN y = False"
| "js_ge x NaN = False"
| "js_ge PosInf y = True"
| "js_ge x NegInf = True"
| "js_ge x y = False"

fun js_gt :: "jsnum \<Rightarrow> jsnum \<Rightarrow> bool" where
  "js_gt (Num a) (Num b) = (b < a)"
| "js_gt NaN y = False"
| "js_gt x NaN = False"
| "js_gt PosInf PosInf = False"
| "js_gt NegInf NegInf = False"
| "js_gt PosInf y = True"
| "js_gt x NegInf = True"
| "js_gt x y = False"

text \<open>\<open>Math.min\<close> and \<open>Math.max\<close> on two numbers: NaN if either is NaN.\<close>

definition Math_min :: "jsnum \<Rightarrow> jsnum \<Rightarrow> jsnum" where
  "Math_min x y = (if x = NaN \<or> y = NaN then NaN else if js_ge x y then y else x)"

definition Math_max :: "jsnum \<Rightarrow> jsnum \<Rightarrow> jsnum" where
  "Math_max x y = (if x = NaN \<or> y = NaN then NaN else if js_ge x y then x else y)"

text \<open>Truthiness of a number: 0 and NaN are falsy.\<close>

fun num_truthy :: "jsnum \<Rightarrow> bool" where
  "num_truthy (Num a) = (a \<noteq> 0)"
| "num_truthy NaN = False"
| "num_truthy x = True"

text \<open>A number is in the closed range \<open>[lo, hi]\<close>; NaN is in no range.\<close>

fun in_range :: "real \<Rightarrow> real \<Rightarrow> jsnum \<Rightarrow> bool" where
  "in_range lo hi (Num a) = (lo \<le> a \<and> a \<le> hi)"
| "in_range lo hi x = False"

subsection \<open>Rounding to binary64\<close>

text \<open>
  An arithmetic operation on numbers returns the binary64 value nearest to the exact
  result, a tie going to the even significand. \<open>binary64\<close> is that rounding. A value
  of magnitude \<open>a\<close> with \<open>2^k \<le> a < 2^(k+1)\<close> is divided by \<open>2^(k-52)\<close>, which
  brings it into the 53 bits of the significand (a subnormal is divided by
  \<open>2^-1074\<close>), rounded to an integer and multiplied back; a result of magnitude
  \<open>2^1024\<close> or more is an infinity. \<open>floorLog2\<close> finds \<open>k\<close> by bisection over the
  exponents from -4096 to 4095, which is more than binary64 has.

  \<open>add64\<close>, \<open>sub64\<close>, \<open>mul64\<close> and \<open>div64\<close> are the operators \<open>+\<close>, \<open>-\<close>, \<open>*\<close>
  and \<open>/\<close> of the language: the exact operation, then the rounding.
\<close>

definition roundHalfEven :: "real \<Rightarrow> int" where
  "roundHalfEven x =
     (let f = \<lfloor>x\<rfloor>; d = x - of_int f
      in if d < 1 / 2 then f else if 1 / 2 < d then f + 1 else if even f then f else f + 1)"

fun log2Up :: "nat list \<Rightarrow> real \<Rightarrow> int" where
  "log2Up [] x = 0"
| "log2Up (k # ks) x = (if 2 ^ k \<le> x then int k + log2Up ks (x / 2 ^ k) else log2Up ks x)"

fun log2Down :: "nat list \<Rightarrow> real \<Rightarrow> int" where
  "log2Down [] x = 0"
| "log2Down (k # ks) x = (if x * 2 ^ k < 1 then int k + log2Down ks (x * 2 ^ k) else log2Down ks x)"

definition exponentSteps :: "nat list" where
  "exponentSteps = [2048, 1024, 512, 256, 128, 64, 32, 16, 8, 4, 2, 1]"

definition floorLog2 :: "real \<Rightarrow> int" where
  "floorLog2 x = (if 1 \<le> x then log2Up exponentSteps x else - (log2Down exponentSteps x) - 1)"

definition pow2 :: "int \<Rightarrow> real" where
  "pow2 e = (if 0 \<le> e then 2 ^ nat e else 1 / 2 ^ nat (- e))"

definition binary64 :: "real \<Rightarrow> jsnum" where
  "binary64 x =
     (if x = 0 then Num 0
      else (let a = \<bar>x\<bar>;
                e = max (floorLog2 a - 52) (- 1074);
                v = of_int (roundHalfEven (a / pow2 e)) * pow2 e
            in if pow2 1024 \<le> v then (if 0 < x then PosInf else NegInf)
               else Num (if 0 < x then v else - v)))"

fun rounded :: "jsnum \<Rightarrow> jsnum" where
  "rounded (Num a) = binary64 a"
| "rounded x = x"

definition add64 :: "jsnum \<Rightarrow> jsnum \<Rightarrow> jsnum" where
  "add64 x y = rounded (js_add x y)"

definition sub64 :: "jsnum \<Rightarrow> jsnum \<Rightarrow> jsnum" where
  "sub64 x y = rounded (js_sub x y)"

definition mul64 :: "jsnum \<Rightarrow> jsnum \<Rightarrow> jsnum" where
  "mul64 x y = rounded (js_mul x y)"

definition div64 :: "jsnum \<Rightarrow> jsnum \<Rightarrow> jsnum" where
  "div64 x y = rounded (js_div x y)"

text \<open>
  A \<open>Date\<close> holds a time value in milliseconds since the epoch, or is the
  Invalid Date (time value NaN).
\<close>

datatype jsdate = Date int | InvalidDate

definition msPerDay :: int where
  "msPerDay = 24 * 60 * 60 * 1000"

text \<open>
  \<open>subDays\<close> and \<open>subHours\<close> come from the date-fns package. They are taken in a
  zone without clock changes, where a day is 24 hours.
\<close>

definition subDays :: "int \<Rightarrow> int \<Rightarrow> int" where
  "subDays d n = d - n * msPerDay"

definition subHours :: "int \<Rightarrow> int \<Rightarrow> int" where
  "subHours d n = d - n * (60 * 60 * 1000)"

text \<open>Range conditions of a query on a date field; an Invalid Date matches none.\<close>

fun date_gte :: "jsdate \<Rightarrow> int \<Rightarrow> bool" where
  "date_gte (Date t) a = (a \<le> t)"
| "date_gte InvalidDate a = False"

fun date_lte :: "jsdate \<Rightarrow> int \<Rightarrow> bool" where
  "date_lte (Date t) b = (t \<le> b)"
| "date_lte InvalidDate b = False"

fun date_lt :: "jsdate \<Rightarrow> int \<Rightarrow> bool" where
  "date_lt (Date t) b = (t < b)"
| "date_lt InvalidDate b = False"

subsection \<open>Thrown values\<close>

text \<open>
  What a thrown value leaves in \<open>error instanceof Error ? error.message : 'Unknown error'\<close>.
  A call that may throw returns a sum, \<open>Inl\<close> the value thrown; a save that may be
  rejected returns the value it is rejected with, or \<open>None\<close>.
\<close>

datatype thrown = ErrorObject string | OtherValue

fun errorMessage :: "thrown \<Rightarrow> string" where
  "errorMessage (ErrorObject m) = m"
| "errorMessage OtherValue = ''Unknown error''"

section \<open>Documents (src/models, src/services/scraper.ts)\<close>

datatype sentiment_label = Positive | Negative | Neutral

record Emotions =
  joy :: jsnum
  anger :: jsnum
  fear :: jsnum
  sadness :: jsnum
  surprise :: jsnum
  disgust :: jsnum

record SentimentAnalysis =
  score :: jsnum
  confidence :: jsnum
  label :: sentiment_label
  emotions :: "Emotions option"

record EntityExtraction =
  person :: "string list"
  organization :: "string list"
  location :: "string list"
  technology :: "string list"
  other :: "string list"

text \<open>The field \<open>keywords\<close> is written \<open>keywordList\<close>.\<close>

record KeywordExtraction =
  keywordList :: "string list"
  topics :: "string list"

record ArticleMetrics =
  readability :: jsnum
  wordCount :: nat
  socialShares :: nat

text \<open>
  \<open>ScrapedArticle\<close> is what the adapters produce. An \<open>Article\<close> document has the
  same fields and the ones added by \<open>processAndSaveArticles\<close>; an absent optional
  field is \<open>None\<close>.
\<close>

record ScrapedArticle =
  title :: string
  description :: string
  content :: string
  url :: string
  source :: string
  author :: "string option"
  publishedAt :: jsdate
  imageUrl :: "string option"
  category :: "string option"
  language :: "string option"

record Article = ScrapedArticle +
  urlHash :: string
  sentiment :: SentimentAnalysis
  keywordList :: "string list"
  entities :: EntityExtraction
  metrics :: ArticleMetrics

datatype track_category = Company | Technology | Person | Event | Custom

record AlertThreshold =
  sentimentChange :: jsnum
  volumeSpike :: jsnum

record KeywordTrack =
  keyword :: string
  category :: track_category
  isActive :: bool
  alertThreshold :: AlertThreshold

datatype alert_type = sentiment_change | volume_spike | keyword_mention | custom

datatype severity_level = low | medium | high | critical

text \<open>
  The \<open>data\<close> payload of an alert is one of the two objects \<open>checkKeywordAlerts\<close>
  builds. The \<open>message\<close> text, which prints the change with \<open>toFixed(1)\<close>, is left
  out of the model; \<open>createdAt\<close> is the time of the save.
\<close>

datatype alert_data =
  VolumeData string nat nat jsnum
  | SentimentData string jsnum jsnum jsnum

record Alert =
  type :: alert_type
  keyword :: string
  severity :: severity_level
  isRead :: bool
  isSent :: bool
  data :: alert_data
  createdAt :: int

section \<open>Analytics service (src/services/analytics.ts)\<close>

text \<open>
  The collections are lists of documents. \<open>Article.find\<close> with a keyword and a range
  of \<open>publishedAt\<close> is a filter of the list. \<open>sumScores\<close> is the sum of the scores in
  exact arithmetic, which the dashboard metrics below use; \<open>reduceScores\<close> is the same
  \<open>reduce\<close> with every addition rounded, and the alert evaluator computes with it and
  with the rounded operations throughout.
\<close>

definition findBetween :: "Article list \<Rightarrow> int \<Rightarrow> int \<Rightarrow> Article list" where
  \<comment> \<open>\<open>publishedAt: { $gte: a, $lte: b }\<close>\<close>
  "findBetween store a b =
     filter (\<lambda>x. date_gte (publishedAt x) a \<and> date_lte (publishedAt x) b) store"

definition findFromUntil :: "Article list \<Rightarrow> int \<Rightarrow> int \<Rightarrow> Article list" where
  \<comment> \<open>\<open>publishedAt: { $gte: a, $lt: b }\<close>\<close>
  "findFromUntil store a b =
     filter (\<lambda>x. date_gte (publishedAt x) a \<and> date_lt (publishedAt x) b) store"

definition withKeyword :: "string \<Rightarrow> Article list \<Rightarrow> Article list" where
  \<comment> \<open>\<open>keywords: { $in: [kw] }\<close>\<close>
  "withKeyword kw store = filter (\<lambda>x. kw \<in> set (Article.keywordList x)) store"

definition sumScores :: "Article list \<Rightarrow> jsnum" where
  \<comment> \<open>\<open>articles.reduce((sum, article) => sum + article.sentiment.score, 0)\<close>\<close>
  "sumScores articles = foldl (\<lambda>sum article. js_add sum (score (sentiment article))) (Num 0) articles"

text \<open>The length of an array as a number: an integer below \<open>2^32\<close>, which binary64 holds.\<close>

definition countNum :: "nat \<Rightarrow> jsnum" where
  "countNum n = Num (real n)"

subsection \<open>checkAlerts\<close>

text \<open>
  \<open>createAlert\<close> builds the document and awaits \<open>alert.save()\<close>. The outcome of the
  save belongs to the store: \<open>saveAlert\<close> is a parameter, and \<open>createAlert\<close> returns
  the document it hands to the store with the value the save is rejected with, if it
  is. Nothing in \<open>createAlert\<close> or \<open>checkKeywordAlerts\<close> catches that value.
\<close>

definition createAlert ::
  "(Alert \<Rightarrow> thrown option) \<Rightarrow> int \<Rightarrow> alert_type \<Rightarrow> string \<Rightarrow> severity_level \<Rightarrow> alert_data
     \<Rightarrow> Alert \<times> thrown option" where
  "createAlert saveAlert now ty kw sev d =
     (let alert = \<lparr>type = ty, keyword = kw, severity = sev, isRead = False, isSent = False,
                    data = d, createdAt = now\<rparr>
      in (alert, saveAlert alert))"

definition reduceScores :: "Article list \<Rightarrow> jsnum" where
  \<comment> \<open>\<open>articles.reduce((sum, article) => sum + article.sentiment.score, 0)\<close>\<close>
  "reduceScores articles = foldl (\<lambda>sum article. add64 sum (score (sentiment article))) (Num 0) articles"

definition volumeChangeOf :: "nat \<Rightarrow> nat \<Rightarrow> jsnum" where
  \<comment> \<open>\<open>previousCount > 0 ? ((recentCount - previousCount) / previousCount) * 100 : 0\<close>\<close>
  "volumeChangeOf recentCount previousCount =
     (if previousCount > 0
      then mul64 (div64 (sub64 (countNum recentCount) (countNum previousCount))
                        (countNum previousCount)) (Num 100)
      else Num 0)"

definition averageScore :: "Article list \<Rightarrow> jsnum" where
  \<comment> \<open>\<open>articles.reduce(...) / articles.length\<close>\<close>
  "averageScore articles = div64 (reduceScores articles) (countNum (length articles))"

definition sentimentChangeOf :: "jsnum \<Rightarrow> jsnum \<Rightarrow> jsnum" where
  \<comment> \<open>\<open>Math.abs(recentSentiment - previousSentiment) * 100\<close>\<close>
  "sentimentChangeOf recentSentiment previousSentiment =
     mul64 (js_abs (sub64 recentSentiment previousSentiment)) (Num 100)"

text \<open>
  The two checks in the body of \<open>checkKeywordAlerts\<close>. Each returns the alerts it
  hands to the store and the value thrown by a rejected save.
\<close>

definition volumeAlerts ::
  "(Alert \<Rightarrow> thrown option) \<Rightarrow> int \<Rightarrow> KeywordTrack \<Rightarrow> Article list \<Rightarrow> Article list
     \<Rightarrow> Alert list \<times> thrown option" where
  "volumeAlerts saveAlert now keywordTrack recentArticles previousArticles =
     (let recentCount = length recentArticles;
          previousCount = length previousArticles;
          volumeChange = volumeChangeOf recentCount previousCount
      in if js_ge volumeChange (volumeSpike (alertThreshold keywordTrack))
         then (case createAlert saveAlert now volume_spike (KeywordTrack.keyword keywordTrack)
                      (if js_gt volumeChange (Num 100) then high else medium)
                      (VolumeData (KeywordTrack.keyword keywordTrack) recentCount previousCount
                         volumeChange) of
                 (alert, outcome) \<Rightarrow> ([alert], outcome))
         else ([], None))"

definition sentimentAlerts ::
  "(Alert \<Rightarrow> thrown option) \<Rightarrow> int \<Rightarrow> KeywordTrack \<Rightarrow> Article list \<Rightarrow> Article list
     \<Rightarrow> Alert list \<times> thrown option" where
  "sentimentAlerts saveAlert now keywordTrack recentArticles previousArticles =
     (if length recentArticles > 0 \<and> length previousArticles > 0
      then
        (let recentSentiment = averageScore recentArticles;
             previousSentiment = averageScore previousArticles;
             sentimentChange = sentimentChangeOf recentSentiment previousSentiment
         in if js_ge sentimentChange (AlertThreshold.sentimentChange (alertThreshold keywordTrack))
            then (case createAlert saveAlert now sentiment_change (KeywordTrack.keyword keywordTrack)
                         (if js_gt sentimentChange (Num 50) then high else medium)
                         (SentimentData (KeywordTrack.keyword keywordTrack)
                            recentSentiment previousSentiment sentimentChange) of
                    (alert, outcome) \<Rightarrow> ([alert], outcome))
            else ([], None))
      else ([], None))"

text \<open>
  \<open>checkKeywordAlerts\<close> reads the two periods and runs the volume check, then the
  sentiment check. A rejected save of the volume alert ends it there: the sentiment
  check is not reached. Its result is the list of the alerts handed to the store, in
  order, and the value it throws, if any.
\<close>

definition checkKeywordAlerts ::
  "(Alert \<Rightarrow> thrown option) \<Rightarrow> int \<Rightarrow> Article list \<Rightarrow> KeywordTrack \<Rightarrow> Alert list \<times> thrown option" where
  "checkKeywordAlerts saveAlert now store keywordTrack =
     (let oneDayAgo = subDays now 1;
          twoDaysAgo = subDays now 2;
          recentArticles = findBetween (withKeyword (KeywordTrack.keyword keywordTrack) store) oneDayAgo now;
          previousArticles = findFromUntil (withKeyword (KeywordTrack.keyword keywordTrack) store) twoDaysAgo oneDayAgo
      in case volumeAlerts saveAlert now keywordTrack recentArticles previousArticles of
           (volumeCalls, Some e) \<Rightarrow> (volumeCalls, Some e)
         | (volumeCalls, None) \<Rightarrow>
             (case sentimentAlerts saveAlert now keywordTrack recentArticles previousArticles of
                (sentimentCalls, outcome) \<Rightarrow> (volumeCalls @ sentimentCalls, outcome)))"

text \<open>
  \<open>checkAlerts\<close> runs the check for the tracks of \<open>KeywordTrack.find({ isActive: true })\<close>,
  each inside its own \<open>try\<close>, so that a value thrown by one check is logged and the
  loop goes on. One clock reading stands for the \<open>new Date()\<close> of every check. The
  result is the list of the alerts handed to the store; \<open>storedAlerts\<close> are those the
  store accepted.
\<close>

definition checkAlerts ::
  "(Alert \<Rightarrow> thrown option) \<Rightarrow> int \<Rightarrow> Article list \<Rightarrow> KeywordTrack list \<Rightarrow> Alert list" where
  "checkAlerts saveAlert now store tracks =
     concat (map (\<lambda>keywordTrack. fst (checkKeywordAlerts saveAlert now store keywordTrack))
               (filter isActive tracks))"


section \<open>Reading the analytics claims\<close>

text \<open>
  The stored scores are finite numbers (the schema bounds them); these two
  definitions say that.
\<close>

fun scoreValue :: "Article \<Rightarrow> real" where
  "scoreValue x = (case score (sentiment x) of Num a \<Rightarrow> a | _ \<Rightarrow> 0)"

definition finiteScores :: "Article list \<Rightarrow> bool" where
  "finiteScores xs = list_all (\<lambda>x. score (sentiment x) = Num (scoreValue x)) xs"

text \<open>Sample documents for the concrete instances.\<close>

definition sampleArticle :: "string \<Rightarrow> int \<Rightarrow> string list \<Rightarrow> real \<Rightarrow> Article" where
  "sampleArticle u t kws s =
     \<lparr>title = ''title'', description = ''description'', content = ''content'', url = u,
      source = ''feed'', author = None, publishedAt = Date t, imageUrl = None,
      category = None, language = Some ''en'', urlHash = u,
      sentiment = \<lparr>score = Num s, confidence = Num 1, label = Neutral, emotions = None\<rparr>,
      keywordList = kws,
      entities = \<lparr>person = [], organization = [], location = [], technology = [], other = []\<rparr>,
      metrics = \<lparr>readability = Num 50, wordCount = 1, socialShares = 0\<rparr>\<rparr>"

definition sampleTrack :: "real \<Rightarrow> real \<Rightarrow> KeywordTrack" where
  "sampleTrack st vt =
     \<lparr>KeywordTrack.keyword = ''ai'', category = Technology, isActive = True,
      alertThreshold = \<lparr>sentimentChange = Num st, volumeSpike = Num vt\<rparr>\<rparr>"

text \<open>
  With the clock at 172800000 (two days after the epoch) the previous period holds
  the first two articles and the recent period the next five.
\<close>

definition sampleStore :: "Article list" where
  "sampleStore =
     [sampleArticle ''https://a.example/1'' 10 [''ai''] (- 0.3),
      sampleArticle ''https://a.example/2'' 20 [''ai'', ''chips''] (- 0.1),
      sampleArticle ''https://a.example/3'' 90000000 [''ai''] 0.1,
      sampleArticle ''https://a.example/4'' 90000001 [''ai''] 0.1,
      sampleArticle ''https://a.example/5'' 90000002 [''chips'', ''ai''] 0.1,
      sampleArticle ''https://a.example/6'' 90000003 [''ai''] 0.1,
      sampleArticle ''https://a.example/7'' 90000004 [''ai''] 0.1,
      sampleArticle ''https://a.example/8'' 90000005 [''chips''] 0.9,
      sampleArticle ''https://a.example/9'' (- 5) [''ai''] 0.9]"

text \<open>
  Two stores for the alert evaluator, with scores that are binary64 values. With the
  clock at 172800000, \<open>spikeStore\<close> has two articles of score -0.25 in the previous
  period and five of score 0.5 in the recent one. \<open>doubleStore\<close> has one article in
  each period: the score of the previous one is the binary64 value written \<open>-0.2\<close>,
  that of the recent one the binary64 value written \<open>0.1\<close>.
\<close>

definition spikeStore :: "Article list" where
  "spikeStore =
     [sampleArticle ''https://s.example/1'' 10 [''ai''] (- (1 / 4)),
      sampleArticle ''https://s.example/2'' 20 [''ai'', ''chips''] (- (1 / 4)),
      sampleArticle ''https://s.example/3'' 90000000 [''ai''] (1 / 2),
      sampleArticle ''https://s.example/4'' 90000001 [''ai''] (1 / 2),
      sampleArticle ''https://s.example/5'' 90000002 [''chips'', ''ai''] (1 / 2),
      sampleArticle ''https://s.example/6'' 90000003 [''ai''] (1 / 2),
      sampleArticle ''https://s.example/7'' 90000004 [''ai''] (1 / 2),
      sampleArticle ''https://s.example/8'' 90000005 [''chips''] (3 / 4),
      sampleArticle ''https://s.example/9'' (- 5) [''ai''] (3 / 4)]"

definition spikeRecent :: "Article list" where
  "spikeRecent =
     [sampleArticle ''https://s.example/3'' 90000000 [''ai''] (1 / 2),
      sampleArticle ''https://s.example/4'' 90000001 [''ai''] (1 / 2),
      sampleArticle ''https://s.example/5'' 90000002 [''chips'', ''ai''] (1 / 2),
      sampleArticle ''https://s.example/6'' 90000003 [''ai''] (1 / 2),
      sampleArticle ''https://s.example/7'' 90000004 [''ai''] (1 / 2)]"

definition spikePrevious :: "Article list" where
  "spikePrevious =
     [sampleArticle ''https://s.example/1'' 10 [''ai''] (- (1 / 4)),
      sampleArticle ''https://s.example/2'' 20 [''ai'', ''chips''] (- (1 / 4))]"

definition doubleRecent :: "Article list" where
  "doubleRecent =
     [sampleArticle ''https://d.example/2'' 90000000 [''ai'']
        (3602879701896397 / 36028797018963968)]"

definition doublePrevious :: "Article list" where
  "doublePrevious =
     [sampleArticle ''https://d.example/1'' 10 [''ai'']
        (- (3602879701896397 / 18014398509481984))]"

definition doubleStore :: "Article list" where
  "doubleStore = doublePrevious @ doubleRecent"

text \<open>A store of alerts that accepts every save, and one that rejects the volume alerts.\<close>

definition acceptAll :: "Alert \<Rightarrow> thrown option" where
  "acceptAll alert = None"

definition rejectVolume :: "Alert \<Rightarrow> thrown option" where
  "rejectVolume alert =
     (if type alert = volume_spike then Some (ErrorObject ''store unavailable'') else None)"

section \<open>Dashboard metrics (src/services/analytics.ts)\<close>

datatype timeframe = hour | day | week | month

record SentimentDistribution =
  positive :: nat
  negative :: nat
  neutral :: nat

text \<open>
  An entry of \<open>topKeywords\<close> or \<open>topSources\<close> is the triple of the key, its count and
  its sentiment. In \<open>TrendData\<close> the fields \<open>value\<close>, \<open>sentiment\<close> and \<open>count\<close> are
  written \<open>trendValue\<close>, \<open>trendSentiment\<close> and \<open>trendCount\<close>; in the other records a
  prefix is added where a field name is already in use.
\<close>

type_synonym top_entry = "string \<times> nat \<times> jsnum"

record TrendData =
  date :: int
  trendValue :: jsnum
  trendSentiment :: "jsnum option"
  trendCount :: "nat option"

record Overview =
  totalArticles :: nat
  averageSentiment :: jsnum
  sentimentDistribution :: SentimentDistribution
  topKeywords :: "top_entry list"
  topSources :: "top_entry list"
  recentAlerts :: nat

record Trends =
  sentimentTrend :: "TrendData list"
  volumeTrend :: "TrendData list"

record TimeRange =
  rangeStart :: int
  rangeEnd :: int

record DashboardMetrics =
  overview :: Overview
  trends :: Trends
  timeRange :: TimeRange

text \<open>\<open>.sort({ publishedAt: -1 }).limit(limit)\<close>; a limit of 0 means no limit.\<close>

fun dateKey :: "jsdate \<Rightarrow> int" where
  "dateKey (Date t) = t"
| "dateKey InvalidDate = 0"

definition sortNewestFirst :: "Article list \<Rightarrow> Article list" where
  "sortNewestFirst xs = sort_key (\<lambda>x. - dateKey (publishedAt x)) xs"

definition limitDocs :: "nat \<Rightarrow> 'a list \<Rightarrow> 'a list" where
  "limitDocs n xs = (if n = 0 then xs else take n xs)"

text \<open>
  \<open>keywordCounts\<close> and \<open>sourceCounts\<close> are plain objects used as tables. The model
  keeps the own properties in creation order. A key that names a property of
  \<open>Object.prototype\<close> reads as truthy before it is ever stored, so the code creates
  no entry for it.
\<close>

type_synonym count_table = "(string \<times> nat \<times> jsnum) list"

definition objectPrototypeKeys :: "string list" where
  "objectPrototypeKeys =
     [''constructor'', ''__proto__'', ''hasOwnProperty'', ''isPrototypeOf'',
      ''propertyIsEnumerable'', ''toLocaleString'', ''toString'', ''valueOf'',
      ''__defineGetter__'', ''__defineSetter__'', ''__lookupGetter__'', ''__lookupSetter__'']"

fun bumpEntry :: "string \<Rightarrow> jsnum \<Rightarrow> count_table \<Rightarrow> count_table" where
  "bumpEntry k s [] = [(k, 0 + 1, js_add (Num 0) s)]"
| "bumpEntry k s ((k', c, t) # rest) =
     (if k = k' then (k', c + 1, js_add t s) # rest else (k', c, t) # bumpEntry k s rest)"

definition addCount :: "string \<Rightarrow> jsnum \<Rightarrow> count_table \<Rightarrow> count_table" where
  "addCount k s table = (if k \<in> set objectPrototypeKeys then table else bumpEntry k s table)"

text \<open>
  \<open>Object.entries\<close> lists the keys that are array indices first, in ascending numeric
  order, then the other keys in creation order.
\<close>

definition isDigit :: "char \<Rightarrow> bool" where
  "isDigit c = (c \<in> set ''0123456789'')"

definition natOfDigits :: "string \<Rightarrow> nat" where
  "natOfDigits s = foldl (\<lambda>n c. 10 * n + (of_char c - 48)) 0 s"

definition isArrayIndex :: "string \<Rightarrow> bool" where
  "isArrayIndex s =
     (case s of
        [] \<Rightarrow> False
      | c # cs \<Rightarrow> list_all isDigit s \<and> (cs = [] \<or> c \<noteq> CHR ''0'') \<and> natOfDigits s < 4294967295)"

definition Object_entries :: "count_table \<Rightarrow> count_table" where
  "Object_entries table =
     sort_key (\<lambda>e. natOfDigits (fst e)) (filter (\<lambda>e. isArrayIndex (fst e)) table)
     @ filter (\<lambda>e. \<not> isArrayIndex (fst e)) table"

definition topTen :: "count_table \<Rightarrow> top_entry list" where
  \<comment> \<open>\<open>.map(...).sort((a, b) => b.count - a.count).slice(0, 10)\<close>; the sort is stable\<close>
  "topTen table =
     take 10 (sort_key (\<lambda>e. - int (fst (snd e)))
       (map (\<lambda>(k, c, s). (k, c, if c > 0 then js_div s (countNum c) else Num 0))
            (Object_entries table)))"

definition keywordCountsOf :: "Article list \<Rightarrow> count_table" where
  "keywordCountsOf articles =
     foldl (\<lambda>table article.
              foldl (\<lambda>tb kw. addCount kw (score (sentiment article)) tb) table
                    (Article.keywordList article))
           [] articles"

definition sourceCountsOf :: "Article list \<Rightarrow> count_table" where
  "sourceCountsOf articles =
     foldl (\<lambda>table article. addCount (source article) (score (sentiment article)) table)
           [] articles"

definition distributionOf :: "Article list \<Rightarrow> SentimentDistribution" where
  "distributionOf articles =
     foldl (\<lambda>acc article.
              (case label (sentiment article) of
                 Positive \<Rightarrow> acc\<lparr>positive := positive acc + 1\<rparr>
               | Negative \<Rightarrow> acc\<lparr>negative := negative acc + 1\<rparr>
               | Neutral \<Rightarrow> acc\<lparr>neutral := neutral acc + 1\<rparr>))
           \<lparr>positive = 0, negative = 0, neutral = 0\<rparr> articles"

datatype trend_type = SentimentTrend | VolumeTrend

definition ceilDiv :: "int \<Rightarrow> int \<Rightarrow> int" where
  \<comment> \<open>\<open>Math.ceil(a / b)\<close> for a positive \<open>b\<close>\<close>
  "ceilDiv a b = - ((- a) div b)"

definition generateSimpleTrend :: "Article list \<Rightarrow> int \<Rightarrow> int \<Rightarrow> trend_type \<Rightarrow> TrendData list" where
  "generateSimpleTrend store startDate endDate ty =
     (let days = ceilDiv (endDate - startDate) msPerDay
      in map (\<lambda>i.
           (let dayStart = startDate + int i * msPerDay;
                dayEnd = dayStart + msPerDay;
                dayArticles = findFromUntil store dayStart dayEnd
            in case ty of
                 SentimentTrend \<Rightarrow>
                   (let avgSentiment =
                          (if length dayArticles > 0
                           then js_div (sumScores dayArticles) (countNum (length dayArticles))
                           else Num 0)
                    in \<lparr>date = dayStart, trendValue = avgSentiment,
                        trendSentiment = Some avgSentiment,
                        trendCount = Some (length dayArticles)\<rparr>)
               | VolumeTrend \<Rightarrow>
                   \<lparr>date = dayStart, trendValue = countNum (length dayArticles),
                    trendSentiment = None, trendCount = Some (length dayArticles)\<rparr>))
         [0..<nat (min days 30)])"

definition startDateOf :: "timeframe \<Rightarrow> int \<Rightarrow> int" where
  "startDateOf tf now =
     (case tf of
        hour \<Rightarrow> subHours now 24
      | day \<Rightarrow> subDays now 30
      | week \<Rightarrow> subDays now 90
      | month \<Rightarrow> subDays now 365)"

definition generateDashboardMetrics ::
  "Article list \<Rightarrow> Alert list \<Rightarrow> int \<Rightarrow> timeframe \<Rightarrow> nat \<Rightarrow> DashboardMetrics" where
  "generateDashboardMetrics store alerts now tf limit =
     (let startDate = startDateOf tf now;
          articles = limitDocs limit (sortNewestFirst (findBetween store startDate now));
          total = length articles;
          avg = (if total > 0 then js_div (sumScores articles) (countNum total) else Num 0)
      in \<lparr>overview =
            \<lparr>totalArticles = total,
             averageSentiment = avg,
             sentimentDistribution = distributionOf articles,
             topKeywords = topTen (keywordCountsOf articles),
             topSources = topTen (sourceCountsOf articles),
             recentAlerts =
               length (filter (\<lambda>a. subHours now 24 \<le> createdAt a \<and> \<not> isRead a) alerts)\<rparr>,
          trends =
            \<lparr>sentimentTrend = generateSimpleTrend store startDate now SentimentTrend,
             volumeTrend = generateSimpleTrend store startDate now VolumeTrend\<rparr>,
          timeRange = \<lparr>rangeStart = startDate, rangeEnd = now\<rparr>\<rparr>)"

text \<open>\<open>getKeywordMetrics\<close> and its trend, for one keyword over the last \<open>days\<close> days.\<close>

record KeywordEntities =
  kmArticles :: nat
  kmAverageSentiment :: jsnum
  kmSources :: "string list"

record KeywordMetrics =
  kmKeyword :: string
  kmCount :: nat
  kmSentiment :: jsnum
  kmTrend :: "TrendData list"
  kmEntities :: KeywordEntities

definition generateKeywordTrend :: "Article list \<Rightarrow> string \<Rightarrow> int \<Rightarrow> int \<Rightarrow> TrendData list" where
  "generateKeywordTrend store kw startDate endDate =
     (let days = ceilDiv (endDate - startDate) msPerDay
      in map (\<lambda>i.
           (let dayStart = startDate + int i * msPerDay;
                dayEnd = dayStart + msPerDay;
                dayArticles = findFromUntil (withKeyword kw store) dayStart dayEnd;
                avgSentiment =
                  (if length dayArticles > 0
                   then js_div (sumScores dayArticles) (countNum (length dayArticles))
                   else Num 0)
            in \<lparr>date = dayStart, trendValue = countNum (length dayArticles),
                trendSentiment = Some avgSentiment,
                trendCount = Some (length dayArticles)\<rparr>))
         [0..<nat (min days 30)])"

definition getKeywordMetrics :: "Article list \<Rightarrow> int \<Rightarrow> string \<Rightarrow> int \<Rightarrow> KeywordMetrics" where
  "getKeywordMetrics store now kw days =
     (let startDate = subDays now days;
          articles = findBetween (withKeyword kw store) startDate now;
          cnt = length articles;
          sent = (if cnt > 0 then js_div (sumScores articles) (countNum cnt) else Num 0);
          sources = rev (remdups (rev (map source articles)))
      in \<lparr>kmKeyword = kw, kmCount = cnt, kmSentiment = sent,
          kmTrend = generateKeywordTrend store kw startDate now,
          kmEntities = \<lparr>kmArticles = cnt, kmAverageSentiment = sent, kmSources = sources\<rparr>\<rparr>)"

text \<open>
  The other analytics service (src/services/analytics-complex.ts) writes the mean as
  \<open>sum / totalArticles || 0\<close>: the quotient may be NaN and \<open>||\<close> replaces a falsy
  number by 0.
\<close>

definition averageSentimentComplex :: "Article list \<Rightarrow> jsnum" where
  "averageSentimentComplex articles =
     (let q = js_div (sumScores articles) (countNum (length articles))
      in if num_truthy q then q else Num 0)"

section \<open>Reading the dashboard claims\<close>

text \<open>
  A division that went wrong shows as NaN or an infinity; \<open>isFinite\<close> says that a
  number is neither. \<open>goodTable\<close> is the invariant of the count tables: every entry
  has a positive count and a finite sum.
\<close>

fun isFinite :: "jsnum \<Rightarrow> bool" where
  "isFinite (Num a) = True"
| "isFinite x = False"


definition goodTable :: "count_table \<Rightarrow> bool" where
  "goodTable t = list_all (\<lambda>e. fst (snd e) > 0 \<and> isFinite (snd (snd e))) t"


section \<open>Strings\<close>

text \<open>
  A character stands for one code unit of a JavaScript string; the model has the
  code units below 256. \<open>isWhitespace\<close> is the white space and line terminators among
  them, which is what \<open>trim\<close> strips and \<open>\s\<close> matches.
\<close>

definition isWhitespace :: "char \<Rightarrow> bool" where
  "isWhitespace c = ((of_char c :: nat) \<in> {9, 10, 11, 12, 13, 32, 160})"

definition trim :: "string \<Rightarrow> string" where
  "trim s = rev (dropWhile isWhitespace (rev (dropWhile isWhitespace s)))"

fun joinWith :: "string \<Rightarrow> string list \<Rightarrow> string" where
  "joinWith sep [] = []"
| "joinWith sep [x] = x"
| "joinWith sep (x # y # ys) = x @ sep @ joinWith sep (y # ys)"

definition newline :: string where
  "newline = [CHR 0x0A]"

text \<open>\<open>s.split(/\s+/).length\<close>: one more than the number of maximal runs of white space.\<close>

fun whitespaceRuns :: "bool \<Rightarrow> string \<Rightarrow> nat" where
  "whitespaceRuns inRun [] = 0"
| "whitespaceRuns inRun (c # cs) =
     (if isWhitespace c
      then (if inRun then 0 else 1) + whitespaceRuns True cs
      else whitespaceRuns False cs)"

definition splitWhitespaceCount :: "string \<Rightarrow> nat" where
  "splitWhitespaceCount s = whitespaceRuns False s + 1"

text \<open>A string operand of \<open>||\<close> or \<open>!\<close>: absent and empty strings are falsy.\<close>

fun strTruthy :: "string option \<Rightarrow> bool" where
  "strTruthy None = False"
| "strTruthy (Some s) = (s \<noteq> [])"

definition strOr :: "string option \<Rightarrow> string option \<Rightarrow> string option" where
  "strOr a b = (if strTruthy a then a else b)"

section \<open>News scraper (src/services/scraper.ts)\<close>

text \<open>
  \<open>createHash(algorithm).update(url).digest('hex')\<close> belongs to the runtime: \<open>digest\<close>
  is a parameter, \<open>Inl\<close> the value thrown when \<open>createHash\<close> does not know the
  algorithm. \<open>envAlgorithm\<close> is the value of \<open>ARTICLE_HASH_ALGORITHM\<close>.
\<close>

definition generateArticleHash ::
  "(string \<Rightarrow> string \<Rightarrow> thrown + string) \<Rightarrow> string option \<Rightarrow> string \<Rightarrow> thrown + string" where
  "generateArticleHash digest envAlgorithm u =
     (let algorithm = (case strOr envAlgorithm (Some ''sha256'') of Some a \<Rightarrow> a | None \<Rightarrow> ''sha256'')
      in digest algorithm u)"

text \<open>\<open>Article.findOne({ urlHash })\<close>.\<close>

definition findOneByHash :: "Article list \<Rightarrow> string \<Rightarrow> Article option" where
  "findOneByHash store h = find (\<lambda>a. urlHash a = h) store"

subsection \<open>extractFullContent\<close>

text \<open>
  A loaded page, after the removal of the unwanted elements, is the function that
  gives for a selector the \<open>text()\<close> of each matched element in document order.
\<close>

type_synonym page = "string \<Rightarrow> string list"

definition contentSelectors :: "string list" where
  "contentSelectors =
     [''[data-module=\"ArticleBody\"] p'',
      ''.article-body p'',
      ''.story-body p'',
      ''.post-content p'',
      ''.entry-content p'',
      ''.article-content p'',
      ''.content p'',
      ''article p'',
      ''main p'',
      ''.text p'']"

definition paragraphTexts :: "string list \<Rightarrow> string list" where
  \<comment> \<open>\<open>.map((_, el) => $(el).text().trim()).get().filter(text => text.length > 20)\<close>\<close>
  "paragraphTexts elements = filter (\<lambda>text. length text > 20) (map trim elements)"

text \<open>
  The loop over the selectors; \<open>found\<close> is the variable \<open>content\<close>. It is assigned
  whenever a selector matches at least two elements, and the loop stops only when the
  assigned text is longer than 100.
\<close>

fun trySelectors :: "page \<Rightarrow> string list \<Rightarrow> string \<Rightarrow> string" where
  "trySelectors pg [] found = found"
| "trySelectors pg (selector # rest) found =
     (let elements = pg selector
      in if length elements \<ge> 2
         then (let found1 = joinWith newline (paragraphTexts elements)
               in if length found1 > 100 then found1 else trySelectors pg rest found1)
         else trySelectors pg rest found)"

definition fallbackContent :: "page \<Rightarrow> string" where
  "fallbackContent pg = joinWith newline (take 10 (paragraphTexts (pg ''p'')))"

definition extractFromPage :: "page \<Rightarrow> string" where
  "extractFromPage pg =
     (let found = trySelectors pg contentSelectors [];
          found2 = (if found = [] \<or> length found < 100 then fallbackContent pg else found)
      in trim found2)"

text \<open>\<open>fetchPage\<close> is the request: \<open>None\<close> when it fails, and then the result is \<open>''\<close>.\<close>

definition extractFullContent :: "(string \<Rightarrow> page option) \<Rightarrow> string \<Rightarrow> string" where
  "extractFullContent fetchPage u =
     (case fetchPage u of None \<Rightarrow> [] | Some pg \<Rightarrow> extractFromPage pg)"

subsection \<open>Dates of scraped articles\<close>

text \<open>
  \<open>new Date(string)\<close> parses with the runtime's \<open>Date.parse\<close>, a parameter here:
  \<open>None\<close> is the NaN it returns for a string it cannot read.
\<close>

definition newDateOfString :: "(string \<Rightarrow> int option) \<Rightarrow> string \<Rightarrow> jsdate" where
  "newDateOfString dateParse s = (case dateParse s of Some t \<Rightarrow> Date t | None \<Rightarrow> InvalidDate)"

text \<open>\<open>parseDate\<close> of the HTML scraper (src/services/webScraper.ts).\<close>

definition parseDate :: "(string \<Rightarrow> int option) \<Rightarrow> int \<Rightarrow> string \<Rightarrow> jsdate" where
  "parseDate dateParse now dateString =
     (case newDateOfString dateParse dateString of
        Date t \<Rightarrow> Date t
      | InvalidDate \<Rightarrow> Date now)"

subsection \<open>scrapeRSSFeeds\<close>

text \<open>
  An item of a parsed feed and an \<open>RSSSource\<close> document. The fields of the item carry
  the prefix \<open>item\<close>, and \<open>url\<close>, \<open>category\<close> and \<open>isActive\<close> of the source the prefix
  \<open>feed\<close>.
\<close>

record RSSItem =
  itemLink :: "string option"
  itemTitle :: "string option"
  itemContentSnippet :: "string option"
  itemContent :: "string option"
  itemCreator :: "string option"
  itemAuthor :: "string option"
  itemPubDate :: "string option"
  itemIsoDate :: "string option"
  itemEnclosureUrl :: "string option"

record RSSSettings =
  fetchInterval :: int
  maxArticles :: int

record RSSSource =
  name :: string
  feedUrl :: string
  feedCategory :: string
  feedActive :: bool
  lastFetched :: "int option"
  lastSuccessful :: "int option"
  errorCount :: nat
  lastError :: "string option"
  settings :: RSSSettings

text \<open>
  What the scraper reads from outside: the hash, the feed parser (\<open>Inl\<close> the value it
  throws), the page request, \<open>Date.parse\<close>, and the store of the source documents:
  \<open>saveSource\<close> is the value \<open>source.save()\<close> is rejected with for a document, or
  \<open>None\<close> when the document is saved.
\<close>

record ScraperEnv =
  digest :: "string \<Rightarrow> string \<Rightarrow> thrown + string"
  envAlgorithm :: "string option"
  parseURL :: "string \<Rightarrow> thrown + RSSItem list"
  fetchPage :: "string \<Rightarrow> page option"
  dateParse :: "string \<Rightarrow> int option"
  saveSource :: "RSSSource \<Rightarrow> thrown option"

definition sliceFromZero :: "int \<Rightarrow> 'a list \<Rightarrow> 'a list" where
  \<comment> \<open>\<open>xs.slice(0, e)\<close>; a negative \<open>e\<close> counts from the end\<close>
  "sliceFromZero e xs = (if e < 0 then take (nat (int (length xs) + e)) xs else take (nat e) xs)"

definition rssPublishedAt :: "(string \<Rightarrow> int option) \<Rightarrow> int \<Rightarrow> RSSItem \<Rightarrow> jsdate" where
  \<comment> \<open>\<open>new Date(item.pubDate || item.isoDate || Date.now())\<close>\<close>
  "rssPublishedAt parse now item =
     (case strOr (itemPubDate item) (itemIsoDate item) of
        Some s \<Rightarrow> (if s \<noteq> [] then newDateOfString parse s else Date now)
      | None \<Rightarrow> Date now)"

definition orEmpty :: "string option \<Rightarrow> string" where
  "orEmpty a = (case a of Some s \<Rightarrow> s | None \<Rightarrow> [])"

definition rssArticle :: "ScraperEnv \<Rightarrow> int \<Rightarrow> RSSSource \<Rightarrow> RSSItem \<Rightarrow> string \<Rightarrow> ScrapedArticle" where
  "rssArticle env now src item fullContent =
     \<lparr>title = orEmpty (itemTitle item),
      description = orEmpty (strOr (itemContentSnippet item) (itemContent item)),
      content = orEmpty (strOr (Some fullContent) (strOr (itemContent item) (itemContentSnippet item))),
      url = orEmpty (itemLink item),
      source = name src,
      author = strOr (itemCreator item) (itemAuthor item),
      publishedAt = rssPublishedAt (dateParse env) now item,
      imageUrl = (if strTruthy (itemEnclosureUrl item) then itemEnclosureUrl item else None),
      category = Some (feedCategory src),
      language = Some ''en''\<rparr>"

text \<open>
  The loop over the items of one feed. It returns the value thrown, if any, and the
  articles pushed so far: an article pushed before a throw stays in the list.
\<close>

fun scrapeItems ::
  "ScraperEnv \<Rightarrow> Article list \<Rightarrow> int \<Rightarrow> RSSSource \<Rightarrow> RSSItem list \<Rightarrow> ScrapedArticle list
     \<Rightarrow> thrown option \<times> ScrapedArticle list" where
  "scrapeItems env store now src [] articles = (None, articles)"
| "scrapeItems env store now src (item # items) articles =
     (if \<not> strTruthy (itemLink item) \<or> \<not> strTruthy (itemTitle item)
      then scrapeItems env store now src items articles
      else (case generateArticleHash (digest env) (envAlgorithm env) (orEmpty (itemLink item)) of
              Inl e \<Rightarrow> (Some e, articles)
            | Inr h \<Rightarrow>
                if findOneByHash store h \<noteq> None
                then scrapeItems env store now src items articles
                else scrapeItems env store now src items
                       (articles @ [rssArticle env now src item
                                      (extractFullContent (fetchPage env) (orEmpty (itemLink item)))])))"

text \<open>
  One turn of the loop over the sources. \<open>scrapeSourceOutcome\<close> is the \<open>try\<close> block up
  to the end of the loop over the items; the waiting of \<open>rateLimit\<close> is not
  represented. \<open>tryUpdate\<close> is the three assignments that end the \<open>try\<close> block and
  \<open>catchUpdate\<close> the three of the \<open>catch\<close> block, on the document as it is when they
  run. One clock reading stands for every \<open>new Date()\<close> of the turn.
\<close>

definition scrapeSourceOutcome ::
  "ScraperEnv \<Rightarrow> Article list \<Rightarrow> int \<Rightarrow> RSSSource \<Rightarrow> ScrapedArticle list
     \<Rightarrow> thrown option \<times> ScrapedArticle list" where
  "scrapeSourceOutcome env store now src articles =
     (case parseURL env (feedUrl src) of
        Inl e \<Rightarrow> (Some e, articles)
      | Inr items \<Rightarrow>
          scrapeItems env store now src (sliceFromZero (maxArticles (settings src)) items) articles)"

definition tryUpdate :: "int \<Rightarrow> RSSSource \<Rightarrow> RSSSource" where
  "tryUpdate now src = src\<lparr>lastFetched := Some now, lastSuccessful := Some now, errorCount := 0\<rparr>"

definition catchUpdate :: "int \<Rightarrow> RSSSource \<Rightarrow> thrown \<Rightarrow> RSSSource" where
  "catchUpdate now src e =
     src\<lparr>lastFetched := Some now, errorCount := errorCount src + 1,
         lastError := Some (errorMessage e)\<rparr>"

text \<open>
  The \<open>catch\<close> block saves the document it has updated. Nothing guards that save: when
  it is rejected the value leaves the loop and \<open>scrapeRSSFeeds\<close> (\<open>Inl\<close>); otherwise
  the result is the document saved.
\<close>

definition catchBlock :: "ScraperEnv \<Rightarrow> int \<Rightarrow> RSSSource \<Rightarrow> thrown \<Rightarrow> thrown + RSSSource" where
  "catchBlock env now src e =
     (let updated = catchUpdate now src e
      in case saveSource env updated of
           None \<Rightarrow> Inr updated
         | Some rejection \<Rightarrow> Inl rejection)"

text \<open>
  The save that ends the \<open>try\<close> block is inside it: when it is rejected, the \<open>catch\<close>
  block runs on the document that already carries the assignments of \<open>tryUpdate\<close>.
\<close>

definition scrapeSource ::
  "ScraperEnv \<Rightarrow> Article list \<Rightarrow> int \<Rightarrow> RSSSource \<Rightarrow> ScrapedArticle list
     \<Rightarrow> (thrown + RSSSource) \<times> ScrapedArticle list" where
  "scrapeSource env store now src articles =
     (case scrapeSourceOutcome env store now src articles of
        (Some e, pushed) \<Rightarrow> (catchBlock env now src e, pushed)
      | (None, pushed) \<Rightarrow>
          (let updated = tryUpdate now src
           in case saveSource env updated of
                None \<Rightarrow> (Inr updated, pushed)
              | Some rejection \<Rightarrow> (catchBlock env now updated rejection, pushed)))"

text \<open>
  The loop over the sources. It returns the documents saved, in the order of the
  query, and either the articles or the value that left the loop; the sources after
  that one are not reached.
\<close>

fun scrapeSources ::
  "ScraperEnv \<Rightarrow> Article list \<Rightarrow> int \<Rightarrow> RSSSource list \<Rightarrow> ScrapedArticle list
     \<Rightarrow> RSSSource list \<times> (thrown + ScrapedArticle list)" where
  "scrapeSources env store now [] articles = ([], Inr articles)"
| "scrapeSources env store now (src # rest) articles =
     (case scrapeSource env store now src articles of
        (Inl e, pushed) \<Rightarrow> ([], Inl e)
      | (Inr saved, pushed) \<Rightarrow>
          (case scrapeSources env store now rest pushed of
             (documents, result) \<Rightarrow> (saved # documents, result)))"

text \<open>
  \<open>scrapeRSSFeeds\<close> reads the sources with \<open>RSSSource.find({ isActive: true })\<close> and
  returns the articles, or throws; the first component is the documents it has saved.
\<close>

definition scrapeRSSFeeds ::
  "ScraperEnv \<Rightarrow> Article list \<Rightarrow> int \<Rightarrow> RSSSource list
     \<Rightarrow> RSSSource list \<times> (thrown + ScrapedArticle list)" where
  "scrapeRSSFeeds env store now sources =
     scrapeSources env store now (filter feedActive sources) []"

subsection \<open>processAndSaveArticles\<close>

text \<open>
  The calls of the enrichment service and the save of the document are parameters.
  A call gives \<open>Inl\<close> when it throws; \<open>saveArticle\<close> tells whether \<open>article.save()\<close>
  on the current collection succeeds (validation, unique index, connection).
\<close>

record EnrichEnv =
  translateTo :: "string \<Rightarrow> thrown + string"
  sentimentOf :: "string \<Rightarrow> thrown + SentimentAnalysis"
  entitiesOf :: "string \<Rightarrow> thrown + EntityExtraction"
  keywordsOf :: "string \<Rightarrow> thrown + KeywordExtraction"
  readabilityOf :: "string \<Rightarrow> thrown + jsnum"
  saveArticle :: "Article list \<Rightarrow> Article \<Rightarrow> bool"

definition analysisTextOf :: "EnrichEnv \<Rightarrow> ScrapedArticle \<Rightarrow> string" where
  "analysisTextOf en scrapedArticle =
     (let text0 = (if content scrapedArticle = [] \<or> length (content scrapedArticle) < 50
                   then title scrapedArticle @ ''. '' @ description scrapedArticle
                   else content scrapedArticle)
      in if strTruthy (language scrapedArticle) \<and> language scrapedArticle \<noteq> Some ''en''
         then (case translateTo en text0 of Inr t \<Rightarrow> t | Inl e \<Rightarrow> text0)
         else text0)"

definition buildArticle :: "EnrichEnv \<Rightarrow> ScrapedArticle \<Rightarrow> string \<Rightarrow> Article" where
  "buildArticle en scrapedArticle h =
     (let analysisText = analysisTextOf en scrapedArticle;
          sent = (case sentimentOf en analysisText of
                    Inr r \<Rightarrow> r
                  | Inl e \<Rightarrow> \<lparr>score = Num 0, confidence = Num 0.1, label = Neutral, emotions = None\<rparr>);
          ents = (case entitiesOf en analysisText of
                    Inr r \<Rightarrow> r
                  | Inl e \<Rightarrow> \<lparr>person = [], organization = [], location = [], technology = [],
                              other = []\<rparr>);
          keywordData = (case keywordsOf en analysisText of
                    Inr r \<Rightarrow> r
                  | Inl e \<Rightarrow> \<lparr>KeywordExtraction.keywordList = [], topics = []\<rparr>);
          readab = (case readabilityOf en analysisText of Inr r \<Rightarrow> r | Inl e \<Rightarrow> Num 5)
      in \<lparr>title = title scrapedArticle,
          description = description scrapedArticle,
          content = content scrapedArticle,
          url = url scrapedArticle,
          source = source scrapedArticle,
          author = author scrapedArticle,
          publishedAt = publishedAt scrapedArticle,
          imageUrl = imageUrl scrapedArticle,
          category = ScrapedArticle.category scrapedArticle,
          language = strOr (language scrapedArticle) (Some ''en''),
          urlHash = h,
          sentiment = sent,
          keywordList = KeywordExtraction.keywordList keywordData,
          entities = ents,
          metrics = \<lparr>readability = readab,
                     wordCount = splitWhitespaceCount analysisText,
                     socialShares = 0\<rparr>\<rparr>)"

text \<open>
  One turn of the loop: the \<open>try\<close> block, whose \<open>catch\<close> logs and goes on. The result is
  the collection after the turn. The read \<open>Article.findOne\<close> is taken to succeed.
\<close>

definition processArticle ::
  "ScraperEnv \<Rightarrow> EnrichEnv \<Rightarrow> Article list \<Rightarrow> ScrapedArticle \<Rightarrow> Article list" where
  "processArticle env en store scrapedArticle =
     (case generateArticleHash (digest env) (envAlgorithm env) (url scrapedArticle) of
        Inl e \<Rightarrow> store
      | Inr h \<Rightarrow>
          if findOneByHash store h \<noteq> None then store
          else (let article = buildArticle en scrapedArticle h
                in if saveArticle en store article then store @ [article] else store))"

definition processAndSaveArticles ::
  "ScraperEnv \<Rightarrow> EnrichEnv \<Rightarrow> Article list \<Rightarrow> ScrapedArticle list \<Rightarrow> Article list" where
  "processAndSaveArticles env en store scrapedArticles =
     (let maxArticlesToProcess = min (length scrapedArticles) 10;
          articlesToProcess = take maxArticlesToProcess scrapedArticles
      in foldl (processArticle env en) store articlesToProcess)"

section \<open>Reading the extraction claim\<close>

text \<open>
  A selector succeeds when it matches at least two elements and the joined text of its
  kept paragraphs is longer than 100, the condition under which the loop stops.
  \<open>boundaryPage\<close> has two paragraphs under \<open>.article-body\<close>, of 50 and 49
  characters, followed by ten more paragraphs of 30 characters.
\<close>

definition selectorSucceeds :: "page \<Rightarrow> string \<Rightarrow> bool" where
  "selectorSucceeds pg selector =
     (length (pg selector) \<ge> 2 \<and> length (joinWith newline (paragraphTexts (pg selector))) > 100)"

definition boundaryPage :: page where
  "boundaryPage selector =
     (if selector = ''.article-body p''
      then [replicate 50 (CHR ''a''), replicate 49 (CHR ''b'')]
      else if selector = ''p''
      then [replicate 50 (CHR ''a''), replicate 49 (CHR ''b'')] @ replicate 10 (replicate 30 (CHR ''c''))
      else [])"


section \<open>Reading the scraper claims\<close>

text \<open>
  \<open>sourceThrows\<close> is the value thrown inside the \<open>try\<close> block of a source before its
  save, if any, and \<open>sourceArticles\<close> the articles the block pushes. \<open>itemsThrow\<close> is
  the value thrown while the items of a fetched feed are handled. The sample
  environment hashes by prefixing the algorithm name, reaches no page, reads no date
  string, saves every source document, and serves one feed that fails and one with a
  single item.
\<close>

definition sourceThrows :: "ScraperEnv \<Rightarrow> Article list \<Rightarrow> int \<Rightarrow> RSSSource \<Rightarrow> thrown option" where
  "sourceThrows env store now src = fst (scrapeSourceOutcome env store now src [])"

definition sourceArticles :: "ScraperEnv \<Rightarrow> Article list \<Rightarrow> int \<Rightarrow> RSSSource \<Rightarrow> ScrapedArticle list" where
  "sourceArticles env store now src = snd (scrapeSourceOutcome env store now src [])"

definition itemsThrow ::
  "ScraperEnv \<Rightarrow> Article list \<Rightarrow> int \<Rightarrow> RSSSource \<Rightarrow> RSSItem list \<Rightarrow> thrown option" where
  "itemsThrow env store now src items =
     fst (scrapeItems env store now src (sliceFromZero (maxArticles (settings src)) items) [])"

definition sampleEnv :: "(string \<Rightarrow> thrown + RSSItem list) \<Rightarrow> ScraperEnv" where
  "sampleEnv feeds =
     \<lparr>digest = (\<lambda>algorithm u. Inr (algorithm @ '':'' @ u)), envAlgorithm = None,
      parseURL = feeds, fetchPage = (\<lambda>u. None), dateParse = (\<lambda>s. None),
      saveSource = (\<lambda>document. None)\<rparr>"

definition sampleSource :: "string \<Rightarrow> nat \<Rightarrow> string option \<Rightarrow> RSSSource" where
  "sampleSource u n err =
     \<lparr>name = ''Feed'', feedUrl = u, feedCategory = ''world'', feedActive = True,
      lastFetched = Some 5, lastSuccessful = Some 4, errorCount = n, lastError = err,
      settings = \<lparr>fetchInterval = 15, maxArticles = 50\<rparr>\<rparr>"

definition sampleItem :: "string \<Rightarrow> string option \<Rightarrow> RSSItem" where
  "sampleItem u d =
     \<lparr>itemLink = Some u, itemTitle = Some ''Headline'', itemContentSnippet = Some ''snippet'',
      itemContent = None, itemCreator = None, itemAuthor = None, itemPubDate = d,
      itemIsoDate = None, itemEnclosureUrl = None\<rparr>"

definition sampleFeeds :: "string \<Rightarrow> thrown + RSSItem list" where
  "sampleFeeds u =
     (if u = ''https://down.example/rss'' then Inl (ErrorObject ''socket hang up'')
      else Inr [sampleItem ''https://up.example/story'' (Some ''not a date'')])"

text \<open>
  Three more environments: one whose runtime does not know the hash algorithm, one
  whose store rejects the save that ends the \<open>try\<close> block (the document with error
  count 0) and accepts the one of the \<open>catch\<close> block, and one whose store rejects
  every save.
\<close>

definition noDigestEnv :: ScraperEnv where
  "noDigestEnv =
     (sampleEnv sampleFeeds)\<lparr>digest := (\<lambda>algorithm u. Inl (ErrorObject ''Digest method not supported''))\<rparr>"

definition rejectResetEnv :: ScraperEnv where
  "rejectResetEnv =
     (sampleEnv sampleFeeds)\<lparr>saveSource :=
        (\<lambda>document. if errorCount document = 0 then Some (ErrorObject ''write conflict'') else None)\<rparr>"

definition rejectAllEnv :: ScraperEnv where
  "rejectAllEnv =
     (sampleEnv sampleFeeds)\<lparr>saveSource := (\<lambda>document. Some (ErrorObject ''write conflict''))\<rparr>"

text \<open>
  \<open>documentAfter\<close> is the document a turn of the loop leaves for a source when the
  store accepts the saves: the one of the \<open>catch\<close> block when the \<open>try\<close> block has
  thrown, the one of the \<open>try\<close> block otherwise.
\<close>

definition documentAfter :: "ScraperEnv \<Rightarrow> Article list \<Rightarrow> int \<Rightarrow> RSSSource \<Rightarrow> RSSSource" where
  "documentAfter env store now src =
     (case sourceThrows env store now src of
        Some e \<Rightarrow> catchUpdate now src e
      | None \<Rightarrow> tryUpdate now src)"

text \<open>
  A sample enrichment service, whose entity extraction throws and whose save succeeds
  or fails as told, and a sample scraped article.
\<close>

definition sampleEnrich :: "bool \<Rightarrow> EnrichEnv" where
  "sampleEnrich ok =
     \<lparr>translateTo = (\<lambda>t. Inr t),
      sentimentOf = (\<lambda>t. Inr \<lparr>score = Num 0.5, confidence = Num 0.9, label = Positive, emotions = None\<rparr>),
      entitiesOf = (\<lambda>t. Inl OtherValue),
      keywordsOf = (\<lambda>t. Inr \<lparr>KeywordExtraction.keywordList = [''ai''], topics = []\<rparr>),
      readabilityOf = (\<lambda>t. Inr (Num 60)),
      saveArticle = (\<lambda>store article. ok)\<rparr>"

definition sampleScraped :: "string \<Rightarrow> string \<Rightarrow> string \<Rightarrow> ScrapedArticle" where
  "sampleScraped u t c =
     \<lparr>title = t, description = ''description'', content = c, url = u, source = ''feed'',
      author = None, publishedAt = Date 0, imageUrl = None, category = None,
      language = Some ''en''\<rparr>"


section \<open>Snapshot caching (src/services/analytics-complex.ts)\<close>

text \<open>
  An \<open>Analytics\<close> document; its fields \<open>date\<close>, \<open>timeframe\<close> and \<open>metrics\<close> carry the
  prefix \<open>snapshot\<close>. The three entity lists and the two distributions are always
  saved empty.
\<close>

record SnapshotMetrics =
  smTotalArticles :: nat
  smSentimentDistribution :: SentimentDistribution
  smAverageSentiment :: jsnum
  smTopKeywords :: "top_entry list"
  smTopSources :: "top_entry list"
  smTopCompanies :: "top_entry list"
  smTopPeople :: "top_entry list"
  smTopTechnologies :: "top_entry list"
  smLanguageDistribution :: "(string \<times> nat) list"
  smCategoryDistribution :: "(string \<times> nat) list"

record AnalyticsDoc =
  snapshotDate :: int
  snapshotTimeframe :: timeframe
  snapshotMetrics :: SnapshotMetrics

text \<open>
  What \<open>generateAndCacheAnalytics\<close> reads from outside: \<open>startOf\<close> stands for
  \<open>startOfHour\<close>, \<open>startOfDay\<close>, \<open>startOfWeek\<close> and \<open>startOfMonth\<close> of date-fns,
  \<open>clock\<close> is the \<open>new Date()\<close> of the turn for a timeframe, \<open>computeOverview\<close> the
  overview of this service's \<open>generateDashboardMetrics\<close> (\<open>Inl\<close> when it throws), and
  \<open>saveSnapshot\<close> tells whether the save on the current collection succeeds.
\<close>

record CacheEnv =
  startOf :: "timeframe \<Rightarrow> int \<Rightarrow> int"
  clock :: "timeframe \<Rightarrow> int"
  computeOverview :: "timeframe \<Rightarrow> int \<Rightarrow> thrown + Overview"
  saveSnapshot :: "AnalyticsDoc list \<Rightarrow> AnalyticsDoc \<Rightarrow> bool"

definition findSnapshot :: "AnalyticsDoc list \<Rightarrow> int \<Rightarrow> timeframe \<Rightarrow> AnalyticsDoc option" where
  \<comment> \<open>\<open>Analytics.findOne({ date: dateToCache, timeframe })\<close>\<close>
  "findSnapshot docs d tf = find (\<lambda>x. snapshotDate x = d \<and> snapshotTimeframe x = tf) docs"

definition snapshotOf :: "int \<Rightarrow> timeframe \<Rightarrow> Overview \<Rightarrow> AnalyticsDoc" where
  "snapshotOf dateToCache tf ov =
     \<lparr>snapshotDate = dateToCache,
      snapshotTimeframe = tf,
      snapshotMetrics =
        \<lparr>smTotalArticles = totalArticles ov,
         smSentimentDistribution = sentimentDistribution ov,
         smAverageSentiment = averageSentiment ov,
         smTopKeywords = topKeywords ov,
         smTopSources = topSources ov,
         smTopCompanies = [], smTopPeople = [], smTopTechnologies = [],
         smLanguageDistribution = [], smCategoryDistribution = []\<rparr>\<rparr>"

text \<open>One turn of the loop over the timeframes; its \<open>catch\<close> logs and goes on.\<close>

definition cacheTimeframe :: "CacheEnv \<Rightarrow> AnalyticsDoc list \<Rightarrow> timeframe \<Rightarrow> AnalyticsDoc list" where
  "cacheTimeframe env docs tf =
     (let now = clock env tf;
          dateToCache = startOf env tf now
      in if findSnapshot docs dateToCache tf \<noteq> None then docs
         else (case computeOverview env tf now of
                 Inl e \<Rightarrow> docs
               | Inr ov \<Rightarrow>
                   (let analytics = snapshotOf dateToCache tf ov
                    in if saveSnapshot env docs analytics then docs @ [analytics] else docs)))"

definition generateAndCacheAnalytics :: "CacheEnv \<Rightarrow> AnalyticsDoc list \<Rightarrow> AnalyticsDoc list" where
  "generateAndCacheAnalytics env docs = foldl (cacheTimeframe env) docs [hour, day, week, month]"

section \<open>Reading the caching claim\<close>

text \<open>
  The bucket of a timeframe in a run, the number of snapshots stored for a timeframe
  and a bucket start, and a run in which metrics and save succeed for a timeframe.
\<close>

definition bucketOf :: "CacheEnv \<Rightarrow> timeframe \<Rightarrow> int" where
  "bucketOf env tf = startOf env tf (clock env tf)"

definition bucketCount :: "AnalyticsDoc list \<Rightarrow> timeframe \<Rightarrow> int \<Rightarrow> nat" where
  "bucketCount docs tf d =
     length (filter (\<lambda>x. snapshotDate x = d \<and> snapshotTimeframe x = tf) docs)"

definition cachingSucceeds :: "CacheEnv \<Rightarrow> timeframe \<Rightarrow> bool" where
  "cachingSucceeds env tf =
     ((\<exists>ov. computeOverview env tf (clock env tf) = Inr ov)
      \<and> (\<forall>docs ov. saveSnapshot env docs (snapshotOf (bucketOf env tf) tf ov)))"

definition emptyOverview :: Overview where
  "emptyOverview =
     \<lparr>totalArticles = 0, averageSentiment = Num 0,
      sentimentDistribution = \<lparr>positive = 0, negative = 0, neutral = 0\<rparr>,
      topKeywords = [], topSources = [], recentAlerts = 0\<rparr>"

text \<open>
  A sample run: the buckets are hours, days, weeks and months of fixed length counted
  from the epoch, every turn reads the same clock, and metrics and save succeed.
\<close>

definition sampleCacheEnv :: "int \<Rightarrow> CacheEnv" where
  "sampleCacheEnv now =
     \<lparr>startOf = (\<lambda>tf t. (case tf of
                     hour \<Rightarrow> t - t mod 3600000
                   | day \<Rightarrow> t - t mod 86400000
                   | week \<Rightarrow> t - t mod 604800000
                   | month \<Rightarrow> t - t mod 2592000000)),
      clock = (\<lambda>tf. now),
      computeOverview = (\<lambda>tf t. Inr emptyOverview),
      saveSnapshot = (\<lambda>docs a. True)\<rparr>"

section \<open>Enrichment client (OpenRouterService, the module imported as ./gemini)\<close>

text \<open>
  The value \<open>JSON.parse\<close> returns. An object lists its own properties, each key
  once. A JavaScript value that may be \<open>undefined\<close> is a \<open>json option\<close>. A number
  literal too large for a double, which parses to an infinity, is not represented.
\<close>

datatype json =
  JNull
  | JBool bool
  | JNum real
  | JStr string
  | JArr "json list"
  | JObj "(string \<times> json) list"

fun truthy :: "json \<Rightarrow> bool" where
  "truthy JNull = False"
| "truthy (JBool b) = b"
| "truthy (JNum r) = (r \<noteq> 0)"
| "truthy (JStr s) = (s \<noteq> [])"
| "truthy (JArr xs) = True"
| "truthy (JObj kvs) = True"

definition orDefault :: "json option \<Rightarrow> json \<Rightarrow> json" where
  \<comment> \<open>\<open>v || d\<close>\<close>
  "orDefault v d = (case v of Some j \<Rightarrow> if truthy j then j else d | None \<Rightarrow> d)"

text \<open>
  Reading one of the properties \<open>score\<close>, \<open>confidence\<close>, \<open>label\<close>, \<open>emotions\<close> or an
  emotion name: \<open>null\<close> throws a TypeError, an object gives its own property, and any
  other value gives \<open>undefined\<close>, since no prototype has a property of these names.
\<close>

definition typeError :: thrown where
  "typeError = ErrorObject ''TypeError''"

fun getProp :: "json \<Rightarrow> string \<Rightarrow> thrown + json option" where
  "getProp JNull k = Inl typeError"
| "getProp (JObj kvs) k = Inr (map_of kvs k)"
| "getProp j k = Inr None"

text \<open>
  The conversion to a number that \<open>Math.min\<close> and \<open>Math.max\<close> apply to an argument.
  A string that is empty is 0; a string whose first character is neither white space
  nor able to begin a numeric literal is NaN; any other string is read by the
  runtime's literal parser \<open>strNum\<close>. A parsed object converts through
  \<open>Object.prototype.toString\<close> to NaN, unless it has an own property \<open>toString\<close>,
  which is not callable, and then the conversion throws. An array converts through
  its \<open>join\<close>, left to the parameter \<open>arrNum\<close>.
\<close>

record Coercions =
  strNum :: "string \<Rightarrow> jsnum"
  arrNum :: "json list \<Rightarrow> thrown + jsnum"

definition startsLiteral :: "char \<Rightarrow> bool" where
  "startsLiteral c = (isWhitespace c \<or> isDigit c \<or> c \<in> set ''+-.I'')"

definition stringToNumber :: "(string \<Rightarrow> jsnum) \<Rightarrow> string \<Rightarrow> jsnum" where
  "stringToNumber lit s =
     (case s of [] \<Rightarrow> Num 0 | c # cs \<Rightarrow> if startsLiteral c then lit s else NaN)"

fun toNumber :: "Coercions \<Rightarrow> json \<Rightarrow> thrown + jsnum" where
  "toNumber conv JNull = Inr (Num 0)"
| "toNumber conv (JBool b) = Inr (Num (if b then 1 else 0))"
| "toNumber conv (JNum r) = Inr (Num r)"
| "toNumber conv (JStr s) = Inr (stringToNumber (strNum conv) s)"
| "toNumber conv (JArr xs) = arrNum conv xs"
| "toNumber conv (JObj kvs) = (if map_of kvs ''toString'' \<noteq> None then Inl typeError else Inr NaN)"

definition clampValue :: "Coercions \<Rightarrow> real \<Rightarrow> real \<Rightarrow> json \<Rightarrow> thrown + jsnum" where
  \<comment> \<open>\<open>Math.max(lo, Math.min(hi, v))\<close>\<close>
  "clampValue conv lo hi v =
     (case toNumber conv v of
        Inl e \<Rightarrow> Inl e
      | Inr n \<Rightarrow> Inr (Math_max (Num lo) (Math_min (Num hi) n)))"

text \<open>\<open>toLowerCase\<close> on the code units below 256, and \<open>includes\<close> as \<open>includesStr\<close>.\<close>

definition lowerChar :: "char \<Rightarrow> char" where
  "lowerChar c =
     (let n = (of_char c :: nat)
      in if (65 \<le> n \<and> n \<le> 90) \<or> (192 \<le> n \<and> n \<le> 222 \<and> n \<noteq> 215)
         then char_of (n + 32) else c)"

fun startsWith :: "string \<Rightarrow> string \<Rightarrow> bool" where
  "startsWith s [] = True"
| "startsWith [] (p # ps) = False"
| "startsWith (c # cs) (p # ps) = (c = p \<and> startsWith cs ps)"

fun includesStr :: "string \<Rightarrow> string \<Rightarrow> bool" where
  "includesStr [] pat = (pat = [])"
| "includesStr (c # cs) pat = (startsWith (c # cs) pat \<or> includesStr cs pat)"

text \<open>
  \<open>normalizeSentimentLabel\<close>: \<open>label?.toLowerCase()\<close> is \<open>undefined\<close> for a missing or
  \<open>null\<close> label, and throws for a value that is not a string.
\<close>

fun normalizeSentimentLabel :: "json option \<Rightarrow> thrown + sentiment_label" where
  "normalizeSentimentLabel None = Inr Neutral"
| "normalizeSentimentLabel (Some JNull) = Inr Neutral"
| "normalizeSentimentLabel (Some (JStr s)) =
     (let normalizedLabel = map lowerChar s
      in if includesStr normalizedLabel ''positive'' then Inr Positive
         else if includesStr normalizedLabel ''negative'' then Inr Negative
         else Inr Neutral)"
| "normalizeSentimentLabel (Some j) = Inl typeError"

text \<open>
  \<open>callOpenRouter\<close>. The request, the extraction of the JSON text from the reply and
  \<open>JSON.parse\<close> are outside; what they produce is one of three things: the request
  throws, the text does not parse, or it parses to a value. On a parse failure the
  function returns the fallback of the kind of call.
\<close>

datatype completion = TransportError thrown | ParseFailure | Parsed json

datatype call_type = SentimentCall | EntitiesCall | KeywordsCall | ReadabilityCall

fun parseFallback :: "call_type \<Rightarrow> json" where
  "parseFallback SentimentCall =
     JObj [(''score'', JNum 0), (''confidence'', JNum 0.1), (''label'', JStr ''neutral'')]"
| "parseFallback EntitiesCall =
     JObj [(''person'', JArr []), (''organization'', JArr []), (''location'', JArr []),
           (''technology'', JArr []), (''other'', JArr [])]"
| "parseFallback KeywordsCall = JObj [(''keywords'', JArr []), (''topics'', JArr [])]"
| "parseFallback ReadabilityCall = JNum 50"

fun callOpenRouter :: "completion \<Rightarrow> call_type \<Rightarrow> thrown + json" where
  "callOpenRouter (TransportError e) ty = Inl e"
| "callOpenRouter ParseFailure ty = Inr (parseFallback ty)"
| "callOpenRouter (Parsed j) ty = Inr j"

definition bindThrown :: "thrown + 'a \<Rightarrow> ('a \<Rightarrow> thrown + 'b) \<Rightarrow> thrown + 'b" where
  "bindThrown m f = (case m of Inl e \<Rightarrow> Inl e | Inr x \<Rightarrow> f x)"

definition clampProp :: "Coercions \<Rightarrow> json \<Rightarrow> string \<Rightarrow> real \<Rightarrow> real \<Rightarrow> real \<Rightarrow> thrown + jsnum" where
  \<comment> \<open>\<open>Math.max(lo, Math.min(hi, obj.k || dflt))\<close>\<close>
  "clampProp conv obj k lo hi dflt =
     bindThrown (getProp obj k) (\<lambda>v. clampValue conv lo hi (orDefault v (JNum dflt)))"

definition normalizeEmotions :: "Coercions \<Rightarrow> json \<Rightarrow> thrown + Emotions" where
  "normalizeEmotions conv em =
     bindThrown (clampProp conv em ''joy'' 0 1 0) (\<lambda>j.
     bindThrown (clampProp conv em ''anger'' 0 1 0) (\<lambda>a.
     bindThrown (clampProp conv em ''fear'' 0 1 0) (\<lambda>f.
     bindThrown (clampProp conv em ''sadness'' 0 1 0) (\<lambda>s.
     bindThrown (clampProp conv em ''surprise'' 0 1 0) (\<lambda>p.
     bindThrown (clampProp conv em ''disgust'' 0 1 0) (\<lambda>d.
       Inr \<lparr>joy = j, anger = a, fear = f, sadness = s, surprise = p, disgust = d\<rparr>))))))"

text \<open>The body of the \<open>try\<close> block of \<open>analyzeSentiment\<close> after the call.\<close>

definition normalizeSentiment :: "Coercions \<Rightarrow> json \<Rightarrow> thrown + SentimentAnalysis" where
  "normalizeSentiment conv result =
     bindThrown (clampProp conv result ''score'' (- 1) 1 0) (\<lambda>sc.
     bindThrown (clampProp conv result ''confidence'' 0 1 0.5) (\<lambda>cf.
     bindThrown (bindThrown (getProp result ''label'') normalizeSentimentLabel) (\<lambda>lb.
     bindThrown (getProp result ''emotions'') (\<lambda>em.
       (case em of
          None \<Rightarrow> Inr \<lparr>score = sc, confidence = cf, label = lb, emotions = None\<rparr>
        | Some e \<Rightarrow>
            if truthy e
            then bindThrown (normalizeEmotions conv e) (\<lambda>es.
                   Inr \<lparr>score = sc, confidence = cf, label = lb, emotions = Some es\<rparr>)
            else Inr \<lparr>score = sc, confidence = cf, label = lb, emotions = None\<rparr>)))))"

definition neutralFallback :: SentimentAnalysis where
  "neutralFallback = \<lparr>score = Num 0, confidence = Num 0.1, label = Neutral, emotions = None\<rparr>"

definition analyzeSentiment :: "Coercions \<Rightarrow> completion \<Rightarrow> SentimentAnalysis" where
  "analyzeSentiment conv reply =
     (case bindThrown (callOpenRouter reply SentimentCall) (normalizeSentiment conv) of
        Inl e \<Rightarrow> neutralFallback
      | Inr r \<Rightarrow> r)"

section \<open>Reading the enrichment claim\<close>

text \<open>
  The reply \<open>{"score": "high", "confidence": 0.9, "label": "positive"}\<close> after
  \<open>JSON.parse\<close>.
\<close>

definition wordScoreReply :: json where
  "wordScoreReply =
     JObj [(''score'', JStr ''high''), (''confidence'', JNum 0.9), (''label'', JStr ''positive'')]"

section \<open>Properties of the log buffer\<close>

lemma addSystemLog_take:
  "addSystemLog now lvl msg det logs =
     take MAX_LOGS (\<lparr>timestamp = now, level = lvl, message = msg, details = det\<rparr> # logs)"
  by (simp add: addSystemLog_def Let_def)

lemma runLogCalls_take:
  "runLogCalls cs logs = take MAX_LOGS (rev (map entryOf cs) @ logs)
     \<or> (cs = [] \<and> runLogCalls cs logs = logs)"
proof (induction cs arbitrary: logs)
  case Nil
  show ?case by simp
next
  case (Cons c cs)
  obtain now lvl msg det where c: "c = (now, lvl, msg, det)"
    by (cases c) auto
  let ?e = "\<lparr>timestamp = now, level = lvl, message = msg, details = det\<rparr>"
  have e: "entryOf c = ?e" by (simp add: c entryOf_def)
  have step: "runLogCalls (c # cs) logs = runLogCalls cs (take MAX_LOGS (?e # logs))"
    by (simp add: c addSystemLog_take)
  from Cons.IH [of "take MAX_LOGS (?e # logs)"]
  have "runLogCalls cs (take MAX_LOGS (?e # logs)) = take MAX_LOGS (rev (map entryOf cs) @ ?e # logs)"
  proof
    assume "runLogCalls cs (take MAX_LOGS (?e # logs))
              = take MAX_LOGS (rev (map entryOf cs) @ take MAX_LOGS (?e # logs))"
    moreover have "take MAX_LOGS (rev (map entryOf cs) @ take MAX_LOGS (?e # logs))
              = take MAX_LOGS (rev (map entryOf cs) @ ?e # logs)"
      by (simp add: min_def)
    ultimately show ?thesis by simp
  next
    assume "cs = [] \<and> runLogCalls cs (take MAX_LOGS (?e # logs)) = take MAX_LOGS (?e # logs)"
    then show ?thesis by simp
  qed
  with step e show ?case by simp
qed

text \<open>
  C10. The buffer never holds more than 1000 entries: a call puts its entry at the
  front and keeps the first 1000 of the result, so after any sequence of calls on the
  initial buffer the content is the newest 1000 entries, newest first, and a call on a
  full buffer drops exactly the last (oldest) entry.
\<close>

theorem addSystemLog_bounded_newest_first:
  "length (addSystemLog now lvl msg det logs) \<le> MAX_LOGS
   \<and> addSystemLog now lvl msg det logs =
       take MAX_LOGS (\<lparr>timestamp = now, level = lvl, message = msg, details = det\<rparr> # logs)
   \<and> length (runLogCalls cs (initialLogs t0)) \<le> MAX_LOGS
   \<and> runLogCalls cs (initialLogs t0) =
       take MAX_LOGS (rev (map entryOf cs) @ initialLogs t0)
   \<and> (length logs = MAX_LOGS \<longrightarrow>
        addSystemLog now lvl msg det logs =
          \<lparr>timestamp = now, level = lvl, message = msg, details = det\<rparr> # butlast logs)"
proof -
  have init: "length (initialLogs t0) \<le> MAX_LOGS"
    by (simp add: initialLogs_def addSystemLog_take)
  have run: "runLogCalls cs (initialLogs t0) = take MAX_LOGS (rev (map entryOf cs) @ initialLogs t0)"
    using runLogCalls_take [of cs "initialLogs t0"] init by auto
  have full: "length logs = MAX_LOGS \<Longrightarrow>
      take MAX_LOGS (\<lparr>timestamp = now, level = lvl, message = msg, details = det\<rparr> # logs)
        = \<lparr>timestamp = now, level = lvl, message = msg, details = det\<rparr> # butlast logs"
    by (simp add: MAX_LOGS_def take_Cons' butlast_conv_take)
  show ?thesis
    using run full by (simp add: addSystemLog_take)
qed

theorem addSystemLog_bounded_newest_first_witness:
  "length (replicate 1000 (entryOf (''t'', Info, ''old'', None))) = MAX_LOGS
   \<and> addSystemLog ''u'' Error ''new'' None (replicate 1000 (entryOf (''t'', Info, ''old'', None)))
       = \<lparr>timestamp = ''u'', level = Error, message = ''new'', details = None\<rparr>
           # butlast (replicate 1000 (entryOf (''t'', Info, ''old'', None)))
   \<and> length (addSystemLog ''u'' Error ''new'' None (replicate 1000 (entryOf (''t'', Info, ''old'', None))))
       = 1000"
proof -
  let ?full = "replicate 1000 (entryOf (''t'', Info, ''old'', None))"
  have len: "length ?full = MAX_LOGS"
    by (simp add: MAX_LOGS_def)
  have "length ?full = MAX_LOGS \<longrightarrow>
      addSystemLog ''u'' Error ''new'' None ?full =
        \<lparr>timestamp = ''u'', level = Error, message = ''new'', details = None\<rparr> # butlast ?full"
    using addSystemLog_bounded_newest_first [of "''u''" Error "''new''" None ?full "[]" "''t''"]
    by blast
  with len have drop: "addSystemLog ''u'' Error ''new'' None ?full =
        \<lparr>timestamp = ''u'', level = Error, message = ''new'', details = None\<rparr> # butlast ?full"
    by blast
  have "length (addSystemLog ''u'' Error ''new'' None ?full) = 1000"
    by (simp only: drop) simp
  with len drop show ?thesis by blast
qed

section \<open>Properties of the alert evaluator\<close>

subsection \<open>Values of the rounding\<close>

text \<open>
  The exponents and the rounded values the instances below need. Among them are the
  binary64 values written \<open>0.1\<close>, \<open>-0.2\<close>, \<open>0.6\<close>, \<open>0.4\<close> and \<open>0.58\<close>, none of
  which is the decimal fraction itself.
\<close>

lemma floorLog2_values:
  "floorLog2 15 = 3"
  "floorLog2 (3 / 2) = 0"
  "floorLog2 150 = 7"
  "floorLog2 29 = 4"
  "floorLog2 (29 / 50) = - 1"
  "floorLog2 (130604389193744375 / 2251799813685248) = 5"
  "floorLog2 3 = 1"
  "floorLog2 (1 / 10) = - 4"
  "floorLog2 (1 / 5) = - 3"
  "floorLog2 (3602879701896397 / 36028797018963968) = - 4"
  "floorLog2 (3602879701896397 / 18014398509481984) = - 3"
  "floorLog2 (10808639105689191 / 36028797018963968) = - 2"
  "floorLog2 (33776997205278725 / 1125899906842624) = 4"
  "floorLog2 (3 / 5) = - 1"
  "floorLog2 (2 / 5) = - 2"
  "floorLog2 (5404319552844595 / 9007199254740992) = - 1"
  "floorLog2 (3602879701896397 / 9007199254740992) = - 2"
  "floorLog2 (900719925474099 / 4503599627370496) = - 3"
  "floorLog2 (22517998136852475 / 1125899906842624) = 4"
  "floorLog2 (1 / 2) = - 1"
  "floorLog2 1 = 0"
  "floorLog2 2 = 1"
  "floorLog2 (5 / 2) = 1"
  "floorLog2 (1 / 4) = - 2"
  "floorLog2 (3 / 4) = - 1"
  "floorLog2 75 = 6"
  "floorLog2 (7205759403792793 / 36028797018963968) = - 3"
  "floorLog2 (180143985094819825 / 9007199254740992) = 4"
  by (simp_all add: floorLog2_def exponentSteps_def)

lemma binary64_values:
  "binary64 15 = Num 15"
  "binary64 (3 / 2) = Num (3 / 2)"
  "binary64 150 = Num 150"
  "binary64 29 = Num 29"
  "binary64 (29 / 50) = Num (5224175567749775 / 9007199254740992)"
  "binary64 (130604389193744375 / 2251799813685248) = Num (8162774324609023 / 140737488355328)"
  "binary64 3 = Num 3"
  "binary64 (1 / 10) = Num (3602879701896397 / 36028797018963968)"
  "binary64 (- (1 / 5)) = Num (- (3602879701896397 / 18014398509481984))"
  "binary64 (3602879701896397 / 36028797018963968) = Num (3602879701896397 / 36028797018963968)"
  "binary64 (- (3602879701896397 / 18014398509481984)) = Num (- (3602879701896397 / 18014398509481984))"
  "binary64 (10808639105689191 / 36028797018963968) = Num (1351079888211149 / 4503599627370496)"
  "binary64 (33776997205278725 / 1125899906842624) = Num (8444249301319681 / 281474976710656)"
  "binary64 (3 / 5) = Num (5404319552844595 / 9007199254740992)"
  "binary64 (2 / 5) = Num (3602879701896397 / 9007199254740992)"
  "binary64 (5404319552844595 / 9007199254740992) = Num (5404319552844595 / 9007199254740992)"
  "binary64 (3602879701896397 / 9007199254740992) = Num (3602879701896397 / 9007199254740992)"
  "binary64 (900719925474099 / 4503599627370496) = Num (900719925474099 / 4503599627370496)"
  "binary64 (22517998136852475 / 1125899906842624) = Num (5629499534213119 / 281474976710656)"
  "binary64 (1 / 2) = Num (1 / 2)"
  "binary64 1 = Num 1"
  "binary64 2 = Num 2"
  "binary64 (5 / 2) = Num (5 / 2)"
  "binary64 (- (1 / 4)) = Num (- (1 / 4))"
  "binary64 (- (1 / 2)) = Num (- (1 / 2))"
  "binary64 (3 / 4) = Num (3 / 4)"
  "binary64 75 = Num 75"
  "binary64 (7205759403792793 / 36028797018963968) = Num (7205759403792793 / 36028797018963968)"
  "binary64 (180143985094819825 / 9007199254740992) = Num 20"
  by (simp_all add: binary64_def floorLog2_values pow2_def roundHalfEven_def Let_def)


lemma volumeChangeOf_5_2: "volumeChangeOf 5 2 = Num 150"
  by (simp add: volumeChangeOf_def countNum_def sub64_def div64_def mul64_def js_sub_def
        binary64_values)

text \<open>
  Counts 79 and 50: the quotient \<open>29 / 50\<close> is rounded, and so is its product with
  100. The change is the binary64 value written \<open>57.99999999999999\<close>, below 58, where
  the exact quotient gives 58.
\<close>

lemma volumeChangeOf_79_50:
  "volumeChangeOf 79 50 = Num (8162774324609023 / 140737488355328)
   \<and> \<not> js_ge (volumeChangeOf 79 50) (Num 58)
   \<and> (real 79 - real 50) / real 50 * 100 = (58 :: real)"
proof -
  have a: "sub64 (countNum 79) (countNum 50) = Num 29"
    by (simp add: countNum_def sub64_def js_sub_def binary64_values)
  have b: "div64 (Num 29) (countNum 50) = Num (5224175567749775 / 9007199254740992)"
    by (simp add: countNum_def div64_def binary64_values)
  have c: "mul64 (Num (5224175567749775 / 9007199254740992)) (Num 100)
             = Num (8162774324609023 / 140737488355328)"
    by (simp add: mul64_def binary64_values)
  have d: "volumeChangeOf 79 50 = Num (8162774324609023 / 140737488355328)"
    by (simp add: volumeChangeOf_def a b c)
  show ?thesis
    by (simp add: d)
qed

text \<open>
  Averages \<open>0.1\<close> and \<open>-0.2\<close>: the difference is the binary64 value written
  \<open>0.30000000000000004\<close> and the change the one written \<open>30.000000000000004\<close>,
  which is \<open>30 + 2^-48\<close>.
\<close>

lemma sentimentChangeOf_01_02:
  "sentimentChangeOf (binary64 0.1) (binary64 (- 0.2)) = Num (8444249301319681 / 281474976710656)"
proof -
  have a: "sub64 (binary64 0.1) (binary64 (- 0.2)) = Num (1351079888211149 / 4503599627370496)"
    by (simp add: sub64_def js_sub_def binary64_values)
  have b: "mul64 (Num (1351079888211149 / 4503599627370496)) (Num 100) = Num (8444249301319681 / 281474976710656)"
    by (simp add: mul64_def binary64_values)
  show ?thesis
    unfolding sentimentChangeOf_def a by (simp add: b)
qed

text \<open>
  Averages \<open>0.6\<close> and \<open>0.4\<close>: the change is the binary64 value written
  \<open>19.999999999999996\<close>, below the threshold 20.
\<close>

lemma sentimentChangeOf_06_04:
  "sentimentChangeOf (binary64 0.6) (binary64 0.4) = Num (5629499534213119 / 281474976710656)
   \<and> \<not> js_ge (sentimentChangeOf (binary64 0.6) (binary64 0.4)) (Num 20)"
proof -
  have a: "sub64 (binary64 0.6) (binary64 0.4) = Num (900719925474099 / 4503599627370496)"
    by (simp add: sub64_def js_sub_def binary64_values)
  have b: "mul64 (Num (900719925474099 / 4503599627370496)) (Num 100)
             = Num (5629499534213119 / 281474976710656)"
    by (simp add: mul64_def binary64_values)
  have c: "sentimentChangeOf (binary64 0.6) (binary64 0.4) = Num (5629499534213119 / 281474976710656)"
    unfolding sentimentChangeOf_def a by (simp add: b)
  show ?thesis
    unfolding c by simp
qed

text \<open>
  The binary64 value next below the one written \<open>0.2\<close>, against 0: the product with
  100 is below 20 and is rounded to 20, so that the threshold 20 is met.
\<close>

lemma sentimentChangeOf_below_02:
  "sentimentChangeOf (Num (7205759403792793 / 36028797018963968)) (Num 0) = Num 20
   \<and> js_ge (sentimentChangeOf (Num (7205759403792793 / 36028797018963968)) (Num 0)) (Num 20)
   \<and> 7205759403792793 / 36028797018963968 * 100 < (20 :: real)"
proof -
  have a: "sub64 (Num (7205759403792793 / 36028797018963968)) (Num 0)
             = Num (7205759403792793 / 36028797018963968)"
    by (simp add: sub64_def js_sub_def binary64_values)
  have b: "mul64 (Num (7205759403792793 / 36028797018963968)) (Num 100) = Num 20"
    by (simp add: mul64_def binary64_values)
  have c: "sentimentChangeOf (Num (7205759403792793 / 36028797018963968)) (Num 0) = Num 20"
    unfolding sentimentChangeOf_def a by (simp add: b)
  show ?thesis
    unfolding c by simp
qed

subsection \<open>The two checks\<close>

lemma volumeAlerts_fst:
  "fst (volumeAlerts saveAlert now kt recent previous) =
     (let c = volumeChangeOf (length recent) (length previous)
      in if js_ge c (volumeSpike (alertThreshold kt))
         then [\<lparr>type = volume_spike, keyword = KeywordTrack.keyword kt,
                     severity = (if js_gt c (Num 100) then high else medium),
                     isRead = False, isSent = False,
                     data = VolumeData (KeywordTrack.keyword kt) (length recent) (length previous) c,
                     createdAt = now\<rparr>]
         else [])"
  by (simp add: volumeAlerts_def createAlert_def Let_def)

lemma volumeAlerts_snd:
  "snd (volumeAlerts saveAlert now kt recent previous) =
     (let c = volumeChangeOf (length recent) (length previous)
      in if js_ge c (volumeSpike (alertThreshold kt))
         then saveAlert \<lparr>type = volume_spike, keyword = KeywordTrack.keyword kt,
                     severity = (if js_gt c (Num 100) then high else medium),
                     isRead = False, isSent = False,
                     data = VolumeData (KeywordTrack.keyword kt) (length recent) (length previous) c,
                     createdAt = now\<rparr>
         else None)"
  by (simp add: volumeAlerts_def createAlert_def Let_def)

lemma sentimentAlerts_fst:
  "recent \<noteq> [] \<Longrightarrow> previous \<noteq> [] \<Longrightarrow>
   fst (sentimentAlerts saveAlert now kt recent previous) =
     (let c = sentimentChangeOf (averageScore recent) (averageScore previous)
      in if js_ge c (AlertThreshold.sentimentChange (alertThreshold kt))
         then [\<lparr>type = sentiment_change, keyword = KeywordTrack.keyword kt,
                     severity = (if js_gt c (Num 50) then high else medium),
                     isRead = False, isSent = False,
                     data = SentimentData (KeywordTrack.keyword kt)
                              (averageScore recent) (averageScore previous) c,
                     createdAt = now\<rparr>]
         else [])"
  by (simp add: sentimentAlerts_def createAlert_def Let_def)

lemma sentimentAlerts_empty:
  "recent = [] \<or> previous = [] \<Longrightarrow> sentimentAlerts saveAlert now kt recent previous = ([], None)"
  by (auto simp: sentimentAlerts_def)

lemma volumeAlerts_types:
  "a \<in> set (fst (volumeAlerts saveAlert now kt recent previous)) \<Longrightarrow> type a = volume_spike"
  by (auto simp: volumeAlerts_def createAlert_def Let_def split: if_splits)

lemma sentimentAlerts_types:
  "a \<in> set (fst (sentimentAlerts saveAlert now kt recent previous)) \<Longrightarrow> type a = sentiment_change"
  by (auto simp: sentimentAlerts_def createAlert_def Let_def split: if_splits)

lemma filter_all: "(\<And>a. a \<in> set xs \<Longrightarrow> P a) \<Longrightarrow> filter P xs = xs"
  by (induction xs) auto

lemma filter_none: "(\<And>a. a \<in> set xs \<Longrightarrow> \<not> P a) \<Longrightarrow> filter P xs = []"
  by (induction xs) auto

lemma sentimentAlerts_filter:
  "filter (\<lambda>a. type a = sentiment_change) (fst (sentimentAlerts saveAlert now kt r p))
     = fst (sentimentAlerts saveAlert now kt r p)"
  by (rule filter_all) (rule sentimentAlerts_types)

lemma checkKeywordAlerts_fst:
  "fst (checkKeywordAlerts saveAlert now store kt) =
     fst (volumeAlerts saveAlert now kt (findBetween (withKeyword (KeywordTrack.keyword kt) store) (subDays now 1) now)
            (findFromUntil (withKeyword (KeywordTrack.keyword kt) store) (subDays now 2) (subDays now 1)))
     @ (if snd (volumeAlerts saveAlert now kt (findBetween (withKeyword (KeywordTrack.keyword kt) store) (subDays now 1) now)
            (findFromUntil (withKeyword (KeywordTrack.keyword kt) store) (subDays now 2) (subDays now 1))) = None
        then fst (sentimentAlerts saveAlert now kt (findBetween (withKeyword (KeywordTrack.keyword kt) store) (subDays now 1) now)
            (findFromUntil (withKeyword (KeywordTrack.keyword kt) store) (subDays now 2) (subDays now 1)))
        else [])"
  by (simp add: checkKeywordAlerts_def Let_def split: prod.splits option.splits)


lemma filter_sentiment:
  "filter (\<lambda>a. type a = sentiment_change) (fst (checkKeywordAlerts saveAlert now store kt))
     = (if snd (volumeAlerts saveAlert now kt
              (findBetween (withKeyword (KeywordTrack.keyword kt) store) (subDays now 1) now)
              (findFromUntil (withKeyword (KeywordTrack.keyword kt) store) (subDays now 2) (subDays now 1))) = None
        then fst (sentimentAlerts saveAlert now kt
              (findBetween (withKeyword (KeywordTrack.keyword kt) store) (subDays now 1) now)
              (findFromUntil (withKeyword (KeywordTrack.keyword kt) store) (subDays now 2) (subDays now 1)))
        else [])"
proof -
  have s: "filter (\<lambda>a. type a = sentiment_change) (fst (sentimentAlerts saveAlert now kt r p))
             = fst (sentimentAlerts saveAlert now kt r p)" for r p
    by (rule filter_all) (rule sentimentAlerts_types)
  have v: "filter (\<lambda>a. type a = sentiment_change) (fst (volumeAlerts saveAlert now kt r p)) = []" for r p
    by (rule filter_none) (auto dest: volumeAlerts_types)
  show ?thesis
    by (simp add: checkKeywordAlerts_fst v s)
qed

lemma subset_checkAlerts:
  "isActive kt \<Longrightarrow> kt \<in> set tracks \<Longrightarrow>
   set (fst (checkKeywordAlerts saveAlert now store kt)) \<subseteq> set (checkAlerts saveAlert now store tracks)"
  by (auto simp: checkAlerts_def)

lemma spike_recent:
  "findBetween (withKeyword ''ai'' spikeStore) (subDays 172800000 1) 172800000 = spikeRecent"
  by (simp add: spikeStore_def spikeRecent_def findBetween_def withKeyword_def subDays_def
        msPerDay_def sampleArticle_def)

lemma spike_previous:
  "findFromUntil (withKeyword ''ai'' spikeStore) (subDays 172800000 2) (subDays 172800000 1)
     = spikePrevious"
  by (simp add: spikeStore_def spikePrevious_def findFromUntil_def withKeyword_def subDays_def
        msPerDay_def sampleArticle_def)

lemma spike_length:
  "length spikeRecent = 5 \<and> length spikePrevious = 2"
  by (simp add: spikeRecent_def spikePrevious_def)

lemma spike_average:
  "averageScore spikeRecent = Num (1 / 2) \<and> averageScore spikePrevious = Num (- (1 / 4))"
  by (simp add: averageScore_def reduceScores_def spikeRecent_def spikePrevious_def
        sampleArticle_def add64_def div64_def countNum_def binary64_values)

lemma spike_change:
  "sentimentChangeOf (Num (1 / 2)) (Num (- (1 / 4))) = Num 75"
  by (simp add: sentimentChangeOf_def sub64_def mul64_def js_sub_def binary64_values)

lemma double_recent:
  "findBetween (withKeyword ''ai'' doubleStore) (subDays 172800000 1) 172800000 = doubleRecent"
  by (simp add: doubleStore_def doubleRecent_def doublePrevious_def findBetween_def
        withKeyword_def subDays_def msPerDay_def sampleArticle_def)

lemma double_previous:
  "findFromUntil (withKeyword ''ai'' doubleStore) (subDays 172800000 2) (subDays 172800000 1)
     = doublePrevious"
  by (simp add: doubleStore_def doubleRecent_def doublePrevious_def findFromUntil_def
        withKeyword_def subDays_def msPerDay_def sampleArticle_def)

lemma double_average:
  "averageScore doubleRecent = binary64 0.1 \<and> averageScore doublePrevious = binary64 (- 0.2)"
  by (simp add: averageScore_def reduceScores_def doubleRecent_def doublePrevious_def
        sampleArticle_def add64_def div64_def countNum_def binary64_values)

lemma double_nonempty:
  "doubleRecent \<noteq> [] \<and> doublePrevious \<noteq> []"
  by (simp add: doubleRecent_def doublePrevious_def)

lemma double_length:
  "length doubleRecent = 1 \<and> length doublePrevious = 1"
  by (simp add: doubleRecent_def doublePrevious_def)

lemma volumeChangeOf_1_1: "volumeChangeOf 1 1 = Num 0" "volumeChangeOf (Suc 0) (Suc 0) = Num 0"
  by (simp_all add: volumeChangeOf_def countNum_def sub64_def div64_def mul64_def js_sub_def
        binary64_def)

lemma sampleTrack_fields:
  "KeywordTrack.keyword (sampleTrack st vt) = ''ai''"
  "AlertThreshold.sentimentChange (alertThreshold (sampleTrack st vt)) = Num st"
  "volumeSpike (alertThreshold (sampleTrack st vt)) = Num vt"
  "isActive (sampleTrack st vt)"
  by (simp_all add: sampleTrack_def)


subsection \<open>The volume check\<close>



subsection \<open>The sentiment check\<close>

text \<open>
  C3, as the code has it. The sentiment check is reached when the volume check has not
  thrown, which it does when the save of its alert is rejected, and it computes nothing
  when a period is empty. Otherwise the change is
  \<open>|average recent - average previous| * 100\<close> in the arithmetic of the language, the
  averages being the rounded sums divided by the counts; a \<open>sentiment_change\<close> alert is
  handed to the store exactly when the change is at least the track's threshold, with
  severity high above 50 and medium otherwise. Averages \<open>-0.2\<close> and \<open>0.1\<close> give the
  binary64 value written \<open>30.000000000000004\<close>: one medium alert at threshold 20, none
  at threshold 40.
\<close>

theorem sentiment_change_alert:
  "(recent = [] \<or> previous = [] \<longrightarrow>
        sentimentAlerts saveAlert now kt recent previous = ([], None))
   \<and> (recent \<noteq> [] \<and> previous \<noteq> [] \<longrightarrow>
        fst (sentimentAlerts saveAlert now kt recent previous) =
          (let c = sentimentChangeOf (averageScore recent) (averageScore previous)
           in if js_ge c (AlertThreshold.sentimentChange (alertThreshold kt))
              then [\<lparr>type = sentiment_change, keyword = KeywordTrack.keyword kt,
                     severity = (if js_gt c (Num 50) then high else medium),
                     isRead = False, isSent = False,
                     data = SentimentData (KeywordTrack.keyword kt)
                              (averageScore recent) (averageScore previous) c,
                     createdAt = now\<rparr>]
              else []))
   \<and> sentimentChangeOf x y = mul64 (js_abs (sub64 x y)) (Num 100)
   \<and> averageScore recent = div64 (reduceScores recent) (countNum (length recent))
   \<and> snd (volumeAlerts saveAlert now kt recent previous) =
          (let c = volumeChangeOf (length recent) (length previous)
           in if js_ge c (volumeSpike (alertThreshold kt))
              then saveAlert \<lparr>type = volume_spike, keyword = KeywordTrack.keyword kt,
                     severity = (if js_gt c (Num 100) then high else medium),
                     isRead = False, isSent = False,
                     data = VolumeData (KeywordTrack.keyword kt) (length recent) (length previous) c,
                     createdAt = now\<rparr>
              else None)
   \<and> filter (\<lambda>a. type a = sentiment_change) (fst (checkKeywordAlerts saveAlert now store kt))
       = (if snd (volumeAlerts saveAlert now kt
                (findBetween (withKeyword (KeywordTrack.keyword kt) store) (subDays now 1) now)
                (findFromUntil (withKeyword (KeywordTrack.keyword kt) store) (subDays now 2) (subDays now 1))) = None
          then fst (sentimentAlerts saveAlert now kt
                (findBetween (withKeyword (KeywordTrack.keyword kt) store) (subDays now 1) now)
                (findFromUntil (withKeyword (KeywordTrack.keyword kt) store) (subDays now 2) (subDays now 1)))
          else [])
   \<and> (isActive kt \<and> kt \<in> set tracks \<longrightarrow>
        set (fst (checkKeywordAlerts saveAlert now store kt))
          \<subseteq> set (checkAlerts saveAlert now store tracks))
   \<and> (recent \<noteq> [] \<and> previous \<noteq> []
        \<and> averageScore previous = binary64 (- 0.2) \<and> averageScore recent = binary64 0.1 \<longrightarrow>
        sentimentChangeOf (averageScore recent) (averageScore previous)
          = Num (8444249301319681 / 281474976710656)
        \<and> (AlertThreshold.sentimentChange (alertThreshold kt) = Num 20 \<longrightarrow>
           map severity (fst (sentimentAlerts saveAlert now kt recent previous)) = [medium]
           \<and> map data (fst (sentimentAlerts saveAlert now kt recent previous))
               = [SentimentData (KeywordTrack.keyword kt) (binary64 0.1) (binary64 (- 0.2))
                    (Num (8444249301319681 / 281474976710656))])
        \<and> (AlertThreshold.sentimentChange (alertThreshold kt) = Num 40 \<longrightarrow>
           fst (sentimentAlerts saveAlert now kt recent previous) = []))"
proof -
  have gen: "recent \<noteq> [] \<and> previous \<noteq> [] \<longrightarrow>
        fst (sentimentAlerts saveAlert now kt recent previous) =
          (let c = sentimentChangeOf (averageScore recent) (averageScore previous)
           in if js_ge c (AlertThreshold.sentimentChange (alertThreshold kt))
              then [\<lparr>type = sentiment_change, keyword = KeywordTrack.keyword kt,
                     severity = (if js_gt c (Num 50) then high else medium),
                     isRead = False, isSent = False,
                     data = SentimentData (KeywordTrack.keyword kt)
                              (averageScore recent) (averageScore previous) c,
                     createdAt = now\<rparr>]
              else [])"
    using sentimentAlerts_fst [of recent previous saveAlert now kt] by blast
  have ex: "recent \<noteq> [] \<and> previous \<noteq> []
        \<and> averageScore previous = binary64 (- 0.2) \<and> averageScore recent = binary64 0.1 \<longrightarrow>
        sentimentChangeOf (averageScore recent) (averageScore previous)
          = Num (8444249301319681 / 281474976710656)
        \<and> (AlertThreshold.sentimentChange (alertThreshold kt) = Num 20 \<longrightarrow>
           map severity (fst (sentimentAlerts saveAlert now kt recent previous)) = [medium]
           \<and> map data (fst (sentimentAlerts saveAlert now kt recent previous))
               = [SentimentData (KeywordTrack.keyword kt) (binary64 0.1) (binary64 (- 0.2))
                    (Num (8444249301319681 / 281474976710656))])
        \<and> (AlertThreshold.sentimentChange (alertThreshold kt) = Num 40 \<longrightarrow>
           fst (sentimentAlerts saveAlert now kt recent previous) = [])"
  proof (intro impI)
    assume h: "recent \<noteq> [] \<and> previous \<noteq> []
        \<and> averageScore previous = binary64 (- 0.2) \<and> averageScore recent = binary64 0.1"
    have c: "sentimentChangeOf (averageScore recent) (averageScore previous) = Num (8444249301319681 / 281474976710656)"
      using h sentimentChangeOf_01_02 by simp
    show "sentimentChangeOf (averageScore recent) (averageScore previous)
          = Num (8444249301319681 / 281474976710656)
        \<and> (AlertThreshold.sentimentChange (alertThreshold kt) = Num 20 \<longrightarrow>
           map severity (fst (sentimentAlerts saveAlert now kt recent previous)) = [medium]
           \<and> map data (fst (sentimentAlerts saveAlert now kt recent previous))
               = [SentimentData (KeywordTrack.keyword kt) (binary64 0.1) (binary64 (- 0.2))
                    (Num (8444249301319681 / 281474976710656))])
        \<and> (AlertThreshold.sentimentChange (alertThreshold kt) = Num 40 \<longrightarrow>
           fst (sentimentAlerts saveAlert now kt recent previous) = [])"
      using h gen c by (simp add: Let_def)
  qed
  have f: "sentimentChangeOf x y = mul64 (js_abs (sub64 x y)) (Num 100)"
    by (simp add: sentimentChangeOf_def)
  have g: "averageScore recent = div64 (reduceScores recent) (countNum (length recent))"
    by (simp add: averageScore_def)
  show ?thesis
    using gen ex f g sentimentAlerts_empty [of recent previous saveAlert now kt]
      volumeAlerts_snd [of saveAlert now kt recent previous]
      filter_sentiment [of saveAlert now store kt] subset_checkAlerts [of kt tracks saveAlert now store]
    by blast
qed

theorem sentiment_change_alert_witness:
  "fst (checkKeywordAlerts acceptAll 172800000 doubleStore (sampleTrack 20 50))
     = [\<lparr>type = sentiment_change, keyword = ''ai'', severity = medium, isRead = False,
         isSent = False,
         data = SentimentData ''ai'' (Num (3602879701896397 / 36028797018963968))
                  (Num (- (3602879701896397 / 18014398509481984)))
                  (Num (8444249301319681 / 281474976710656)),
         createdAt = 172800000\<rparr>]
   \<and> fst (checkKeywordAlerts acceptAll 172800000 doubleStore (sampleTrack 40 50)) = []
   \<and> sentimentAlerts acceptAll 0 (sampleTrack 20 50) [] doublePrevious = ([], None)
   \<and> set (fst (checkKeywordAlerts acceptAll 172800000 doubleStore (sampleTrack 20 50)))
        \<subseteq> set (checkAlerts acceptAll 172800000 doubleStore [sampleTrack 20 50])"
proof -
  have act: "isActive (sampleTrack 20 50) \<and> sampleTrack 20 50 \<in> set [sampleTrack 20 50]"
    by (simp add: sampleTrack_fields)
  have hyp: "doubleRecent \<noteq> [] \<and> doublePrevious \<noteq> []
        \<and> averageScore doublePrevious = binary64 (- 0.2) \<and> averageScore doubleRecent = binary64 0.1"
    using double_average double_nonempty by simp
  note i20 = sentiment_change_alert [where kt = "sampleTrack 20 50" and saveAlert = acceptAll
      and now = 172800000 and recent = doubleRecent and previous = doublePrevious
      and store = doubleStore and tracks = "[sampleTrack 20 50]"]
  note i40 = sentiment_change_alert [where kt = "sampleTrack 40 50" and saveAlert = acceptAll
      and now = 172800000 and recent = doubleRecent and previous = doublePrevious
      and store = doubleStore and tracks = "[sampleTrack 40 50]"]
  note i0 = sentiment_change_alert [where kt = "sampleTrack 20 50" and saveAlert = acceptAll
      and now = 0 and recent = "[]" and previous = doublePrevious and store = "[]"
      and tracks = "[]"]
  have vol: "fst (volumeAlerts acceptAll 172800000 (sampleTrack st 50) doubleRecent doublePrevious) = []
      \<and> snd (volumeAlerts acceptAll 172800000 (sampleTrack st 50) doubleRecent doublePrevious) = None" for st
    by (simp add: volumeAlerts_fst volumeAlerts_snd double_length volumeChangeOf_1_1
          sampleTrack_fields acceptAll_def)
  from i20 hyp sampleTrack_fields(2) [of 20 50]
  have c: "sentimentChangeOf (averageScore doubleRecent) (averageScore doublePrevious)
      = Num (8444249301319681 / 281474976710656)"
    by blast
  from i20 hyp c
  have a20: "fst (sentimentAlerts acceptAll 172800000 (sampleTrack 20 50) doubleRecent doublePrevious) =
      [\<lparr>type = sentiment_change, keyword = ''ai'', severity = medium, isRead = False,
         isSent = False,
         data = SentimentData ''ai'' (Num (3602879701896397 / 36028797018963968))
                  (Num (- (3602879701896397 / 18014398509481984)))
                  (Num (8444249301319681 / 281474976710656)),
         createdAt = 172800000\<rparr>]"
    by (simp add: sampleTrack_fields Let_def binary64_values)
  from i40 hyp sampleTrack_fields(2) [of 40 50]
  have a40: "fst (sentimentAlerts acceptAll 172800000 (sampleTrack 40 50) doubleRecent doublePrevious) = []"
    by blast
  have f20: "filter (\<lambda>a. type a = sentiment_change)
        (fst (checkKeywordAlerts acceptAll 172800000 doubleStore (sampleTrack 20 50)))
      = fst (sentimentAlerts acceptAll 172800000 (sampleTrack 20 50) doubleRecent doublePrevious)"
    using vol [of 20]
    by (simp add: filter_sentiment sampleTrack_fields double_recent double_previous)
  have f40: "filter (\<lambda>a. type a = sentiment_change)
        (fst (checkKeywordAlerts acceptAll 172800000 doubleStore (sampleTrack 40 50)))
      = fst (sentimentAlerts acceptAll 172800000 (sampleTrack 40 50) doubleRecent doublePrevious)"
    using vol [of 40]
    by (simp add: filter_sentiment sampleTrack_fields double_recent double_previous)
  have all: "fst (checkKeywordAlerts acceptAll 172800000 doubleStore (sampleTrack st 50))
      = filter (\<lambda>a. type a = sentiment_change)
          (fst (checkKeywordAlerts acceptAll 172800000 doubleStore (sampleTrack st 50)))" for st
    using vol [of st]
    by (simp add: checkKeywordAlerts_fst filter_sentiment sentimentAlerts_filter
          sampleTrack_fields double_recent double_previous)
  from i0 have e: "sentimentAlerts acceptAll 0 (sampleTrack 20 50) [] doublePrevious = ([], None)"
    by blast
  from i20 act have sub: "set (fst (checkKeywordAlerts acceptAll 172800000 doubleStore (sampleTrack 20 50)))
        \<subseteq> set (checkAlerts acceptAll 172800000 doubleStore [sampleTrack 20 50])"
    by blast
  from a20 a40 f20 f40 all [of 20] all [of 40] e sub show ?thesis by simp
qed

text \<open>
  C3, as stated, fails twice. With one previous article of score \<open>-0.2\<close> and one recent
  article of score \<open>0.1\<close> the stored change is not 30 but the binary64 value written
  \<open>30.000000000000004\<close>. And when the store rejects the volume alert of a track, no
  sentiment alert is made for it, although both periods hold articles and the change,
  75, is above the threshold 20; the store that accepts the volume alert gets both.
\<close>

theorem sentiment_change_not_30_and_skipped:
  "map data (fst (checkKeywordAlerts acceptAll 172800000 doubleStore (sampleTrack 20 50)))
     = [SentimentData ''ai'' (Num (3602879701896397 / 36028797018963968))
          (Num (- (3602879701896397 / 18014398509481984)))
          (Num (8444249301319681 / 281474976710656))]
   \<and> Num (8444249301319681 / 281474976710656) \<noteq> Num 30
   \<and> binary64 0.1 = Num (3602879701896397 / 36028797018963968)
   \<and> binary64 (- 0.2) = Num (- (3602879701896397 / 18014398509481984))
   \<and> checkKeywordAlerts rejectVolume 172800000 spikeStore (sampleTrack 20 50)
     = ([\<lparr>type = volume_spike, keyword = ''ai'', severity = high, isRead = False, isSent = False,
          data = VolumeData ''ai'' 5 2 (Num 150), createdAt = 172800000\<rparr>],
        Some (ErrorObject ''store unavailable''))
   \<and> checkKeywordAlerts acceptAll 172800000 spikeStore (sampleTrack 20 50)
     = ([\<lparr>type = volume_spike, keyword = ''ai'', severity = high, isRead = False, isSent = False,
          data = VolumeData ''ai'' 5 2 (Num 150), createdAt = 172800000\<rparr>,
         \<lparr>type = sentiment_change, keyword = ''ai'', severity = high, isRead = False, isSent = False,
          data = SentimentData ''ai'' (Num (1 / 2)) (Num (- (1 / 4))) (Num 75),
          createdAt = 172800000\<rparr>],
        None)"
proof -
  have vol: "volumeAlerts saveAlert 172800000 (sampleTrack 20 50) spikeRecent spikePrevious
      = ([\<lparr>type = volume_spike, keyword = ''ai'', severity = high, isRead = False, isSent = False,
            data = VolumeData ''ai'' 5 2 (Num 150), createdAt = 172800000\<rparr>],
         saveAlert \<lparr>type = volume_spike, keyword = ''ai'', severity = high, isRead = False,
            isSent = False, data = VolumeData ''ai'' 5 2 (Num 150), createdAt = 172800000\<rparr>)"
    for saveAlert
    by (simp add: volumeAlerts_def createAlert_def spike_length volumeChangeOf_5_2
          sampleTrack_fields Let_def)
  have sen: "sentimentAlerts acceptAll 172800000 (sampleTrack 20 50) spikeRecent spikePrevious
      = ([\<lparr>type = sentiment_change, keyword = ''ai'', severity = high, isRead = False,
            isSent = False, data = SentimentData ''ai'' (Num (1 / 2)) (Num (- (1 / 4))) (Num 75),
            createdAt = 172800000\<rparr>], None)"
    by (simp add: sentimentAlerts_def createAlert_def spike_length spike_average spike_change
          sampleTrack_fields Let_def acceptAll_def)
  have r: "checkKeywordAlerts rejectVolume 172800000 spikeStore (sampleTrack 20 50)
     = ([\<lparr>type = volume_spike, keyword = ''ai'', severity = high, isRead = False, isSent = False,
          data = VolumeData ''ai'' 5 2 (Num 150), createdAt = 172800000\<rparr>],
        Some (ErrorObject ''store unavailable''))"
    by (simp add: checkKeywordAlerts_def Let_def sampleTrack_fields spike_recent spike_previous
          vol rejectVolume_def)
  have a: "checkKeywordAlerts acceptAll 172800000 spikeStore (sampleTrack 20 50)
     = ([\<lparr>type = volume_spike, keyword = ''ai'', severity = high, isRead = False, isSent = False,
          data = VolumeData ''ai'' 5 2 (Num 150), createdAt = 172800000\<rparr>,
         \<lparr>type = sentiment_change, keyword = ''ai'', severity = high, isRead = False, isSent = False,
          data = SentimentData ''ai'' (Num (1 / 2)) (Num (- (1 / 4))) (Num 75),
          createdAt = 172800000\<rparr>],
        None)"
    by (simp add: checkKeywordAlerts_def Let_def sampleTrack_fields spike_recent spike_previous
          vol sen acceptAll_def)
  have v0: "volumeAlerts acceptAll 172800000 (sampleTrack 20 50) doubleRecent doublePrevious
      = ([], None)"
    by (simp add: volumeAlerts_def double_length volumeChangeOf_1_1 sampleTrack_fields Let_def)
  have ch: "sentimentChangeOf (Num (3602879701896397 / 36028797018963968))
              (Num (- (3602879701896397 / 18014398509481984)))
            = Num (8444249301319681 / 281474976710656)"
    using sentimentChangeOf_01_02 by (simp add: binary64_values)
  have d: "fst (checkKeywordAlerts acceptAll 172800000 doubleStore (sampleTrack 20 50))
     = [\<lparr>type = sentiment_change, keyword = ''ai'', severity = medium, isRead = False,
         isSent = False,
         data = SentimentData ''ai'' (Num (3602879701896397 / 36028797018963968))
                  (Num (- (3602879701896397 / 18014398509481984)))
                  (Num (8444249301319681 / 281474976710656)),
         createdAt = 172800000\<rparr>]"
    using double_average double_nonempty
    by (simp add: checkKeywordAlerts_def Let_def sampleTrack_fields double_recent double_previous
          v0 sentimentAlerts_def createAlert_def binary64_values ch acceptAll_def)
  show ?thesis
    using r a d by (simp add: binary64_values)
qed

section \<open>Properties of the dashboard metrics\<close>

text \<open>The exact sum of finite scores, which the dashboard metrics use.\<close>

lemma foldl_scores:
  "finiteScores xs \<Longrightarrow>
   foldl (\<lambda>sum article. js_add sum (score (sentiment article))) (Num acc) xs
     = Num (acc + sum_list (map scoreValue xs))"
proof (induction xs arbitrary: acc)
  case Nil
  then show ?case by simp
next
  case (Cons x xs)
  then have x: "score (sentiment x) = Num (scoreValue x)" and xs: "finiteScores xs"
    by (simp_all add: finiteScores_def)
  show ?case
    using Cons.IH [OF xs, of "acc + scoreValue x"] x
    by (simp add: add.assoc del: scoreValue.simps)
qed

lemma sumScores_finite:
  "finiteScores xs \<Longrightarrow> sumScores xs = Num (sum_list (map scoreValue xs))"
  using foldl_scores [of xs 0] by (simp add: sumScores_def)

lemma finiteScores_set: "finiteScores xs \<longleftrightarrow> (\<forall>x \<in> set xs. score (sentiment x) = Num (scoreValue x))"
  by (simp add: finiteScores_def list_all_iff)

lemma finiteScores_subset: "finiteScores ys \<Longrightarrow> set xs \<subseteq> set ys \<Longrightarrow> finiteScores xs"
  by (auto simp: finiteScores_set)

lemma guarded_mean_finite:
  "finiteScores xs \<Longrightarrow>
   isFinite (if length xs > 0 then js_div (sumScores xs) (countNum (length xs)) else Num 0)"
  by (simp add: sumScores_finite countNum_def)

lemma guarded_mean_empty:
  "(if length ([]::Article list) > 0 then js_div (sumScores []) (countNum (length ([]::Article list))) else Num 0) = Num 0"
  by simp

lemma set_window: "set (limitDocs limit (sortNewestFirst (findBetween store a b))) \<subseteq> set store"
  by (auto simp: limitDocs_def sortNewestFirst_def findBetween_def dest: in_set_takeD)

lemma set_findFromUntil: "set (findFromUntil store a b) \<subseteq> set store"
  by (auto simp: findFromUntil_def)

lemma set_findBetween: "set (findBetween store a b) \<subseteq> set store"
  by (auto simp: findBetween_def)

lemma set_withKeyword: "set (withKeyword kw store) \<subseteq> set store"
  by (auto simp: withKeyword_def)

lemma overview_empty:
  assumes "findBetween store (startDateOf tf now) now = []"
  shows "totalArticles (overview (generateDashboardMetrics store alerts now tf limit)) = 0"
    and "averageSentiment (overview (generateDashboardMetrics store alerts now tf limit)) = Num 0"
    and "topKeywords (overview (generateDashboardMetrics store alerts now tf limit)) = []"
    and "topSources (overview (generateDashboardMetrics store alerts now tf limit)) = []"
    and "sentimentDistribution (overview (generateDashboardMetrics store alerts now tf limit))
           = \<lparr>positive = 0, negative = 0, neutral = 0\<rparr>"
  using assms
  by (simp_all add: generateDashboardMetrics_def Let_def limitDocs_def sortNewestFirst_def
        topTen_def keywordCountsOf_def sourceCountsOf_def Object_entries_def distributionOf_def)

lemma overview_finite:
  "finiteScores store \<Longrightarrow>
   isFinite (averageSentiment (overview (generateDashboardMetrics store alerts now tf limit)))"
  using guarded_mean_finite [OF finiteScores_subset [OF _ set_window]]
  by (simp add: generateDashboardMetrics_def Let_def)

lemma simpleTrend_point:
  "pt \<in> set (generateSimpleTrend store s e SentimentTrend) \<Longrightarrow>
   (trendCount pt = Some 0 \<longrightarrow> trendValue pt = Num 0)
   \<and> (finiteScores store \<longrightarrow> isFinite (trendValue pt))"
  using guarded_mean_finite [OF finiteScores_subset [OF _ set_findFromUntil]]
  by (auto simp: generateSimpleTrend_def Let_def)

lemma keywordTrend_point:
  "pt \<in> set (generateKeywordTrend store kw s e) \<Longrightarrow>
   (trendCount pt = Some 0 \<longrightarrow> trendSentiment pt = Some (Num 0))
   \<and> (finiteScores store \<longrightarrow> (\<exists>v. trendSentiment pt = Some v \<and> isFinite v))"
  using guarded_mean_finite [OF finiteScores_subset [OF finiteScores_subset [OF _ set_withKeyword] set_findFromUntil]]
  by (auto simp: generateKeywordTrend_def Let_def)

lemma keywordMetrics_mean:
  "(findBetween (withKeyword kw store) (subDays now days) now = [] \<longrightarrow>
      kmSentiment (getKeywordMetrics store now kw days) = Num 0
      \<and> kmCount (getKeywordMetrics store now kw days) = 0)
   \<and> (finiteScores store \<longrightarrow> isFinite (kmSentiment (getKeywordMetrics store now kw days)))"
  using guarded_mean_finite [OF finiteScores_subset [OF finiteScores_subset [OF _ set_withKeyword] set_findBetween]]
  by (auto simp: getKeywordMetrics_def Let_def)

lemma complex_empty: "averageSentimentComplex [] = Num 0"
  by (simp add: averageSentimentComplex_def sumScores_def countNum_def)

lemma goodTable_bump: "goodTable t \<Longrightarrow> goodTable (bumpEntry k (Num a) t)"
proof (induction t)
  case Nil
  then show ?case by (simp add: goodTable_def)
next
  case (Cons e t)
  obtain k' c s where e: "e = (k', c, s)" by (cases e) auto
  from Cons.prems obtain b where s: "s = Num b"
    by (cases s) (auto simp: goodTable_def e)
  from Cons show ?case
    by (auto simp: goodTable_def e s)
qed

lemma goodTable_addCount: "goodTable t \<Longrightarrow> goodTable (addCount k (Num a) t)"
  by (simp add: addCount_def goodTable_bump)

lemma goodTable_keywords_inner:
  "goodTable t \<Longrightarrow> goodTable (foldl (\<lambda>tb kw. addCount kw (Num a) tb) t kws)"
  by (induction kws arbitrary: t) (simp_all add: goodTable_addCount)

lemma goodTable_keywords_fold:
  "finiteScores xs \<Longrightarrow> goodTable t \<Longrightarrow>
   goodTable (foldl (\<lambda>table article.
              foldl (\<lambda>tb kw. addCount kw (score (sentiment article)) tb) table
                    (Article.keywordList article)) t xs)"
proof (induction xs arbitrary: t)
  case Nil
  then show ?case by simp
next
  case (Cons x xs)
  then have x: "score (sentiment x) = Num (scoreValue x)" and xs: "finiteScores xs"
    by (simp_all add: finiteScores_def)
  show ?case
    using Cons.IH [OF xs goodTable_keywords_inner [OF Cons.prems(2)]] x
    by (simp del: scoreValue.simps)
qed

lemma goodTable_sources_fold:
  "finiteScores xs \<Longrightarrow> goodTable t \<Longrightarrow>
   goodTable (foldl (\<lambda>table article. addCount (source article) (score (sentiment article)) table) t xs)"
proof (induction xs arbitrary: t)
  case Nil
  then show ?case by simp
next
  case (Cons x xs)
  then have x: "score (sentiment x) = Num (scoreValue x)" and xs: "finiteScores xs"
    by (simp_all add: finiteScores_def)
  show ?case
    using Cons.IH [OF xs goodTable_addCount [OF Cons.prems(2)]] x
    by (simp del: scoreValue.simps)
qed

lemma topTen_finite:
  assumes "goodTable t"
  shows "list_all (\<lambda>e. isFinite (snd (snd e))) (topTen t)"
proof -
  have "\<forall>e \<in> set (Object_entries t). fst (snd e) > 0 \<and> isFinite (snd (snd e))"
    using assms by (auto simp: goodTable_def Object_entries_def list_all_iff)
  then have "\<forall>e \<in> set (map (\<lambda>(k, c, s). (k, c, if c > 0 then js_div s (countNum c) else Num 0))
            (Object_entries t)). isFinite (snd (snd e))"
  proof (intro ballI)
    fix e
    assume all: "\<forall>e \<in> set (Object_entries t). fst (snd e) > 0 \<and> isFinite (snd (snd e))"
      and "e \<in> set (map (\<lambda>(k, c, s). (k, c, if c > 0 then js_div s (countNum c) else Num 0))
            (Object_entries t))"
    then obtain k c s where src: "(k, c, s) \<in> set (Object_entries t)"
      and e: "e = (k, c, if c > 0 then js_div s (countNum c) else Num 0)"
      by auto
    from all src have c: "c > 0" and "isFinite s" by auto
    then obtain b where "s = Num b" by (cases s) auto
    with c e show "isFinite (snd (snd e))" by (simp add: countNum_def)
  qed
  moreover have "set (topTen t) \<subseteq> set (map (\<lambda>(k, c, s). (k, c, if c > 0 then js_div s (countNum c) else Num 0))
            (Object_entries t))"
    unfolding topTen_def using set_take_subset [of 10] by fastforce
  ultimately show ?thesis
    unfolding list_all_iff by blast
qed

lemma top_lists_finite:
  assumes "finiteScores store"
  shows "list_all (\<lambda>e. isFinite (snd (snd e)))
           (topKeywords (overview (generateDashboardMetrics store alerts now tf limit)))"
    and "list_all (\<lambda>e. isFinite (snd (snd e)))
           (topSources (overview (generateDashboardMetrics store alerts now tf limit)))"
proof -
  let ?xs = "limitDocs limit (sortNewestFirst (findBetween store (startDateOf tf now) now))"
  have fin: "finiteScores ?xs"
    using finiteScores_subset [OF assms set_window] .
  have e: "goodTable []" by (simp add: goodTable_def)
  have "goodTable (keywordCountsOf ?xs)"
    unfolding keywordCountsOf_def by (rule goodTable_keywords_fold [OF fin e])
  then show "list_all (\<lambda>e. isFinite (snd (snd e)))
           (topKeywords (overview (generateDashboardMetrics store alerts now tf limit)))"
    using topTen_finite by (simp add: generateDashboardMetrics_def Let_def)
  have "goodTable (sourceCountsOf ?xs)"
    unfolding sourceCountsOf_def by (rule goodTable_sources_fold [OF fin e])
  then show "list_all (\<lambda>e. isFinite (snd (snd e)))
           (topSources (overview (generateDashboardMetrics store alerts now tf limit)))"
    using topTen_finite by (simp add: generateDashboardMetrics_def Let_def)
qed

lemma sample_window_empty:
  "findBetween sampleStore (startDateOf hour 10000000000) 10000000000 = []"
  by (simp add: findBetween_def startDateOf_def subHours_def sampleStore_def sampleArticle_def)

lemma sample_trend:
  "generateSimpleTrend sampleStore (startDateOf hour 10000000000) 10000000000 SentimentTrend
     = [\<lparr>date = 9913600000, trendValue = Num 0, trendSentiment = Some (Num 0), trendCount = Some 0\<rparr>]"
  by (simp add: generateSimpleTrend_def startDateOf_def subHours_def ceilDiv_def msPerDay_def
        findFromUntil_def sampleStore_def sampleArticle_def Let_def)

text \<open>
  C5. When no article lies in the window, \<open>generateDashboardMetrics\<close> returns
  \<open>totalArticles = 0\<close>, \<open>averageSentiment = 0\<close> and empty \<open>topKeywords\<close> and
  \<open>topSources\<close>. Every mean the service takes over an empty set of articles is 0:
  the trend points of days without articles, the keyword trend, the keyword metrics,
  and the \<open>sum / n || 0\<close> form of the other service. With finite stored scores no
  mean, of an empty set or not, is NaN or infinite.
\<close>

theorem empty_window_metrics:
  "(findBetween store (startDateOf tf now) now = [] \<longrightarrow>
      totalArticles (overview (generateDashboardMetrics store alerts now tf limit)) = 0
      \<and> averageSentiment (overview (generateDashboardMetrics store alerts now tf limit)) = Num 0
      \<and> topKeywords (overview (generateDashboardMetrics store alerts now tf limit)) = []
      \<and> topSources (overview (generateDashboardMetrics store alerts now tf limit)) = []
      \<and> sentimentDistribution (overview (generateDashboardMetrics store alerts now tf limit))
           = \<lparr>positive = 0, negative = 0, neutral = 0\<rparr>)
   \<and> (\<forall>pt \<in> set (sentimentTrend (trends (generateDashboardMetrics store alerts now tf limit))).
        trendCount pt = Some 0 \<longrightarrow> trendValue pt = Num 0)
   \<and> (\<forall>pt \<in> set (generateKeywordTrend store kw s e).
        trendCount pt = Some 0 \<longrightarrow> trendSentiment pt = Some (Num 0))
   \<and> (findBetween (withKeyword kw store) (subDays now days) now = [] \<longrightarrow>
        kmSentiment (getKeywordMetrics store now kw days) = Num 0)
   \<and> averageSentimentComplex [] = Num 0
   \<and> (finiteScores store \<longrightarrow>
        isFinite (averageSentiment (overview (generateDashboardMetrics store alerts now tf limit)))
        \<and> list_all (\<lambda>e. isFinite (snd (snd e)))
             (topKeywords (overview (generateDashboardMetrics store alerts now tf limit)))
        \<and> list_all (\<lambda>e. isFinite (snd (snd e)))
             (topSources (overview (generateDashboardMetrics store alerts now tf limit)))
        \<and> list_all (\<lambda>pt. isFinite (trendValue pt))
             (sentimentTrend (trends (generateDashboardMetrics store alerts now tf limit)))
        \<and> isFinite (kmSentiment (getKeywordMetrics store now kw days)))"
proof -
  have tr: "sentimentTrend (trends (generateDashboardMetrics store alerts now tf limit))
      = generateSimpleTrend store (startDateOf tf now) now SentimentTrend"
    by (simp add: generateDashboardMetrics_def Let_def)
  have a: "\<forall>pt \<in> set (sentimentTrend (trends (generateDashboardMetrics store alerts now tf limit))).
        trendCount pt = Some 0 \<longrightarrow> trendValue pt = Num 0"
    unfolding tr using simpleTrend_point by blast
  have b: "finiteScores store \<longrightarrow> list_all (\<lambda>pt. isFinite (trendValue pt))
             (sentimentTrend (trends (generateDashboardMetrics store alerts now tf limit)))"
    unfolding tr list_all_iff using simpleTrend_point by blast
  have c: "\<forall>pt \<in> set (generateKeywordTrend store kw s e).
        trendCount pt = Some 0 \<longrightarrow> trendSentiment pt = Some (Num 0)"
    using keywordTrend_point by blast
  show ?thesis
    using a b c overview_empty [of store tf now alerts limit] overview_finite [of store alerts now tf limit]
      top_lists_finite [of store alerts now tf limit] keywordMetrics_mean [of kw store now days]
      complex_empty
    by blast
qed

theorem empty_window_metrics_witness:
  "findBetween sampleStore (startDateOf hour 10000000000) 10000000000 = []
   \<and> totalArticles (overview (generateDashboardMetrics sampleStore [] 10000000000 hour 1000)) = 0
   \<and> averageSentiment (overview (generateDashboardMetrics sampleStore [] 10000000000 hour 1000)) = Num 0
   \<and> topKeywords (overview (generateDashboardMetrics sampleStore [] 10000000000 hour 1000)) = []
   \<and> topSources (overview (generateDashboardMetrics sampleStore [] 10000000000 hour 1000)) = []
   \<and> sentimentTrend (trends (generateDashboardMetrics sampleStore [] 10000000000 hour 1000))
       = [\<lparr>date = 9913600000, trendValue = Num 0, trendSentiment = Some (Num 0), trendCount = Some 0\<rparr>]
   \<and> generateKeywordTrend sampleStore ''ai'' 9913600000 10000000000
       = [\<lparr>date = 9913600000, trendValue = Num 0, trendSentiment = Some (Num 0), trendCount = Some 0\<rparr>]
   \<and> kmSentiment (getKeywordMetrics sampleStore 10000000000 ''ai'' 1) = Num 0
   \<and> finiteScores sampleStore
   \<and> isFinite (averageSentiment (overview (generateDashboardMetrics sampleStore [] 172800000 hour 1000)))"
proof -
  note i1 = empty_window_metrics [where store = sampleStore and tf = hour and now = 10000000000
      and alerts = "[]" and limit = 1000 and kw = "''ai''" and s = 9913600000 and e = 10000000000
      and days = 1]
  note i2 = empty_window_metrics [where store = sampleStore and tf = hour and now = 172800000
      and alerts = "[]" and limit = 1000 and kw = "''ai''" and s = 0 and e = 0 and days = 1]
  have w: "findBetween sampleStore (startDateOf hour 10000000000) 10000000000 = []"
    by (rule sample_window_empty)
  have tr: "sentimentTrend (trends (generateDashboardMetrics sampleStore [] 10000000000 hour 1000))
       = [\<lparr>date = 9913600000, trendValue = Num 0, trendSentiment = Some (Num 0), trendCount = Some 0\<rparr>]"
    using sample_trend by (simp add: generateDashboardMetrics_def Let_def)
  have kt: "generateKeywordTrend sampleStore ''ai'' 9913600000 10000000000
       = [\<lparr>date = 9913600000, trendValue = Num 0, trendSentiment = Some (Num 0), trendCount = Some 0\<rparr>]"
    by (simp add: generateKeywordTrend_def ceilDiv_def msPerDay_def withKeyword_def
        findFromUntil_def sampleStore_def sampleArticle_def Let_def countNum_def)
  have kw: "findBetween (withKeyword ''ai'' sampleStore) (subDays 10000000000 1) 10000000000 = []"
    by (simp add: findBetween_def withKeyword_def subDays_def msPerDay_def sampleStore_def
        sampleArticle_def)
  have fin: "finiteScores sampleStore"
    by (simp add: finiteScores_def sampleStore_def sampleArticle_def)
  from i1 w have o: "totalArticles (overview (generateDashboardMetrics sampleStore [] 10000000000 hour 1000)) = 0
   \<and> averageSentiment (overview (generateDashboardMetrics sampleStore [] 10000000000 hour 1000)) = Num 0
   \<and> topKeywords (overview (generateDashboardMetrics sampleStore [] 10000000000 hour 1000)) = []
   \<and> topSources (overview (generateDashboardMetrics sampleStore [] 10000000000 hour 1000)) = []"
    by blast
  from i1 kw have k: "kmSentiment (getKeywordMetrics sampleStore 10000000000 ''ai'' 1) = Num 0"
    by blast
  from i2 fin
  have f: "isFinite (averageSentiment (overview (generateDashboardMetrics sampleStore [] 172800000 hour 1000)))"
    by blast
  from w o tr kt k fin f show ?thesis by blast
qed


section \<open>Properties of the content extraction\<close>

lemma dropWhile_hd: "s \<noteq> [] \<Longrightarrow> \<not> P (hd s) \<Longrightarrow> dropWhile P s = s"
  by (cases s) auto

lemma trim_plain:
  assumes "s \<noteq> []" "\<not> isWhitespace (hd s)" "\<not> isWhitespace (last s)"
  shows "trim s = s"
proof -
  have "dropWhile isWhitespace s = s"
    using assms by (simp add: dropWhile_hd)
  moreover have "dropWhile isWhitespace (rev s) = rev s"
    using assms by (simp add: dropWhile_hd hd_rev)
  ultimately show ?thesis by (simp add: trim_def)
qed

lemma ws_abc: "\<not> isWhitespace (CHR ''a'')" "\<not> isWhitespace (CHR ''b'')" "\<not> isWhitespace (CHR ''c'')"
  by (simp_all add: isWhitespace_def)

lemma trim_replicate:
  "\<not> isWhitespace c \<Longrightarrow> trim (replicate n c) = replicate n c"
  by (cases "n = 0") (simp_all add: trim_def trim_plain)

lemma body_texts:
  "paragraphTexts [replicate 50 (CHR ''a''), replicate 49 (CHR ''b'')]
     = [replicate 50 (CHR ''a''), replicate 49 (CHR ''b'')]"
  by (simp add: paragraphTexts_def trim_replicate ws_abc)

lemma body_join_length:
  "length (joinWith newline [replicate 50 (CHR ''a''), replicate 49 (CHR ''b'')]) = 100"
  by (simp add: newline_def)

lemma boundary_try:
  "trySelectors boundaryPage contentSelectors []
     = joinWith newline [replicate 50 (CHR ''a''), replicate 49 (CHR ''b'')]"
  by (simp add: contentSelectors_def boundaryPage_def body_texts body_join_length Let_def
        del: joinWith.simps)

lemma trySelectors_first_success:
  "list_all (\<lambda>s. \<not> selectorSucceeds pg s) pre \<Longrightarrow> selectorSucceeds pg sel \<Longrightarrow>
   trySelectors pg (pre @ sel # post) found = joinWith newline (paragraphTexts (pg sel))"
  by (induction pre arbitrary: found) (auto simp: selectorSucceeds_def Let_def)

lemma trySelectors_none_match:
  "list_all (\<lambda>s. length (pg s) < 2) sels \<Longrightarrow> trySelectors pg sels found = found"
  by (induction sels arbitrary: found) (auto simp: Let_def)

lemma extract_zero_match_fallback:
  "list_all (\<lambda>s. length (pg s) < 2) contentSelectors \<Longrightarrow>
   extractFromPage pg = trim (fallbackContent pg)"
  by (simp add: extractFromPage_def trySelectors_none_match)

lemma fallback_first_ten:
  "list_all (\<lambda>t. length (trim t) > 20) ps \<Longrightarrow> pg ''p'' = ps \<Longrightarrow>
   fallbackContent pg = joinWith newline (map trim (take 10 ps))"
proof -
  assume a: "list_all (\<lambda>t. length (trim t) > 20) ps" and p: "pg ''p'' = ps"
  have "filter (\<lambda>text. length text > 20) (map trim ps) = map trim ps"
    using a by (induction ps) auto
  then show ?thesis
    by (simp add: fallbackContent_def paragraphTexts_def p take_map)
qed

lemma boundary_no_success:
  "list_all (\<lambda>selector. \<not> selectorSucceeds boundaryPage selector) contentSelectors"
  by (simp add: contentSelectors_def selectorSucceeds_def boundaryPage_def body_texts
        body_join_length del: joinWith.simps)

lemma boundary_extract:
  "extractFromPage boundaryPage = replicate 50 (CHR ''a'') @ newline @ replicate 49 (CHR ''b'')"
proof -
  have "trim (replicate 50 (CHR ''a'') @ newline @ replicate 49 (CHR ''b''))
      = replicate 50 (CHR ''a'') @ newline @ replicate 49 (CHR ''b'')"
    by (rule trim_plain) (simp_all add: ws_abc newline_def)
  then show ?thesis
    using body_join_length
    by (simp add: extractFromPage_def boundary_try Let_def)
qed

lemma length_joinWith:
  "length (joinWith sep xs) = sum_list (map length xs) + length sep * (length xs - 1)"
  by (induction sep xs rule: joinWith.induct) auto

lemma boundary_fallback_length:
  "length (fallbackContent boundaryPage) = 348"
  by (simp add: fallbackContent_def boundaryPage_def paragraphTexts_def trim_replicate ws_abc
        newline_def length_joinWith sum_list_replicate del: joinWith.simps)

text \<open>
  C8, at the boundary. On \<open>boundaryPage\<close> no selector succeeds: the only one that
  matches, \<open>.article-body p\<close>, gives a text of exactly 100 characters. The page has 12
  paragraphs longer than 20 characters, yet the result is that text of 100 characters
  and not the first ten paragraphs: the loop asks for more than 100, the fallback for
  fewer than 100.
\<close>

theorem extractFromPage_boundary_no_fallback:
  "list_all (\<lambda>selector. \<not> selectorSucceeds boundaryPage selector) contentSelectors
   \<and> length (boundaryPage ''p'') = 12
   \<and> list_all (\<lambda>t. length (trim t) > 20) (boundaryPage ''p'')
   \<and> extractFromPage boundaryPage = replicate 50 (CHR ''a'') @ newline @ replicate 49 (CHR ''b'')
   \<and> length (extractFromPage boundaryPage) = 100
   \<and> length (trim (fallbackContent boundaryPage)) = 348
   \<and> extractFromPage boundaryPage \<noteq> trim (fallbackContent boundaryPage)"
proof -
  have p: "length (boundaryPage ''p'') = 12
      \<and> list_all (\<lambda>t. length (trim t) > 20) (boundaryPage ''p'')"
    by (simp add: boundaryPage_def trim_replicate ws_abc list_all_iff)
  have len: "length (extractFromPage boundaryPage) = 100"
    by (simp add: boundary_extract newline_def)
  have fb: "length (trim (fallbackContent boundaryPage)) = 348"
    by code_simp
  from len fb have "extractFromPage boundaryPage \<noteq> trim (fallbackContent boundaryPage)"
    by auto
  with p len fb boundary_no_success boundary_extract show ?thesis by blast
qed


section \<open>Properties of the feed scraper\<close>

lemma scrapeItems_fst:
  "fst (scrapeItems env store now src items arts) = fst (scrapeItems env store now src items [])"
proof (induction items arbitrary: arts)
  case Nil
  then show ?case by simp
next
  case (Cons item items)
  show ?case
    using Cons.IH [of "arts @ [rssArticle env now src item
            (extractFullContent (fetchPage env) (orEmpty (itemLink item)))]"]
      Cons.IH [of "[rssArticle env now src item
            (extractFullContent (fetchPage env) (orEmpty (itemLink item)))]"]
      Cons.IH [of arts]
    by (auto split: sum.splits)
qed

lemma scrapeItems_snd:
  "snd (scrapeItems env store now src items arts)
     = arts @ snd (scrapeItems env store now src items [])"
proof (induction items arbitrary: arts)
  case Nil
  then show ?case by simp
next
  case (Cons item items)
  show ?case
    using Cons.IH [of "arts @ [rssArticle env now src item
            (extractFullContent (fetchPage env) (orEmpty (itemLink item)))]"]
      Cons.IH [of "[rssArticle env now src item
            (extractFullContent (fetchPage env) (orEmpty (itemLink item)))]"]
      Cons.IH [of arts]
    by (auto split: sum.splits)
qed

lemma outcome_fst:
  "fst (scrapeSourceOutcome env store now src arts) = sourceThrows env store now src"
  using scrapeItems_fst [of env store now src _ arts]
  by (simp add: scrapeSourceOutcome_def sourceThrows_def split: sum.splits)

lemma outcome_snd:
  "snd (scrapeSourceOutcome env store now src arts) = arts @ sourceArticles env store now src"
  using scrapeItems_snd [of env store now src _ arts]
  by (simp add: scrapeSourceOutcome_def sourceArticles_def split: sum.splits)

lemma sourceThrows_fetch:
  "parseURL env (feedUrl src) = Inl e \<Longrightarrow> sourceThrows env store now src = Some e"
  "parseURL env (feedUrl src) = Inl e \<Longrightarrow> sourceArticles env store now src = []"
  "parseURL env (feedUrl src) = Inr items \<Longrightarrow>
     sourceThrows env store now src = itemsThrow env store now src items"
  by (simp_all add: sourceThrows_def sourceArticles_def scrapeSourceOutcome_def itemsThrow_def)

lemma scrapeSource_eq:
  "scrapeSource env store now src arts =
     ((case sourceThrows env store now src of
         Some e \<Rightarrow> catchBlock env now src e
       | None \<Rightarrow>
           (case saveSource env (tryUpdate now src) of
              None \<Rightarrow> Inr (tryUpdate now src)
            | Some rejection \<Rightarrow> catchBlock env now (tryUpdate now src) rejection)),
      arts @ sourceArticles env store now src)"
  using outcome_fst [of env store now src arts] outcome_snd [of env store now src arts]
  by (cases "scrapeSourceOutcome env store now src arts")
     (auto simp: scrapeSource_def Let_def split: option.splits)

lemma scrapeSource_saved:
  "\<forall>document. saveSource env document = None \<Longrightarrow>
   scrapeSource env store now src arts =
     (Inr (documentAfter env store now src), arts @ sourceArticles env store now src)"
  by (simp add: scrapeSource_eq documentAfter_def catchBlock_def Let_def split: option.splits)

lemma scrapeSources_saved:
  "\<forall>document. saveSource env document = None \<Longrightarrow>
   scrapeSources env store now srcs arts =
     (map (documentAfter env store now) srcs,
      Inr (arts @ concat (map (sourceArticles env store now) srcs)))"
proof (induction srcs arbitrary: arts)
  case Nil
  then show ?case by simp
next
  case (Cons src srcs)
  show ?case
    using Cons.IH [OF Cons.prems, of "arts @ sourceArticles env store now src"]
      scrapeSource_saved [OF Cons.prems, of store now src arts]
    by simp
qed

lemma fetch_failure_turn:
  "parseURL env (feedUrl src) = Inl e \<Longrightarrow>
   scrapeSource env store now src arts = (catchBlock env now src e, arts)"
  by (simp add: scrapeSource_eq sourceThrows_fetch)

lemma sample_throws:
  "sourceThrows (sampleEnv sampleFeeds) [] 1000 (sampleSource ''https://down.example/rss'' 2 None)
     = Some (ErrorObject ''socket hang up'')"
  "sourceThrows (sampleEnv sampleFeeds) [] 1000 (sampleSource ''https://up.example/rss'' 3 (Some ''timeout''))
     = None"
  "sourceThrows rejectResetEnv [] 1000 (sampleSource ''https://up.example/rss'' 3 (Some ''timeout''))
     = None"
  "sourceThrows noDigestEnv [] 1000 (sampleSource ''https://up.example/rss'' 3 (Some ''timeout''))
     = Some (ErrorObject ''Digest method not supported'')"
  "sourceThrows rejectAllEnv [] 1000 (sampleSource ''https://down.example/rss'' 2 None)
     = Some (ErrorObject ''socket hang up'')"
  by (simp_all add: sourceThrows_def scrapeSourceOutcome_def sampleEnv_def sampleFeeds_def
        sampleSource_def sampleItem_def sliceFromZero_def generateArticleHash_def strOr_def
        findOneByHash_def orEmpty_def rejectResetEnv_def noDigestEnv_def rejectAllEnv_def)

lemma sample_articles:
  "sourceArticles (sampleEnv sampleFeeds) [] 1000 (sampleSource ''https://down.example/rss'' 2 None)
     = []"
  "sourceArticles (sampleEnv sampleFeeds) [] 1000 (sampleSource ''https://up.example/rss'' n err)
     = [rssArticle (sampleEnv sampleFeeds) 1000 (sampleSource ''https://up.example/rss'' n err)
          (sampleItem ''https://up.example/story'' (Some ''not a date'')) '''']"
  by (simp_all add: sourceArticles_def scrapeSourceOutcome_def sampleEnv_def sampleFeeds_def
        sampleSource_def sampleItem_def sliceFromZero_def generateArticleHash_def strOr_def
        findOneByHash_def orEmpty_def extractFullContent_def)

lemma sample_saves: "\<forall>document. saveSource (sampleEnv feeds) document = None"
  by (simp add: sampleEnv_def)

text \<open>
  C7, as the code has it. A turn of the loop is given to each active source. When the
  fetch of a source fails, the \<open>catch\<close> block raises its error count by one, records
  the message and sets \<open>lastFetched\<close>, and hands that document to the store; when the
  store accepts it, the loop goes on with the sources that follow as if nothing had
  happened. When the fetch succeeds, the items are handled without a throw and the store
  accepts the save, the document saved has error count 0 and \<open>lastFetched\<close> and
  \<open>lastSuccessful\<close> at the current time, and \<open>lastError\<close> keeps the value it had. When
  the store accepts every save, every active source gets its turn and the articles of
  all of them are returned.
\<close>

theorem rss_source_status_update:
  "(parseURL env (feedUrl src) = Inl e \<longrightarrow>
        scrapeSource env store now src arts = (catchBlock env now src e, arts)
        \<and> errorCount (catchUpdate now src e) = errorCount src + 1
        \<and> lastError (catchUpdate now src e) = Some (errorMessage e)
        \<and> lastFetched (catchUpdate now src e) = Some now
        \<and> lastSuccessful (catchUpdate now src e) = lastSuccessful src)
   \<and> (parseURL env (feedUrl src) = Inl e \<and> saveSource env (catchUpdate now src e) = None \<longrightarrow>
        scrapeSource env store now src arts = (Inr (catchUpdate now src e), arts)
        \<and> scrapeSources env store now (src # rest) arts
            = (catchUpdate now src e # fst (scrapeSources env store now rest arts),
               snd (scrapeSources env store now rest arts)))
   \<and> (parseURL env (feedUrl src) = Inr items \<and> itemsThrow env store now src items = None
        \<and> saveSource env (tryUpdate now src) = None \<longrightarrow>
        fst (scrapeSource env store now src arts) = Inr (tryUpdate now src)
        \<and> errorCount (tryUpdate now src) = 0
        \<and> lastFetched (tryUpdate now src) = Some now
        \<and> lastSuccessful (tryUpdate now src) = Some now
        \<and> lastError (tryUpdate now src) = lastError src)
   \<and> ((\<forall>document. saveSource env document = None) \<longrightarrow>
        scrapeRSSFeeds env store now sources
          = (map (documentAfter env store now) (filter feedActive sources),
             Inr (concat (map (sourceArticles env store now) (filter feedActive sources)))))"
proof -
  have a: "parseURL env (feedUrl src) = Inl e \<longrightarrow>
        scrapeSource env store now src arts = (catchBlock env now src e, arts)
        \<and> errorCount (catchUpdate now src e) = errorCount src + 1
        \<and> lastError (catchUpdate now src e) = Some (errorMessage e)
        \<and> lastFetched (catchUpdate now src e) = Some now
        \<and> lastSuccessful (catchUpdate now src e) = lastSuccessful src"
    by (simp add: fetch_failure_turn catchUpdate_def)
  have b: "parseURL env (feedUrl src) = Inl e \<and> saveSource env (catchUpdate now src e) = None \<longrightarrow>
        scrapeSource env store now src arts = (Inr (catchUpdate now src e), arts)
        \<and> scrapeSources env store now (src # rest) arts
            = (catchUpdate now src e # fst (scrapeSources env store now rest arts),
               snd (scrapeSources env store now rest arts))"
    by (simp add: fetch_failure_turn catchBlock_def Let_def split: prod.splits)
  have c: "parseURL env (feedUrl src) = Inr items \<and> itemsThrow env store now src items = None
        \<and> saveSource env (tryUpdate now src) = None \<longrightarrow>
        fst (scrapeSource env store now src arts) = Inr (tryUpdate now src)
        \<and> errorCount (tryUpdate now src) = 0
        \<and> lastFetched (tryUpdate now src) = Some now
        \<and> lastSuccessful (tryUpdate now src) = Some now
        \<and> lastError (tryUpdate now src) = lastError src"
    by (simp add: scrapeSource_eq sourceThrows_fetch tryUpdate_def)
  have d: "(\<forall>document. saveSource env document = None) \<longrightarrow>
        scrapeRSSFeeds env store now sources
          = (map (documentAfter env store now) (filter feedActive sources),
             Inr (concat (map (sourceArticles env store now) (filter feedActive sources))))"
    using scrapeSources_saved [of env store now "filter feedActive sources" "[]"]
    by (simp add: scrapeRSSFeeds_def)
  from a b c d show ?thesis by blast
qed

theorem rss_source_status_update_witness:
  "scrapeRSSFeeds (sampleEnv sampleFeeds) [] 1000
          [sampleSource ''https://down.example/rss'' 2 None,
           sampleSource ''https://up.example/rss'' 3 (Some ''timeout'')]
     = ([(sampleSource ''https://down.example/rss'' 2 None)
          \<lparr>lastFetched := Some 1000, errorCount := 3, lastError := Some ''socket hang up''\<rparr>,
         (sampleSource ''https://up.example/rss'' 3 (Some ''timeout''))
          \<lparr>lastFetched := Some 1000, lastSuccessful := Some 1000, errorCount := 0\<rparr>],
        Inr [rssArticle (sampleEnv sampleFeeds) 1000
               (sampleSource ''https://up.example/rss'' 3 (Some ''timeout''))
               (sampleItem ''https://up.example/story'' (Some ''not a date'')) ''''])
   \<and> parseURL (sampleEnv sampleFeeds) (feedUrl (sampleSource ''https://down.example/rss'' 2 None))
       = Inl (ErrorObject ''socket hang up'')
   \<and> scrapeSource (sampleEnv sampleFeeds) [] 1000 (sampleSource ''https://down.example/rss'' 2 None) []
       = (Inr ((sampleSource ''https://down.example/rss'' 2 None)
                \<lparr>lastFetched := Some 1000, errorCount := 3, lastError := Some ''socket hang up''\<rparr>), [])
   \<and> parseURL (sampleEnv sampleFeeds) (feedUrl (sampleSource ''https://up.example/rss'' 3 (Some ''timeout'')))
       = Inr [sampleItem ''https://up.example/story'' (Some ''not a date'')]
   \<and> fst (scrapeSource (sampleEnv sampleFeeds) [] 1000
            (sampleSource ''https://up.example/rss'' 3 (Some ''timeout'')) [])
       = Inr ((sampleSource ''https://up.example/rss'' 3 (Some ''timeout''))
                \<lparr>lastFetched := Some 1000, lastSuccessful := Some 1000, errorCount := 0\<rparr>)
   \<and> scrapeSources (sampleEnv sampleFeeds) [] 1000
        [sampleSource ''https://down.example/rss'' 2 None,
         sampleSource ''https://up.example/rss'' 3 (Some ''timeout'')] []
       = (catchUpdate 1000 (sampleSource ''https://down.example/rss'' 2 None)
            (ErrorObject ''socket hang up'')
          # fst (scrapeSources (sampleEnv sampleFeeds) [] 1000
                 [sampleSource ''https://up.example/rss'' 3 (Some ''timeout'')] []),
          snd (scrapeSources (sampleEnv sampleFeeds) [] 1000
                 [sampleSource ''https://up.example/rss'' 3 (Some ''timeout'')] []))"
proof -
  let ?env = "sampleEnv sampleFeeds"
  let ?down = "sampleSource ''https://down.example/rss'' 2 None"
  let ?up = "sampleSource ''https://up.example/rss'' 3 (Some ''timeout'')"
  let ?item = "sampleItem ''https://up.example/story'' (Some ''not a date'')"
  let ?e = "ErrorObject ''socket hang up''"
  note i1 = rss_source_status_update [where env = ?env and store = "[]" and now = 1000
      and sources = "[?down, ?up]" and src = ?down and e = ?e and arts = "[]" and rest = "[?up]"
      and items = "[]"]
  note i2 = rss_source_status_update [where env = ?env and store = "[]" and now = 1000
      and sources = "[?down, ?up]" and src = ?up and e = ?e and arts = "[]" and rest = "[]"
      and items = "[?item]"]
  have p1: "parseURL ?env (feedUrl ?down) = Inl ?e"
    by (simp add: sampleEnv_def sampleSource_def sampleFeeds_def)
  have s1: "saveSource ?env (catchUpdate 1000 ?down ?e) = None"
    by (simp add: sampleEnv_def)
  have p2: "parseURL ?env (feedUrl ?up) = Inr [?item]"
    by (simp add: sampleEnv_def sampleSource_def sampleFeeds_def)
  have t2: "itemsThrow ?env [] 1000 ?up [?item] = None"
    by (simp add: itemsThrow_def sampleEnv_def sampleSource_def sampleItem_def sliceFromZero_def
          generateArticleHash_def strOr_def findOneByHash_def orEmpty_def)
  have s2: "saveSource ?env (tryUpdate 1000 ?up) = None"
    by (simp add: sampleEnv_def)
  have all: "\<forall>document. saveSource ?env document = None"
    by (rule sample_saves)
  from i1 p1 s1 have d: "scrapeSource ?env [] 1000 ?down [] = (Inr (catchUpdate 1000 ?down ?e), [])"
    and n: "scrapeSources ?env [] 1000 (?down # [?up]) []
        = (catchUpdate 1000 ?down ?e # fst (scrapeSources ?env [] 1000 [?up] []),
           snd (scrapeSources ?env [] 1000 [?up] []))"
    by blast+
  from i2 p2 t2 s2 have u: "fst (scrapeSource ?env [] 1000 ?up []) = Inr (tryUpdate 1000 ?up)"
    by blast
  from i1 all have r: "scrapeRSSFeeds ?env [] 1000 [?down, ?up]
      = (map (documentAfter ?env [] 1000) (filter feedActive [?down, ?up]),
         Inr (concat (map (sourceArticles ?env [] 1000) (filter feedActive [?down, ?up]))))"
    by blast
  have act: "filter feedActive [?down, ?up] = [?down, ?up]"
    by (simp add: sampleSource_def)
  have cd: "catchUpdate 1000 ?down ?e
      = ?down\<lparr>lastFetched := Some 1000, errorCount := 3, lastError := Some ''socket hang up''\<rparr>"
    by (simp add: catchUpdate_def sampleSource_def)
  have tu: "tryUpdate 1000 ?up
      = ?up\<lparr>lastFetched := Some 1000, lastSuccessful := Some 1000, errorCount := 0\<rparr>"
    by (simp add: tryUpdate_def)
  have da: "documentAfter ?env [] 1000 ?down = catchUpdate 1000 ?down ?e"
    "documentAfter ?env [] 1000 ?up = tryUpdate 1000 ?up"
    by (simp_all add: documentAfter_def sample_throws)
  have r2: "scrapeRSSFeeds ?env [] 1000 [?down, ?up]
     = ([?down\<lparr>lastFetched := Some 1000, errorCount := 3, lastError := Some ''socket hang up''\<rparr>,
         ?up\<lparr>lastFetched := Some 1000, lastSuccessful := Some 1000, errorCount := 0\<rparr>],
        Inr [rssArticle ?env 1000 ?up ?item ''''])"
    unfolding r act by (simp add: da cd tu sample_articles)
  from r2 p1 d p2 u n show ?thesis
    unfolding cd tu by simp
qed

text \<open>
  C7, as stated, fails in four ways. After a successful fetch the source that had
  failed three times with \<open>timeout\<close> has error count 0 and still the message
  \<open>timeout\<close>. When the fetch succeeds and the hash of an item throws, the error count
  grows to 4 and \<open>lastSuccessful\<close> stays. When the fetch succeeds and the store rejects
  the save that ends the \<open>try\<close> block, the \<open>catch\<close> block counts from the 0 just
  assigned: the source is saved with error count 1, the message of the rejection, and
  \<open>lastSuccessful\<close> at the current time. And when the fetch of the first source fails
  and the store rejects the save of the \<open>catch\<close> block, \<open>scrapeRSSFeeds\<close> throws: the
  second source is not fetched and no article is returned.
\<close>

theorem rss_successful_fetch_not_reset:
  "scrapeRSSFeeds (sampleEnv sampleFeeds) [] 1000
          [sampleSource ''https://up.example/rss'' 3 (Some ''timeout'')]
     = ([(sampleSource ''https://up.example/rss'' 3 (Some ''timeout''))
          \<lparr>lastFetched := Some 1000, lastSuccessful := Some 1000, errorCount := 0\<rparr>],
        Inr [rssArticle (sampleEnv sampleFeeds) 1000
               (sampleSource ''https://up.example/rss'' 3 (Some ''timeout''))
               (sampleItem ''https://up.example/story'' (Some ''not a date'')) ''''])
   \<and> lastError ((sampleSource ''https://up.example/rss'' 3 (Some ''timeout''))
          \<lparr>lastFetched := Some 1000, lastSuccessful := Some 1000, errorCount := 0\<rparr>)
       = Some ''timeout''
   \<and> parseURL noDigestEnv ''https://up.example/rss''
       = Inr [sampleItem ''https://up.example/story'' (Some ''not a date'')]
   \<and> scrapeRSSFeeds noDigestEnv [] 1000
          [sampleSource ''https://up.example/rss'' 3 (Some ''timeout'')]
     = ([(sampleSource ''https://up.example/rss'' 3 (Some ''timeout''))
          \<lparr>lastFetched := Some 1000, errorCount := 4,
            lastError := Some ''Digest method not supported''\<rparr>],
        Inr [])
   \<and> parseURL rejectResetEnv ''https://up.example/rss''
       = Inr [sampleItem ''https://up.example/story'' (Some ''not a date'')]
   \<and> fst (scrapeRSSFeeds rejectResetEnv [] 1000
          [sampleSource ''https://up.example/rss'' 3 (Some ''timeout'')])
     = [(sampleSource ''https://up.example/rss'' 3 (Some ''timeout''))
          \<lparr>lastFetched := Some 1000, lastSuccessful := Some 1000, errorCount := 1,
            lastError := Some ''write conflict''\<rparr>]
   \<and> scrapeRSSFeeds rejectAllEnv [] 1000
          [sampleSource ''https://down.example/rss'' 2 None,
           sampleSource ''https://up.example/rss'' 3 (Some ''timeout'')]
     = ([], Inl (ErrorObject ''write conflict''))"
proof -
  let ?up = "sampleSource ''https://up.example/rss'' 3 (Some ''timeout'')"
  let ?down = "sampleSource ''https://down.example/rss'' 2 None"
  have act: "filter feedActive [?up] = [?up]" "filter feedActive [?down, ?up] = [?down, ?up]"
    by (simp_all add: sampleSource_def)
  have a: "scrapeRSSFeeds (sampleEnv sampleFeeds) [] 1000 [?up]
     = ([?up\<lparr>lastFetched := Some 1000, lastSuccessful := Some 1000, errorCount := 0\<rparr>],
        Inr [rssArticle (sampleEnv sampleFeeds) 1000 ?up
               (sampleItem ''https://up.example/story'' (Some ''not a date'')) ''''])"
    unfolding scrapeRSSFeeds_def act scrapeSources_saved [OF sample_saves]
    by (simp add: documentAfter_def sample_throws sample_articles tryUpdate_def)
  have b: "lastError (?up\<lparr>lastFetched := Some 1000, lastSuccessful := Some 1000, errorCount := 0\<rparr>)
       = Some ''timeout''"
    by (simp add: sampleSource_def)
  have p: "parseURL noDigestEnv ''https://up.example/rss''
       = Inr [sampleItem ''https://up.example/story'' (Some ''not a date'')]"
    "parseURL rejectResetEnv ''https://up.example/rss''
       = Inr [sampleItem ''https://up.example/story'' (Some ''not a date'')]"
    by (simp_all add: noDigestEnv_def rejectResetEnv_def sampleEnv_def sampleFeeds_def)
  have nd: "sourceArticles noDigestEnv [] 1000 ?up = []"
    by (simp add: sourceArticles_def scrapeSourceOutcome_def sampleEnv_def sampleFeeds_def
        sampleSource_def sampleItem_def sliceFromZero_def generateArticleHash_def strOr_def
        orEmpty_def noDigestEnv_def)
  have c: "scrapeRSSFeeds noDigestEnv [] 1000 [?up]
     = ([?up\<lparr>lastFetched := Some 1000, errorCount := 4,
            lastError := Some ''Digest method not supported''\<rparr>], Inr [])"
    unfolding scrapeRSSFeeds_def act
    by (simp add: scrapeSource_eq sample_throws nd catchBlock_def catchUpdate_def Let_def)
       (simp add: noDigestEnv_def sampleEnv_def sampleSource_def)
  have sv: "saveSource rejectResetEnv document
      = (if errorCount document = 0 then Some (ErrorObject ''write conflict'') else None)"
    for document
    by (simp add: rejectResetEnv_def sampleEnv_def)
  have d: "fst (scrapeRSSFeeds rejectResetEnv [] 1000 [?up])
     = [?up\<lparr>lastFetched := Some 1000, lastSuccessful := Some 1000, errorCount := 1,
            lastError := Some ''write conflict''\<rparr>]"
    unfolding scrapeRSSFeeds_def act
    by (simp add: scrapeSource_eq sample_throws sv catchBlock_def Let_def)
       (simp add: catchUpdate_def tryUpdate_def sampleSource_def)
  have e: "scrapeRSSFeeds rejectAllEnv [] 1000 [?down, ?up] = ([], Inl (ErrorObject ''write conflict''))"
    unfolding scrapeRSSFeeds_def act
    by (simp add: scrapeSource_eq sample_throws catchBlock_def Let_def)
       (simp add: rejectAllEnv_def sampleEnv_def)
  from a b p c d e show ?thesis by blast
qed

text \<open>
  C9, in the feed adapter. A publication date that is present but that \<open>Date.parse\<close>
  cannot read gives the Invalid Date, not the current time; \<open>parseDate\<close> of the HTML
  scraper gives the current time for the same string. The feed adapter substitutes the
  current time only when both date fields are missing or empty.
\<close>

theorem rss_date_not_substituted:
  "(strTruthy (itemPubDate item) \<and> itemPubDate item = Some s \<and> parse s = None \<longrightarrow>
      rssPublishedAt parse now item = InvalidDate
      \<and> parseDate parse now s = Date now)
   \<and> (strTruthy (itemPubDate item) \<and> itemPubDate item = Some s \<and> dateParse env s = None \<longrightarrow>
      publishedAt (rssArticle env now src item fullContent) = InvalidDate)
   \<and> (\<not> strTruthy (itemPubDate item) \<and> \<not> strTruthy (itemIsoDate item) \<longrightarrow>
      rssPublishedAt parse now item = Date now)"
  by (cases "itemPubDate item"; cases "itemIsoDate item")
     (auto simp: rssPublishedAt_def strOr_def newDateOfString_def parseDate_def rssArticle_def)

theorem rss_date_not_substituted_witness:
  "snd (scrapeRSSFeeds (sampleEnv sampleFeeds) [] 1000
          [sampleSource ''https://up.example/rss'' 0 None])
     = Inr [rssArticle (sampleEnv sampleFeeds) 1000 (sampleSource ''https://up.example/rss'' 0 None)
          (sampleItem ''https://up.example/story'' (Some ''not a date'')) '''']
   \<and> publishedAt (rssArticle (sampleEnv sampleFeeds) 1000 (sampleSource ''https://up.example/rss'' 0 None)
          (sampleItem ''https://up.example/story'' (Some ''not a date'')) '''') = InvalidDate
   \<and> parseDate (dateParse (sampleEnv sampleFeeds)) 1000 ''not a date'' = Date 1000
   \<and> rssPublishedAt (dateParse (sampleEnv sampleFeeds)) 1000 (sampleItem ''https://up.example/story'' None)
       = Date 1000"
proof -
  let ?env = "sampleEnv sampleFeeds"
  let ?src = "sampleSource ''https://up.example/rss'' 0 None"
  let ?item = "sampleItem ''https://up.example/story'' (Some ''not a date'')"
  let ?item2 = "sampleItem ''https://up.example/story'' None"
  note i1 = rss_date_not_substituted [where item = ?item and s = "''not a date''"
      and parse = "dateParse ?env" and env = ?env and now = 1000 and src = ?src
      and fullContent = "''''"]
  note i2 = rss_date_not_substituted [where item = ?item2 and s = "''not a date''"
      and parse = "dateParse ?env" and env = ?env and now = 1000 and src = ?src
      and fullContent = "''''"]
  have h1: "strTruthy (itemPubDate ?item) \<and> itemPubDate ?item = Some ''not a date''
      \<and> dateParse ?env ''not a date'' = None"
    by (simp add: sampleItem_def sampleEnv_def)
  have h2: "\<not> strTruthy (itemPubDate ?item2) \<and> \<not> strTruthy (itemIsoDate ?item2)"
    by (simp add: sampleItem_def)
  from i1 h1 have a: "publishedAt (rssArticle ?env 1000 ?src ?item '''') = InvalidDate
      \<and> parseDate (dateParse ?env) 1000 ''not a date'' = Date 1000"
    by blast
  from i2 h2 have b: "rssPublishedAt (dateParse ?env) 1000 ?item2 = Date 1000"
    by blast
  have c: "snd (scrapeRSSFeeds ?env [] 1000 [?src]) = Inr [rssArticle ?env 1000 ?src ?item '''']"
    by (simp add: scrapeRSSFeeds_def scrapeSource_def scrapeSourceOutcome_def sampleEnv_def
        sampleFeeds_def sampleSource_def sampleItem_def sliceFromZero_def generateArticleHash_def
        strOr_def findOneByHash_def orEmpty_def extractFullContent_def tryUpdate_def Let_def)
  from a b c show ?thesis by blast
qed

section \<open>Properties of the deduplication\<close>

lemma urlHash_buildArticle: "urlHash (buildArticle en sa h) = h"
  by (simp add: buildArticle_def Let_def)

lemma url_buildArticle: "url (buildArticle en sa h) = url sa"
  by (simp add: buildArticle_def Let_def)

lemma findOneByHash_None: "findOneByHash store h = None \<longleftrightarrow> h \<notin> set (map urlHash store)"
  by (auto simp: findOneByHash_def find_None_iff)

lemma processArticle_cases:
  "processArticle env en store sa = store
   \<or> (\<exists>h. generateArticleHash (digest env) (envAlgorithm env) (url sa) = Inr h
          \<and> h \<notin> set (map urlHash store)
          \<and> saveArticle en store (buildArticle en sa h)
          \<and> processArticle env en store sa = store @ [buildArticle en sa h])"
  by (auto simp: processArticle_def Let_def findOneByHash_None split: sum.splits)

lemma processArticle_duplicate:
  "generateArticleHash (digest env) (envAlgorithm env) (url sa) = Inr h \<Longrightarrow>
   h \<in> set (map urlHash store) \<Longrightarrow> processArticle env en store sa = store"
  by (simp add: processArticle_def findOneByHash_None)

lemma processArticle_distinct:
  "distinct (map urlHash store) \<Longrightarrow> distinct (map urlHash (processArticle env en store sa))"
  using processArticle_cases [of env en store sa]
  by (auto simp: urlHash_buildArticle)

lemma processArticle_hashed:
  "\<forall>x \<in> set store. generateArticleHash (digest env) (envAlgorithm env) (url x) = Inr (urlHash x) \<Longrightarrow>
   \<forall>x \<in> set (processArticle env en store sa).
      generateArticleHash (digest env) (envAlgorithm env) (url x) = Inr (urlHash x)"
  using processArticle_cases [of env en store sa]
  by (auto simp: urlHash_buildArticle url_buildArticle)

lemma processArticle_prefix: "take (length store) (processArticle env en store sa) = store"
  using processArticle_cases [of env en store sa] by auto

lemma processArticle_length: "length store \<le> length (processArticle env en store sa)"
  using processArticle_cases [of env en store sa] by auto

lemma foldl_process_distinct:
  "distinct (map urlHash store) \<Longrightarrow>
   distinct (map urlHash (foldl (processArticle env en) store sas))"
  by (induction sas arbitrary: store) (simp_all add: processArticle_distinct)

lemma foldl_process_hashed:
  "\<forall>x \<in> set store. generateArticleHash (digest env) (envAlgorithm env) (url x) = Inr (urlHash x) \<Longrightarrow>
   \<forall>x \<in> set (foldl (processArticle env en) store sas).
      generateArticleHash (digest env) (envAlgorithm env) (url x) = Inr (urlHash x)"
proof (induction sas arbitrary: store)
  case Nil
  then show ?case by simp
next
  case (Cons sa sas)
  show ?case
    using Cons.IH [OF processArticle_hashed [OF Cons.prems, of en sa]] by simp
qed

lemma foldl_process_prefix:
  "take (length store) (foldl (processArticle env en) store sas) = store"
proof (induction sas arbitrary: store)
  case Nil
  then show ?case by simp
next
  case (Cons sa sas)
  have "take (length store) (foldl (processArticle env en) (processArticle env en store sa) sas)
      = take (length store) (take (length (processArticle env en store sa))
          (foldl (processArticle env en) (processArticle env en store sa) sas))"
    using processArticle_length [of store env en sa] by (simp add: min_def)
  also have "\<dots> = take (length store) (processArticle env en store sa)"
    using Cons.IH [of "processArticle env en store sa"] by simp
  also have "\<dots> = store"
    by (rule processArticle_prefix)
  finally show ?case by simp
qed

lemma same_url_second_skipped:
  assumes "url a = url b" "processArticle env en store a \<noteq> store"
  shows "processArticle env en (processArticle env en store a) b = processArticle env en store a"
proof -
  from processArticle_cases [of env en store a] assms(2)
  obtain h where h: "generateArticleHash (digest env) (envAlgorithm env) (url a) = Inr h"
    and st: "processArticle env en store a = store @ [buildArticle en a h]"
    by blast
  have "h \<in> set (map urlHash (processArticle env en store a))"
    by (simp add: st urlHash_buildArticle)
  moreover have "generateArticleHash (digest env) (envAlgorithm env) (url b) = Inr h"
    using h assms(1) by simp
  ultimately show ?thesis
    by (rule processArticle_duplicate [rotated])
qed

text \<open>
  C1. The hash of an article is computed from its URL and from nothing else, so two
  scraped articles with the same URL get the same hash, whatever their titles and
  bodies. Once an article with that hash is in the collection, \<open>processAndSaveArticles\<close>
  skips the second: if the first was saved in this run, the turn for the second leaves
  the collection as it is. The run never changes what was stored before, gives every
  document it saves the hash of its own URL, and keeps the URL hashes of the collection
  pairwise different.
\<close>

theorem dedup_by_url_hash:
  "(url a = url b \<longrightarrow>
      generateArticleHash (digest env) (envAlgorithm env) (url a)
        = generateArticleHash (digest env) (envAlgorithm env) (url b))
   \<and> (url a = url b
        \<and> generateArticleHash (digest env) (envAlgorithm env) (url a) = Inr h
        \<and> h \<in> set (map urlHash store) \<longrightarrow>
        processArticle env en store b = store)
   \<and> (url a = url b \<and> processArticle env en store a \<noteq> store \<longrightarrow>
        processArticle env en (processArticle env en store a) b = processArticle env en store a)
   \<and> (distinct (map urlHash store) \<longrightarrow>
        distinct (map urlHash (processAndSaveArticles env en store scraped)))
   \<and> ((\<forall>x \<in> set store. generateArticleHash (digest env) (envAlgorithm env) (url x) = Inr (urlHash x)) \<longrightarrow>
        (\<forall>x \<in> set (processAndSaveArticles env en store scraped).
           generateArticleHash (digest env) (envAlgorithm env) (url x) = Inr (urlHash x)))
   \<and> take (length store) (processAndSaveArticles env en store scraped) = store"
proof -
  have dup: "url a = url b
        \<and> generateArticleHash (digest env) (envAlgorithm env) (url a) = Inr h
        \<and> h \<in> set (map urlHash store) \<longrightarrow>
        processArticle env en store b = store"
    using processArticle_duplicate [of env b h store en] by auto
  have snd: "url a = url b \<and> processArticle env en store a \<noteq> store \<longrightarrow>
        processArticle env en (processArticle env en store a) b = processArticle env en store a"
    using same_url_second_skipped [of a b env en store] by blast
  have dis: "distinct (map urlHash store) \<longrightarrow>
        distinct (map urlHash (processAndSaveArticles env en store scraped))"
    by (simp add: processAndSaveArticles_def Let_def foldl_process_distinct)
  have hsh: "(\<forall>x \<in> set store. generateArticleHash (digest env) (envAlgorithm env) (url x) = Inr (urlHash x)) \<longrightarrow>
        (\<forall>x \<in> set (processAndSaveArticles env en store scraped).
           generateArticleHash (digest env) (envAlgorithm env) (url x) = Inr (urlHash x))"
    unfolding processAndSaveArticles_def Let_def
    using foldl_process_hashed [of store env en] by blast
  have pre: "take (length store) (processAndSaveArticles env en store scraped) = store"
    by (simp add: processAndSaveArticles_def Let_def foldl_process_prefix)
  from dup snd dis hsh pre show ?thesis by simp
qed

theorem dedup_by_url_hash_witness:
  "url (sampleScraped ''https://n.example/x'' ''First title'' ''first body'')
     = url (sampleScraped ''https://n.example/x'' ''Second title'' ''second body'')
   \<and> title (sampleScraped ''https://n.example/x'' ''First title'' ''first body'')
     \<noteq> title (sampleScraped ''https://n.example/x'' ''Second title'' ''second body'')
   \<and> processAndSaveArticles (sampleEnv sampleFeeds) (sampleEnrich True) []
        [sampleScraped ''https://n.example/x'' ''First title'' ''first body'',
         sampleScraped ''https://n.example/x'' ''Second title'' ''second body'']
     = [buildArticle (sampleEnrich True)
          (sampleScraped ''https://n.example/x'' ''First title'' ''first body'')
          ''sha256:https://n.example/x'']
   \<and> distinct (map urlHash (processAndSaveArticles (sampleEnv sampleFeeds) (sampleEnrich True) []
        [sampleScraped ''https://n.example/x'' ''First title'' ''first body'',
         sampleScraped ''https://n.example/x'' ''Second title'' ''second body'']))
   \<and> processArticle (sampleEnv sampleFeeds) (sampleEnrich True)
        [buildArticle (sampleEnrich True)
          (sampleScraped ''https://n.example/x'' ''First title'' ''first body'')
          ''sha256:https://n.example/x'']
        (sampleScraped ''https://n.example/x'' ''Second title'' ''second body'')
     = [buildArticle (sampleEnrich True)
          (sampleScraped ''https://n.example/x'' ''First title'' ''first body'')
          ''sha256:https://n.example/x'']"
proof -
  let ?env = "sampleEnv sampleFeeds"
  let ?en = "sampleEnrich True"
  let ?a = "sampleScraped ''https://n.example/x'' ''First title'' ''first body''"
  let ?b = "sampleScraped ''https://n.example/x'' ''Second title'' ''second body''"
  let ?h = "''sha256:https://n.example/x''"
  let ?art = "buildArticle ?en ?a ?h"
  note i = dedup_by_url_hash [where a = ?a and b = ?b and env = ?env and en = ?en and h = ?h
      and store = "[?art]" and scraped = "[?a, ?b]"]
  note j = dedup_by_url_hash [where a = ?a and b = ?b and env = ?env and en = ?en and h = ?h
      and store = "[]" and scraped = "[?a, ?b]"]
  have u: "url ?a = url ?b" and t: "title ?a \<noteq> title ?b"
    by (simp_all add: sampleScraped_def)
  have ha: "generateArticleHash (digest ?env) (envAlgorithm ?env) (url ?a) = Inr ?h"
    by (simp add: generateArticleHash_def sampleEnv_def sampleScraped_def strOr_def)
  have mem: "?h \<in> set (map urlHash [?art])"
    by (simp add: urlHash_buildArticle)
  from i u ha mem have skip: "processArticle ?env ?en [?art] ?b = [?art]"
    by blast
  have first: "processArticle ?env ?en [] ?a = [?art]"
    using ha by (simp add: processArticle_def findOneByHash_def sampleEnrich_def Let_def)
  have run: "processAndSaveArticles ?env ?en [] [?a, ?b] = [?art]"
    by (simp add: processAndSaveArticles_def Let_def first skip)
  from j have "distinct (map urlHash (processAndSaveArticles ?env ?en [] [?a, ?b]))"
    by simp
  with u t run skip show ?thesis by blast
qed


section \<open>Properties of the snapshot caching\<close>

lemma findSnapshot_None: "findSnapshot docs d tf = None \<longleftrightarrow> bucketCount docs tf d = 0"
  by (auto simp: findSnapshot_def bucketCount_def find_None_iff filter_empty_conv)

lemma bucketCount_snoc:
  "bucketCount (docs @ [snapshotOf d' tf' ov]) tf d
     = bucketCount docs tf d + (if d' = d \<and> tf' = tf then 1 else 0)"
  by (simp add: bucketCount_def snapshotOf_def)

lemma cacheTimeframe_cases:
  "cacheTimeframe env docs tf = docs
   \<or> (bucketCount docs tf (bucketOf env tf) = 0
      \<and> (\<exists>ov. cacheTimeframe env docs tf = docs @ [snapshotOf (bucketOf env tf) tf ov]))"
  by (auto simp: cacheTimeframe_def Let_def bucketOf_def findSnapshot_None split: sum.splits)

lemma cacheTimeframe_noop:
  "bucketCount docs tf (bucketOf env tf) \<ge> 1 \<Longrightarrow> cacheTimeframe env docs tf = docs"
  using cacheTimeframe_cases [of env docs tf] by auto

lemma cacheTimeframe_count_other:
  assumes "bucketCount docs tf d \<ge> 1"
  shows "bucketCount (cacheTimeframe env docs tf') tf d = bucketCount docs tf d"
proof -
  from cacheTimeframe_cases [of env docs tf']
  show ?thesis
  proof
    assume "cacheTimeframe env docs tf' = docs"
    then show ?thesis by simp
  next
    assume "bucketCount docs tf' (bucketOf env tf') = 0
      \<and> (\<exists>ov. cacheTimeframe env docs tf' = docs @ [snapshotOf (bucketOf env tf') tf' ov])"
    then obtain ov where z: "bucketCount docs tf' (bucketOf env tf') = 0"
      and c: "cacheTimeframe env docs tf' = docs @ [snapshotOf (bucketOf env tf') tf' ov]"
      by blast
    from z assms have "\<not> (bucketOf env tf' = d \<and> tf' = tf)" by auto
    then show ?thesis by (simp add: c bucketCount_snoc)
  qed
qed

lemma cacheTimeframe_count_le:
  "bucketCount (cacheTimeframe env docs tf') tf d
     \<le> max 1 (bucketCount docs tf d)"
  using cacheTimeframe_cases [of env docs tf']
  by (auto simp: bucketCount_snoc)

lemma cacheTimeframe_count_mono:
  "bucketCount docs tf d \<le> bucketCount (cacheTimeframe env docs tf') tf d"
  using cacheTimeframe_cases [of env docs tf']
  by (auto simp: bucketCount_snoc)

lemma cacheTimeframe_success:
  "cachingSucceeds env tf \<Longrightarrow>
   bucketCount (cacheTimeframe env docs tf) tf (bucketOf env tf) \<ge> 1"
  by (auto simp: cachingSucceeds_def cacheTimeframe_def Let_def bucketOf_def findSnapshot_None
        bucketCount_snoc split: sum.splits)

lemma foldl_cache_present:
  "bucketCount docs tf d \<ge> 1 \<Longrightarrow>
   bucketCount (foldl (cacheTimeframe env) docs tfs) tf d = bucketCount docs tf d"
proof (induction tfs arbitrary: docs)
  case Nil
  then show ?case by simp
next
  case (Cons t tfs)
  have step: "bucketCount (cacheTimeframe env docs t) tf d = bucketCount docs tf d"
    by (rule cacheTimeframe_count_other [OF Cons.prems])
  with Cons.prems have "bucketCount (cacheTimeframe env docs t) tf d \<ge> 1" by simp
  from Cons.IH [OF this] step show ?case by simp
qed

lemma foldl_cache_le:
  "bucketCount (foldl (cacheTimeframe env) docs tfs) tf d \<le> max 1 (bucketCount docs tf d)"
proof (induction tfs arbitrary: docs)
  case Nil
  then show ?case by simp
next
  case (Cons t tfs)
  have "bucketCount (foldl (cacheTimeframe env) (cacheTimeframe env docs t) tfs) tf d
      \<le> max 1 (bucketCount (cacheTimeframe env docs t) tf d)"
    by (rule Cons.IH)
  also have "\<dots> \<le> max 1 (bucketCount docs tf d)"
    using cacheTimeframe_count_le [of env docs t tf d] by simp
  finally show ?case by simp
qed

lemma foldl_cache_mono:
  "bucketCount docs tf d \<le> bucketCount (foldl (cacheTimeframe env) docs tfs) tf d"
proof (induction tfs arbitrary: docs)
  case Nil
  then show ?case by simp
next
  case (Cons t tfs)
  show ?case
    using Cons.IH [of "cacheTimeframe env docs t"] cacheTimeframe_count_mono [of docs tf d env t]
    by simp
qed

lemma foldl_cache_success:
  "cachingSucceeds env tf \<Longrightarrow> tf \<in> set tfs \<Longrightarrow>
   bucketCount (foldl (cacheTimeframe env) docs tfs) tf (bucketOf env tf) \<ge> 1"
proof (induction tfs arbitrary: docs)
  case Nil
  then show ?case by simp
next
  case (Cons t tfs)
  show ?case
  proof (cases "t = tf")
    case True
    have "1 \<le> bucketCount (cacheTimeframe env docs tf) tf (bucketOf env tf)"
      by (rule cacheTimeframe_success [OF Cons.prems(1)])
    also have "\<dots> \<le> bucketCount (foldl (cacheTimeframe env) (cacheTimeframe env docs tf) tfs) tf (bucketOf env tf)"
      by (rule foldl_cache_mono)
    finally show ?thesis using True by simp
  next
    case False
    with Cons.prems have "tf \<in> set tfs" by simp
    from Cons.IH [OF Cons.prems(1) this] show ?thesis by simp
  qed
qed

lemma all_timeframes: "tf \<in> set [hour, day, week, month]"
  by (cases tf) simp_all

lemma foldl_cache_noop:
  "list_all (\<lambda>tf. bucketCount docs tf (bucketOf env tf) \<ge> 1) tfs \<Longrightarrow>
   foldl (cacheTimeframe env) docs tfs = docs"
  by (induction tfs) (simp_all add: cacheTimeframe_noop)

text \<open>
  C6. A turn of \<open>generateAndCacheAnalytics\<close> first looks for a snapshot of its
  timeframe at the bucket start and changes nothing when there is one. A run never
  adds to a bucket that already has a snapshot, so two runs leave at most one snapshot
  in a bucket that had none. When both runs fall in the same bucket of a timeframe and
  the metrics and the save of the first succeed, the bucket holds exactly one snapshot
  after the first run and after the second; when that is so for the four timeframes the
  second run leaves the collection as the first left it.
\<close>

theorem snapshot_caching_idempotent:
  "(bucketCount docs tf (bucketOf first tf) \<ge> 1 \<longrightarrow> cacheTimeframe first docs tf = docs)
   \<and> (bucketCount docs tf d \<ge> 1 \<longrightarrow>
        bucketCount (generateAndCacheAnalytics first docs) tf d = bucketCount docs tf d)
   \<and> bucketCount (generateAndCacheAnalytics second (generateAndCacheAnalytics first docs)) tf d
       \<le> max 1 (bucketCount docs tf d)
   \<and> (bucketOf second tf = bucketOf first tf \<and> bucketCount docs tf (bucketOf first tf) = 0
        \<and> cachingSucceeds first tf \<longrightarrow>
        bucketCount (generateAndCacheAnalytics first docs) tf (bucketOf first tf) = 1
        \<and> bucketCount (generateAndCacheAnalytics second (generateAndCacheAnalytics first docs))
             tf (bucketOf first tf) = 1)
   \<and> (list_all (\<lambda>t. bucketOf second t = bucketOf first t \<and> cachingSucceeds first t)
          [hour, day, week, month] \<longrightarrow>
        generateAndCacheAnalytics second (generateAndCacheAnalytics first docs)
          = generateAndCacheAnalytics first docs)"
proof -
  let ?G = generateAndCacheAnalytics
  have a: "bucketCount docs tf (bucketOf first tf) \<ge> 1 \<longrightarrow> cacheTimeframe first docs tf = docs"
    using cacheTimeframe_noop by blast
  have b: "bucketCount docs tf d \<ge> 1 \<longrightarrow> bucketCount (?G first docs) tf d = bucketCount docs tf d"
    unfolding generateAndCacheAnalytics_def using foldl_cache_present by blast
  have le1: "bucketCount (?G env ds) t x \<le> max 1 (bucketCount ds t x)" for env ds t x
    unfolding generateAndCacheAnalytics_def by (rule foldl_cache_le)
  have c: "bucketCount (?G second (?G first docs)) tf d \<le> max 1 (bucketCount docs tf d)"
    using le1 [of second "?G first docs" tf d] le1 [of first docs tf d] by simp
  have d: "bucketOf second tf = bucketOf first tf \<and> bucketCount docs tf (bucketOf first tf) = 0
        \<and> cachingSucceeds first tf \<longrightarrow>
        bucketCount (?G first docs) tf (bucketOf first tf) = 1
        \<and> bucketCount (?G second (?G first docs)) tf (bucketOf first tf) = 1"
  proof (intro impI)
    assume h: "bucketOf second tf = bucketOf first tf \<and> bucketCount docs tf (bucketOf first tf) = 0
        \<and> cachingSucceeds first tf"
    then have "bucketCount (?G first docs) tf (bucketOf first tf) \<ge> 1"
      unfolding generateAndCacheAnalytics_def
      using foldl_cache_success [OF _ all_timeframes] by blast
    moreover have "bucketCount (?G first docs) tf (bucketOf first tf) \<le> 1"
      using le1 [of first docs tf "bucketOf first tf"] h by simp
    ultimately have one: "bucketCount (?G first docs) tf (bucketOf first tf) = 1"
      by simp
    have "bucketCount (?G first docs) tf (bucketOf first tf) \<ge> 1"
      using one by simp
    then have "bucketCount (foldl (cacheTimeframe second) (?G first docs) [hour, day, week, month])
          tf (bucketOf first tf)
        = bucketCount (?G first docs) tf (bucketOf first tf)"
      by (rule foldl_cache_present)
    then have "bucketCount (?G second (?G first docs)) tf (bucketOf first tf)
        = bucketCount (?G first docs) tf (bucketOf first tf)"
      by (simp only: generateAndCacheAnalytics_def)
    with one show "bucketCount (?G first docs) tf (bucketOf first tf) = 1
        \<and> bucketCount (?G second (?G first docs)) tf (bucketOf first tf) = 1"
      by simp
  qed
  have e: "list_all (\<lambda>t. bucketOf second t = bucketOf first t \<and> cachingSucceeds first t)
          [hour, day, week, month] \<longrightarrow>
        ?G second (?G first docs) = ?G first docs"
  proof
    assume h: "list_all (\<lambda>t. bucketOf second t = bucketOf first t \<and> cachingSucceeds first t)
          [hour, day, week, month]"
    have "bucketCount (?G first docs) t (bucketOf second t) \<ge> 1" if "t \<in> set [hour, day, week, month]" for t
    proof -
      from h that have s: "bucketOf second t = bucketOf first t" and ok: "cachingSucceeds first t"
        by (auto simp: list_all_iff)
      show ?thesis
        unfolding generateAndCacheAnalytics_def s
        by (rule foldl_cache_success [OF ok all_timeframes])
    qed
    then have "list_all (\<lambda>t. bucketCount (?G first docs) t (bucketOf second t) \<ge> 1)
        [hour, day, week, month]"
      unfolding list_all_iff by blast
    then show "?G second (?G first docs) = ?G first docs"
      using foldl_cache_noop [of "?G first docs" second "[hour, day, week, month]"]
      by (simp add: generateAndCacheAnalytics_def)
  qed
  from a b c d e show ?thesis by blast
qed

lemma sample_buckets:
  "bucketOf (sampleCacheEnv 1000) tf = 0" "bucketOf (sampleCacheEnv 2000) tf = 0"
  by (cases tf; simp add: bucketOf_def sampleCacheEnv_def)+

lemma sample_succeeds: "cachingSucceeds (sampleCacheEnv 1000) tf"
  by (simp add: cachingSucceeds_def sampleCacheEnv_def)

lemma sample_first_run:
  "generateAndCacheAnalytics (sampleCacheEnv 1000) []
     = [snapshotOf 0 hour emptyOverview, snapshotOf 0 day emptyOverview,
        snapshotOf 0 week emptyOverview, snapshotOf 0 month emptyOverview]"
  by (simp add: generateAndCacheAnalytics_def cacheTimeframe_def sampleCacheEnv_def Let_def
        findSnapshot_def snapshotOf_def)

theorem snapshot_caching_idempotent_witness:
  "generateAndCacheAnalytics (sampleCacheEnv 2000) (generateAndCacheAnalytics (sampleCacheEnv 1000) [])
     = [snapshotOf 0 hour emptyOverview, snapshotOf 0 day emptyOverview,
        snapshotOf 0 week emptyOverview, snapshotOf 0 month emptyOverview]
   \<and> bucketCount (generateAndCacheAnalytics (sampleCacheEnv 2000)
          (generateAndCacheAnalytics (sampleCacheEnv 1000) [])) day 0 = 1
   \<and> cacheTimeframe (sampleCacheEnv 1000) [snapshotOf 0 day emptyOverview] day
       = [snapshotOf 0 day emptyOverview]"
proof -
  let ?e1 = "sampleCacheEnv 1000"
  let ?e2 = "sampleCacheEnv 2000"
  note i = snapshot_caching_idempotent [where first = ?e1 and second = ?e2 and docs = "[]"
      and tf = day and d = 0]
  note j = snapshot_caching_idempotent [where first = ?e1 and second = ?e2
      and docs = "[snapshotOf 0 day emptyOverview]" and tf = day and d = 0]
  have all: "list_all (\<lambda>t. bucketOf ?e2 t = bucketOf ?e1 t \<and> cachingSucceeds ?e1 t)
          [hour, day, week, month]"
    by (simp add: sample_buckets sample_succeeds)
  with i have "generateAndCacheAnalytics ?e2 (generateAndCacheAnalytics ?e1 [])
      = generateAndCacheAnalytics ?e1 []"
    by blast
  then have w1: "generateAndCacheAnalytics ?e2 (generateAndCacheAnalytics ?e1 [])
     = [snapshotOf 0 hour emptyOverview, snapshotOf 0 day emptyOverview,
        snapshotOf 0 week emptyOverview, snapshotOf 0 month emptyOverview]"
    by (simp add: sample_first_run)
  have h: "bucketOf ?e2 day = bucketOf ?e1 day \<and> bucketCount [] day (bucketOf ?e1 day) = 0
        \<and> cachingSucceeds ?e1 day"
    by (simp add: sample_buckets sample_succeeds bucketCount_def)
  with i have w2: "bucketCount (generateAndCacheAnalytics ?e2 (generateAndCacheAnalytics ?e1 []))
      day 0 = 1"
    by (simp add: sample_buckets)
  have "bucketCount [snapshotOf 0 day emptyOverview] day (bucketOf ?e1 day) \<ge> 1"
    by (simp add: sample_buckets bucketCount_def snapshotOf_def)
  with j have w3: "cacheTimeframe ?e1 [snapshotOf 0 day emptyOverview] day
       = [snapshotOf 0 day emptyOverview]"
    by blast
  from w1 w2 w3 show ?thesis by blast
qed


section \<open>Properties of the sentiment analysis\<close>

lemma analyzeSentiment_transport: "analyzeSentiment conv (TransportError e) = neutralFallback"
  by (simp add: analyzeSentiment_def bindThrown_def)

lemma normalize_parseFallback:
  "normalizeSentiment conv (parseFallback SentimentCall) = Inr neutralFallback"
  by (simp add: normalizeSentiment_def clampProp_def bindThrown_def orDefault_def clampValue_def
        Math_max_def Math_min_def neutralFallback_def lowerChar_def Let_def)

lemma analyzeSentiment_parse: "analyzeSentiment conv ParseFailure = neutralFallback"
  by (simp add: analyzeSentiment_def bindThrown_def normalize_parseFallback
        del: parseFallback.simps)

lemma clamp_range_or_nan:
  assumes "lo \<le> hi" "clampValue conv lo hi v = Inr n"
  shows "n = NaN \<or> in_range lo hi n"
proof -
  from assms(2) obtain m where m: "toNumber conv v = Inr m"
    and n: "n = Math_max (Num lo) (Math_min (Num hi) m)"
    by (auto simp: clampValue_def split: sum.splits)
  show ?thesis
    using assms(1) by (cases m) (auto simp: n Math_max_def Math_min_def)
qed

lemma clampProp_range_or_nan:
  "lo \<le> hi \<Longrightarrow> clampProp conv obj k lo hi d = Inr n \<Longrightarrow> n = NaN \<or> in_range lo hi n"
  by (auto simp: clampProp_def bindThrown_def split: sum.splits dest: clamp_range_or_nan)

lemma normalize_fields:
  assumes "normalizeSentiment conv result = Inr r"
  shows "clampProp conv result ''score'' (- 1) 1 0 = Inr (score r)"
    and "clampProp conv result ''confidence'' 0 1 0.5 = Inr (confidence r)"
  using assms
  by (auto simp: normalizeSentiment_def bindThrown_def split: sum.splits option.splits if_splits)

lemma analyzeSentiment_range_or_nan:
  "(score (analyzeSentiment conv reply) = NaN \<or> in_range (- 1) 1 (score (analyzeSentiment conv reply)))
   \<and> (confidence (analyzeSentiment conv reply) = NaN
        \<or> in_range 0 1 (confidence (analyzeSentiment conv reply)))"
proof (cases "bindThrown (callOpenRouter reply SentimentCall) (normalizeSentiment conv)")
  case (Inl e)
  then show ?thesis by (simp add: analyzeSentiment_def neutralFallback_def)
next
  case (Inr r)
  then obtain result where "normalizeSentiment conv result = Inr r"
    by (auto simp: bindThrown_def split: sum.splits)
  from normalize_fields [OF this] have "score r = NaN \<or> in_range (- 1) 1 (score r)"
    and "confidence r = NaN \<or> in_range 0 1 (confidence r)"
    using clampProp_range_or_nan [of "- 1" 1] clampProp_range_or_nan [of 0 1] by auto
  with Inr show ?thesis by (simp add: analyzeSentiment_def)
qed

lemma positive_label: "normalizeSentimentLabel (Some (JStr ''positive'')) = Inr Positive"
  by (simp add: lowerChar_def Let_def)

lemma clampValue_number:
  "lo \<le> hi \<Longrightarrow> clampValue conv lo hi (JNum r) = Inr n \<Longrightarrow> in_range lo hi n"
  by (auto simp: clampValue_def Math_max_def Math_min_def)

text \<open>
  C4, at a reply whose score is a word. \<open>JSON.parse\<close> succeeds, \<open>"high" || 0\<close> is
  \<open>"high"\<close>, \<open>Math.min(1, "high")\<close> is NaN and so is \<open>Math.max(-1, NaN)\<close>: the result
  has score NaN, which lies in no range, and nothing is thrown, so the fallback is
  not used. On a transport error and on a parse failure the result is the neutral
  fallback, as claimed.
\<close>

theorem analyzeSentiment_word_score_is_NaN:
  "analyzeSentiment conv (Parsed wordScoreReply)
     = \<lparr>score = NaN, confidence = Num 0.9, label = Positive, emotions = None\<rparr>
   \<and> \<not> in_range (- 1) 1 (score (analyzeSentiment conv (Parsed wordScoreReply)))
   \<and> analyzeSentiment conv (TransportError e) = neutralFallback
   \<and> analyzeSentiment conv ParseFailure = neutralFallback"
proof -
  have "normalizeSentiment conv wordScoreReply
      = Inr \<lparr>score = NaN, confidence = Num 0.9, label = Positive, emotions = None\<rparr>"
    by (simp add: normalizeSentiment_def wordScoreReply_def clampProp_def bindThrown_def
        orDefault_def clampValue_def stringToNumber_def startsLiteral_def isWhitespace_def
        isDigit_def Math_max_def Math_min_def positive_label
        del: normalizeSentimentLabel.simps)
  then have a: "analyzeSentiment conv (Parsed wordScoreReply)
     = \<lparr>score = NaN, confidence = Num 0.9, label = Positive, emotions = None\<rparr>"
    by (simp add: analyzeSentiment_def bindThrown_def)
  then have "\<not> in_range (- 1) 1 (score (analyzeSentiment conv (Parsed wordScoreReply)))"
    by simp
  with a analyzeSentiment_transport analyzeSentiment_parse show ?thesis by blast
qed

end

